theory Spec2Isabelle
  imports Complex_Main
begin

text \<open>
  The query builder of the Realtime Database client, \<^verbatim>\<open>packages/database/src/api/Query.ts\<close>:
  the class \<^verbatim>\<open>Query\<close> with its validation functions, its builder methods, \<^verbatim>\<open>toString\<close>,
  \<^verbatim>\<open>isEqual\<close> and the argument handling of \<^verbatim>\<open>on\<close> and \<^verbatim>\<open>once\<close>, embedded function by
  function, followed by the properties of these functions.
\<close>

section \<open>JavaScript values\<close>

text \<open>
  The query builder of \<^verbatim>\<open>packages/database/src/api/Query.ts\<close> inspects its arguments at
  run time (\<^verbatim>\<open>typeof\<close>, truthiness, \<^verbatim>\<open>Math.floor\<close>), so arguments are JavaScript values.
  A number is a finite value or one of the three special values of the number type.
  Objects and functions are references.
\<close>

datatype jsnum = Finite rat | PosInfinity | NegInfinity | NaN

datatype jsval =
    JUndefined
  | JNull
  | JBool bool
  | JNum jsnum
  | JStr string
  | JObject nat
  | JFunction nat

fun typeof :: "jsval \<Rightarrow> string" where
  "typeof JUndefined = ''undefined''"
| "typeof JNull = ''object''"
| "typeof (JBool b) = ''boolean''"
| "typeof (JNum n) = ''number''"
| "typeof (JStr s) = ''string''"
| "typeof (JObject a) = ''object''"
| "typeof (JFunction a) = ''function''"

text \<open>Truthiness, as \<^verbatim>\<open>if (x)\<close> and \<^verbatim>\<open>x && y\<close> read a value.\<close>

fun truthy :: "jsval \<Rightarrow> bool" where
  "truthy JUndefined = False"
| "truthy JNull = False"
| "truthy (JBool b) = b"
| "truthy (JNum n) = (n \<noteq> Finite 0 \<and> n \<noteq> NaN)"
| "truthy (JStr s) = (s \<noteq> [])"
| "truthy (JObject a) = True"
| "truthy (JFunction a) = True"

text \<open>\<^verbatim>\<open>x != null\<close> is false for both \<^verbatim>\<open>null\<close> and \<^verbatim>\<open>undefined\<close>.\<close>

definition notLooseNull :: "jsval \<Rightarrow> bool" where
  "notLooseNull v = (v \<noteq> JNull \<and> v \<noteq> JUndefined)"

text \<open>\<^verbatim>\<open>x || null\<close>.\<close>

definition orNull :: "jsval \<Rightarrow> jsval" where
  "orNull v = (if truthy v then v else JNull)"

fun Math_floor :: "jsnum \<Rightarrow> jsnum" where
  "Math_floor (Finite r) = Finite (of_int \<lfloor>r\<rfloor>)"
| "Math_floor PosInfinity = PosInfinity"
| "Math_floor NegInfinity = NegInfinity"
| "Math_floor NaN = NaN"

text \<open>\<^verbatim>\<open>a !== b\<close> on numbers: \<^verbatim>\<open>NaN\<close> differs from every number, itself included.\<close>

definition numStrictNeq :: "jsnum \<Rightarrow> jsnum \<Rightarrow> bool" where
  "numStrictNeq a b = (a = NaN \<or> b = NaN \<or> a \<noteq> b)"

text \<open>\<^verbatim>\<open>a <= 0\<close> on numbers.\<close>

fun numLeZero :: "jsnum \<Rightarrow> bool" where
  "numLeZero (Finite r) = (r \<le> 0)"
| "numLeZero PosInfinity = False"
| "numLeZero NegInfinity = True"
| "numLeZero NaN = False"

text \<open>\<^verbatim>\<open>throw new Error(message)\<close>. A function that returns nothing and may throw is
  modelled with result \<open>error option\<close> (\<open>None\<close>: it returned); a function that returns a
  value or throws with result \<open>error + 'a\<close>.\<close>

datatype error = Error string

definition thenDo :: "error option \<Rightarrow> error + 'a \<Rightarrow> error + 'a" where
  "thenDo r k = (case r of Some e \<Rightarrow> Inl e | None \<Rightarrow> k)"

definition bindQ :: "error + 'a \<Rightarrow> ('a \<Rightarrow> error + 'b) \<Rightarrow> error + 'b" where
  "bindQ r f = (case r of Inl e \<Rightarrow> Inl e | Inr x \<Rightarrow> f x)"

section \<open>Paths, repos, indexes\<close>

text \<open>
  Modelled from the spec: \<^verbatim>\<open>core/util/Path.ts\<close>, \<^verbatim>\<open>core/Repo.ts\<close>, \<^verbatim>\<open>api/Database.ts\<close> and
  \<^verbatim>\<open>core/snap/indexes/*\<close> are not among the sources. A path is the location of a query, a
  sequence of keys; a repo is the remote endpoint, an object compared by reference; a
  database holds its repo as \<^verbatim>\<open>repo_\<close>. An index is the closed variant of section 9 of
  the spec: key, priority, value, or a child path. A name cannot end in an underscore
  here, so the trailing underscore of a source name is written as a prime throughout
  (\<open>repo'\<close> for \<^verbatim>\<open>repo_\<close>, \<open>validateLimit'\<close> for \<^verbatim>\<open>validateLimit_\<close>).
\<close>

type_synonym Path = "string list"

type_synonym Repo = nat

record Database =
  repo' :: Repo

datatype index = KEY_INDEX | PRIORITY_INDEX | VALUE_INDEX | PathIndex Path

section \<open>QueryParams\<close>

text \<open>
  Modelled from the spec: \<^verbatim>\<open>core/view/QueryParams.ts\<close> is not among the sources. Section 3 of
  the spec: a QueryParams is immutable and holds the selected index, an optional start
  bound (value, tie-break name, inclusive or exclusive), an optional end bound of the same
  shape and an optional limit (count and anchor: first N or last N); a limit that does not
  come from \<^verbatim>\<open>limitToFirst\<close> or \<^verbatim>\<open>limitToLast\<close> has no anchor. The predicates
  \<open>hasStart\<close>, \<open>hasEnd\<close>, \<open>hasLimit\<close>, \<open>hasAnchoredLimit\<close> and \<open>getIndex\<close> read these
  components.
\<close>

datatype bound = Bound (boundValue: jsval) (boundName: "string option") (inclusive: bool)

datatype anchor = AnchorFirst | AnchorLast

datatype limit = Limit (limitCount: jsnum) (limitAnchor: "anchor option")

record QueryParams =
  qpIndex :: index
  qpStart :: "bound option"
  qpEnd :: "bound option"
  qpLimit :: "limit option"

definition hasStart :: "QueryParams \<Rightarrow> bool" where
  "hasStart params = (qpStart params \<noteq> None)"

definition hasEnd :: "QueryParams \<Rightarrow> bool" where
  "hasEnd params = (qpEnd params \<noteq> None)"

definition hasLimit :: "QueryParams \<Rightarrow> bool" where
  "hasLimit params = (qpLimit params \<noteq> None)"

definition hasAnchoredLimit :: "QueryParams \<Rightarrow> bool" where
  "hasAnchoredLimit params =
     (case qpLimit params of None \<Rightarrow> False | Some l \<Rightarrow> limitAnchor l \<noteq> None)"

definition getIndex :: "QueryParams \<Rightarrow> index" where
  "getIndex params = qpIndex params"

text \<open>
  Modelled from the spec: the four accessors of a bound, of the same missing file.
  \<^verbatim>\<open>Query.ts\<close> reads them only after \<open>hasStart\<close> (\<open>hasEnd\<close>) answered true. A bound given
  without a tie-break name reports the sentinel name (\<^verbatim>\<open>MIN_NAME\<close> for a start,
  \<^verbatim>\<open>MAX_NAME\<close> for an end), which is what \<^verbatim>\<open>Query.ts\<close> compares the name with.
\<close>

definition getIndexStartValue :: "QueryParams \<Rightarrow> jsval" where
  "getIndexStartValue params = boundValue (the (qpStart params))"

definition getIndexEndValue :: "QueryParams \<Rightarrow> jsval" where
  "getIndexEndValue params = boundValue (the (qpEnd params))"

definition getIndexStartName :: "string \<Rightarrow> QueryParams \<Rightarrow> string" where
  "getIndexStartName minName params =
     (case boundName (the (qpStart params)) of None \<Rightarrow> minName | Some n \<Rightarrow> n)"

definition getIndexEndName :: "string \<Rightarrow> QueryParams \<Rightarrow> string" where
  "getIndexEndName maxName params =
     (case boundName (the (qpEnd params)) of None \<Rightarrow> maxName | Some n \<Rightarrow> n)"

text \<open>
  Modelled from the spec: the builder functions of the same missing file. Each returns
  the parameters with one component set: an inclusive (\<^verbatim>\<open>startAt\<close>, \<^verbatim>\<open>endAt\<close>) or exclusive
  (\<^verbatim>\<open>startAfter\<close>, \<^verbatim>\<open>endBefore\<close>) bound, a limit anchored to the first or to the last
  children, or the index.
\<close>

definition queryParamsStartAt :: "QueryParams \<Rightarrow> jsval \<Rightarrow> string option \<Rightarrow> QueryParams" where
  "queryParamsStartAt queryParams indexValue key =
     queryParams\<lparr>qpStart := Some (Bound indexValue key True)\<rparr>"

definition queryParamsStartAfter :: "QueryParams \<Rightarrow> jsval \<Rightarrow> string option \<Rightarrow> QueryParams" where
  "queryParamsStartAfter queryParams indexValue key =
     queryParams\<lparr>qpStart := Some (Bound indexValue key False)\<rparr>"

definition queryParamsEndAt :: "QueryParams \<Rightarrow> jsval \<Rightarrow> string option \<Rightarrow> QueryParams" where
  "queryParamsEndAt queryParams indexValue key =
     queryParams\<lparr>qpEnd := Some (Bound indexValue key True)\<rparr>"

definition queryParamsEndBefore :: "QueryParams \<Rightarrow> jsval \<Rightarrow> string option \<Rightarrow> QueryParams" where
  "queryParamsEndBefore queryParams indexValue key =
     queryParams\<lparr>qpEnd := Some (Bound indexValue key False)\<rparr>"

definition queryParamsLimitToFirst :: "QueryParams \<Rightarrow> jsnum \<Rightarrow> QueryParams" where
  "queryParamsLimitToFirst queryParams newLimit =
     queryParams\<lparr>qpLimit := Some (Limit newLimit (Some AnchorFirst))\<rparr>"

definition queryParamsLimitToLast :: "QueryParams \<Rightarrow> jsnum \<Rightarrow> QueryParams" where
  "queryParamsLimitToLast queryParams newLimit =
     queryParams\<lparr>qpLimit := Some (Limit newLimit (Some AnchorLast))\<rparr>"

definition queryParamsOrderBy :: "QueryParams \<Rightarrow> index \<Rightarrow> QueryParams" where
  "queryParamsOrderBy queryParams idx = queryParams\<lparr>qpIndex := idx\<rparr>"

text \<open>
  Modelled from the spec: the canonical parameter object (sections 4.3 and 6). It is a
  mapping with a fixed set of keys, each present or absent, and it is empty (\<^verbatim>\<open>{}\<close>) for
  the default query, which has no range and no limit and orders by key.
\<close>

datatype queryObject =
  QueryObject (objStart: "bound option") (objEnd: "bound option")
    (objLimit: "limit option") (objIndex: "index option")

definition emptyObject :: queryObject where
  "emptyObject = QueryObject None None None None"

definition queryParamsGetQueryObject :: "QueryParams \<Rightarrow> queryObject" where
  "queryParamsGetQueryObject queryParams =
     QueryObject (qpStart queryParams) (qpEnd queryParams) (qpLimit queryParams)
       (if qpIndex queryParams = KEY_INDEX then None else Some (qpIndex queryParams))"

section \<open>The helpers Query.ts imports\<close>

text \<open>
  The validation helpers of \<^verbatim>\<open>@firebase/util\<close> and \<^verbatim>\<open>core/util/validation.ts\<close>, the path
  functions, \<^verbatim>\<open>ObjectToUniqueKey\<close> and the two sentinel names are not among the sources
  and the spec does not describe them. They are parameters of the model: every function of
  \<^verbatim>\<open>Query.ts\<close> takes the record of them as its first argument, and every theorem holds
  for whatever they do, or says what it assumes of them. A validator answers \<open>None\<close> when
  it returns and \<open>Some e\<close> when it throws \<open>e\<close>.
\<close>

record deps =
  validateArgCount :: "string \<Rightarrow> nat \<Rightarrow> nat \<Rightarrow> nat \<Rightarrow> error option"
  validateFirebaseDataArg :: "string \<Rightarrow> nat \<Rightarrow> jsval \<Rightarrow> Path \<Rightarrow> bool \<Rightarrow> error option"
  validateKey :: "string \<Rightarrow> nat \<Rightarrow> string option \<Rightarrow> bool \<Rightarrow> error option"
  validatePathString :: "string \<Rightarrow> nat \<Rightarrow> string \<Rightarrow> bool \<Rightarrow> error option"
  validateEventType :: "string \<Rightarrow> nat \<Rightarrow> string \<Rightarrow> bool \<Rightarrow> error option"
  validateCallback :: "string \<Rightarrow> nat \<Rightarrow> jsval \<Rightarrow> bool \<Rightarrow> error option"
  validateContextObject :: "string \<Rightarrow> nat \<Rightarrow> jsval \<Rightarrow> bool \<Rightarrow> error option"
  errorPrefix :: "string \<Rightarrow> nat \<Rightarrow> bool \<Rightarrow> string"
  isValidPriority :: "jsval \<Rightarrow> bool"
  MIN_NAME :: string
  MAX_NAME :: string
  newPath :: "string \<Rightarrow> Path"
  pathIsEmpty :: "Path \<Rightarrow> bool"
  pathEquals :: "Path \<Rightarrow> Path \<Rightarrow> bool"
  pathToUrlEncodedString :: "Path \<Rightarrow> string"
  repoToString :: "Repo \<Rightarrow> string"
  ObjectToUniqueKey :: "queryObject \<Rightarrow> string"

section \<open>Query\<close>

text \<open>The class \<^verbatim>\<open>Query\<close>: its four constructor parameters are fields, and the constructor
  sets \<^verbatim>\<open>repo\<close> from the database.\<close>

record Query =
  database :: Database
  path :: Path
  queryParams' :: QueryParams
  orderByCalled' :: bool
  repo :: Repo

definition new_Query :: "Database \<Rightarrow> Path \<Rightarrow> QueryParams \<Rightarrow> bool \<Rightarrow> Query" where
  "new_Query db p params orderByCalled =
     \<lparr>database = db, path = p, queryParams' = params, orderByCalled' = orderByCalled,
      repo = repo' db\<rparr>"

subsection \<open>Validation of the parameters\<close>

definition firstError :: "error option \<Rightarrow> error option \<Rightarrow> error option" where
  "firstError a b = (case a of Some e \<Rightarrow> Some e | None \<Rightarrow> b)"

definition tooManyArgsError :: string where
  "tooManyArgsError =
     ''Query: When ordering by key, you may only pass one argument to '' @
     ''startAt(), endAt(), or equalTo().''"

definition wrongArgTypeError :: string where
  "wrongArgTypeError =
     ''Query: When ordering by key, the argument passed to startAt(), startAfter(), '' @
     ''endAt(), endBefore(), or equalTo() must be a string.''"

text \<open>\<^verbatim>\<open>Query.validateQueryEndpoints_\<close> (lines 108 to 168). The assertion of the last branch
  cannot fail: an index that is neither the key index nor the priority index is the value
  index or a path index.\<close>

definition validateQueryEndpoints' :: "deps \<Rightarrow> QueryParams \<Rightarrow> error option" where
  "validateQueryEndpoints' D params =
    (let startNode = (if hasStart params then getIndexStartValue params else JNull);
         endNode = (if hasEnd params then getIndexEndValue params else JNull)
     in
     if getIndex params = KEY_INDEX then
       firstError
         (if hasStart params then
            (let startName = getIndexStartName (MIN_NAME D) params in
             if startName \<noteq> MIN_NAME D then Some (Error tooManyArgsError)
             else if typeof startNode \<noteq> ''string'' then Some (Error wrongArgTypeError)
             else None)
          else None)
         (if hasEnd params then
            (let endName = getIndexEndName (MAX_NAME D) params in
             if endName \<noteq> MAX_NAME D then Some (Error tooManyArgsError)
             else if typeof endNode \<noteq> ''string'' then Some (Error wrongArgTypeError)
             else None)
          else None)
     else if getIndex params = PRIORITY_INDEX then
       (if (notLooseNull startNode \<and> \<not> isValidPriority D startNode) \<or>
           (notLooseNull endNode \<and> \<not> isValidPriority D endNode)
        then Some (Error
          (''Query: When ordering by priority, the first argument passed to startAt(), '' @
           ''startAfter() endAt(), endBefore(), or equalTo() must be a valid priority value '' @
           ''(null, a number, or a string).''))
        else None)
     else
       (if (notLooseNull startNode \<and> typeof startNode = ''object'') \<or>
           (notLooseNull endNode \<and> typeof endNode = ''object'')
        then Some (Error
          (''Query: First argument passed to startAt(), startAfter(), endAt(), endBefore(), or '' @
           ''equalTo() cannot be an object.''))
        else None))"

text \<open>\<^verbatim>\<open>Query.validateLimit_\<close> (lines 173 to 185).\<close>

definition validateLimit' :: "QueryParams \<Rightarrow> error option" where
  "validateLimit' params =
    (if hasStart params \<and> hasEnd params \<and> hasLimit params \<and> \<not> hasAnchoredLimit params
     then Some (Error
       (''Query: Can't combine startAt(), startAfter(), endAt(), endBefore(), and limit(). Use '' @
        ''limitToFirst() or limitToLast() instead.''))
     else None)"

text \<open>\<^verbatim>\<open>Query.validateNoPreviousOrderByCall_\<close> (lines 190 to 194).\<close>

definition validateNoPreviousOrderByCall' :: "Query \<Rightarrow> string \<Rightarrow> error option" where
  "validateNoPreviousOrderByCall' this fnName =
    (if orderByCalled' this = True
     then Some (Error (fnName @ '': You can't combine multiple orderBy calls.''))
     else None)"

subsection \<open>The builder methods\<close>

text \<open>
  A method takes the helpers, the receiver \<open>this\<close>, the number of arguments of the call
  (\<^verbatim>\<open>arguments.length\<close>) and its parameters. A parameter the source inspects with
  \<^verbatim>\<open>typeof\<close> is a JavaScript value; a tie-break name is a string or absent (\<^verbatim>\<open>null\<close> or
  \<^verbatim>\<open>undefined\<close>).
\<close>

text \<open>\<^verbatim>\<open>Query.limitToFirst\<close> (lines 363 to 387).\<close>

definition limitToFirst :: "deps \<Rightarrow> Query \<Rightarrow> nat \<Rightarrow> jsval \<Rightarrow> error + Query" where
  "limitToFirst D this argc limit =
    thenDo (validateArgCount D ''Query.limitToFirst'' 1 1 argc)
    (case limit of
       JNum n \<Rightarrow>
         if numStrictNeq (Math_floor n) n \<or> numLeZero n then
           Inl (Error ''Query.limitToFirst: First argument must be a positive integer.'')
         else if hasLimit (queryParams' this) then
           Inl (Error
             (''Query.limitToFirst: Limit was already set (by another call to limit, '' @
              ''limitToFirst, or limitToLast).''))
         else
           Inr (new_Query (database this) (path this)
                  (queryParamsLimitToFirst (queryParams' this) n) (orderByCalled' this))
     | _ \<Rightarrow> Inl (Error ''Query.limitToFirst: First argument must be a positive integer.''))"

text \<open>\<^verbatim>\<open>Query.limitToLast\<close> (lines 392 to 416).\<close>

definition limitToLast :: "deps \<Rightarrow> Query \<Rightarrow> nat \<Rightarrow> jsval \<Rightarrow> error + Query" where
  "limitToLast D this argc limit =
    thenDo (validateArgCount D ''Query.limitToLast'' 1 1 argc)
    (case limit of
       JNum n \<Rightarrow>
         if numStrictNeq (Math_floor n) n \<or> numLeZero n then
           Inl (Error ''Query.limitToLast: First argument must be a positive integer.'')
         else if hasLimit (queryParams' this) then
           Inl (Error
             (''Query.limitToLast: Limit was already set (by another call to limit, '' @
              ''limitToFirst, or limitToLast).''))
         else
           Inr (new_Query (database this) (path this)
                  (queryParamsLimitToLast (queryParams' this) n) (orderByCalled' this))
     | _ \<Rightarrow> Inl (Error ''Query.limitToLast: First argument must be a positive integer.''))"

text \<open>\<^verbatim>\<open>Query.orderByChild\<close> (lines 421 to 454); its parameter \<^verbatim>\<open>path\<close> is \<open>pathString\<close>
  here.\<close>

definition orderByChild :: "deps \<Rightarrow> Query \<Rightarrow> nat \<Rightarrow> string \<Rightarrow> error + Query" where
  "orderByChild D this argc pathString =
    thenDo (validateArgCount D ''Query.orderByChild'' 1 1 argc)
    (if pathString = ''$key'' then
       Inl (Error ''Query.orderByChild: \"$key\" is invalid.  Use Query.orderByKey() instead.'')
     else if pathString = ''$priority'' then
       Inl (Error
         ''Query.orderByChild: \"$priority\" is invalid.  Use Query.orderByPriority() instead.'')
     else if pathString = ''$value'' then
       Inl (Error ''Query.orderByChild: \"$value\" is invalid.  Use Query.orderByValue() instead.'')
     else
       thenDo (validatePathString D ''Query.orderByChild'' 1 pathString False)
       (thenDo (validateNoPreviousOrderByCall' this ''Query.orderByChild'')
       (let parsedPath = newPath D pathString in
        if pathIsEmpty D parsedPath then
          Inl (Error
            ''Query.orderByChild: cannot pass in empty path.  Use Query.orderByValue() instead.'')
        else
          (let idx = PathIndex parsedPath;
               newParams = queryParamsOrderBy (queryParams' this) idx
           in thenDo (validateQueryEndpoints' D newParams)
                (Inr (new_Query (database this) (path this) newParams True))))))"

text \<open>\<^verbatim>\<open>Query.orderByKey\<close>, \<^verbatim>\<open>orderByPriority\<close>, \<^verbatim>\<open>orderByValue\<close> (lines 459 to 502).\<close>

definition orderByKey :: "deps \<Rightarrow> Query \<Rightarrow> nat \<Rightarrow> error + Query" where
  "orderByKey D this argc =
    thenDo (validateArgCount D ''Query.orderByKey'' 0 0 argc)
    (thenDo (validateNoPreviousOrderByCall' this ''Query.orderByKey'')
    (let newParams = queryParamsOrderBy (queryParams' this) KEY_INDEX in
     thenDo (validateQueryEndpoints' D newParams)
       (Inr (new_Query (database this) (path this) newParams True))))"

definition orderByPriority :: "deps \<Rightarrow> Query \<Rightarrow> nat \<Rightarrow> error + Query" where
  "orderByPriority D this argc =
    thenDo (validateArgCount D ''Query.orderByPriority'' 0 0 argc)
    (thenDo (validateNoPreviousOrderByCall' this ''Query.orderByPriority'')
    (let newParams = queryParamsOrderBy (queryParams' this) PRIORITY_INDEX in
     thenDo (validateQueryEndpoints' D newParams)
       (Inr (new_Query (database this) (path this) newParams True))))"

definition orderByValue :: "deps \<Rightarrow> Query \<Rightarrow> nat \<Rightarrow> error + Query" where
  "orderByValue D this argc =
    thenDo (validateArgCount D ''Query.orderByValue'' 0 0 argc)
    (thenDo (validateNoPreviousOrderByCall' this ''Query.orderByValue'')
    (let newParams = queryParamsOrderBy (queryParams' this) VALUE_INDEX in
     thenDo (validateQueryEndpoints' D newParams)
       (Inr (new_Query (database this) (path this) newParams True))))"

text \<open>The default \<^verbatim>\<open>= null\<close> of the first parameter of \<^verbatim>\<open>startAt\<close>, \<^verbatim>\<open>startAfter\<close>, \<^verbatim>\<open>endAt\<close>
  and \<^verbatim>\<open>endBefore\<close>: an argument that is \<^verbatim>\<open>undefined\<close> is replaced by \<^verbatim>\<open>null\<close>.\<close>

definition defaultNull :: "jsval \<Rightarrow> jsval" where
  "defaultNull v = (if v = JUndefined then JNull else v)"

text \<open>\<^verbatim>\<open>Query.startAt\<close> (lines 504 to 529). After the default, \<^verbatim>\<open>value\<close> is never
  \<^verbatim>\<open>undefined\<close>, so the assignment of lines 523 to 526 does nothing.\<close>

definition startAt :: "deps \<Rightarrow> Query \<Rightarrow> nat \<Rightarrow> jsval \<Rightarrow> string option \<Rightarrow> error + Query" where
  "startAt D this argc value0 name =
    (let value = defaultNull value0 in
     thenDo (validateArgCount D ''Query.startAt'' 0 2 argc)
     (thenDo (validateFirebaseDataArg D ''Query.startAt'' 1 value (path this) True)
     (thenDo (validateKey D ''Query.startAt'' 2 name True)
     (let newParams = queryParamsStartAt (queryParams' this) value name in
      thenDo (validateLimit' newParams)
      (thenDo (validateQueryEndpoints' D newParams)
      (if hasStart (queryParams' this) then
         Inl (Error
           (''Query.startAt: Starting point was already set (by another call to startAt '' @
            ''or equalTo).''))
       else
         Inr (new_Query (database this) (path this) newParams (orderByCalled' this))))))))"

text \<open>\<^verbatim>\<open>Query.startAfter\<close> (lines 531 to 550).\<close>

definition startAfter :: "deps \<Rightarrow> Query \<Rightarrow> nat \<Rightarrow> jsval \<Rightarrow> string option \<Rightarrow> error + Query" where
  "startAfter D this argc value0 name =
    (let value = defaultNull value0 in
     thenDo (validateArgCount D ''Query.startAfter'' 0 2 argc)
     (thenDo (validateFirebaseDataArg D ''Query.startAfter'' 1 value (path this) False)
     (thenDo (validateKey D ''Query.startAfter'' 2 name True)
     (let newParams = queryParamsStartAfter (queryParams' this) value name in
      thenDo (validateLimit' newParams)
      (thenDo (validateQueryEndpoints' D newParams)
      (if hasStart (queryParams' this) then
         Inl (Error
           (''Query.startAfter: Starting point was already set (by another call to startAt, startAfter '' @
            ''or equalTo).''))
       else
         Inr (new_Query (database this) (path this) newParams (orderByCalled' this))))))))"

text \<open>\<^verbatim>\<open>Query.endAt\<close> (lines 552 to 571).\<close>

definition endAt :: "deps \<Rightarrow> Query \<Rightarrow> nat \<Rightarrow> jsval \<Rightarrow> string option \<Rightarrow> error + Query" where
  "endAt D this argc value0 name =
    (let value = defaultNull value0 in
     thenDo (validateArgCount D ''Query.endAt'' 0 2 argc)
     (thenDo (validateFirebaseDataArg D ''Query.endAt'' 1 value (path this) True)
     (thenDo (validateKey D ''Query.endAt'' 2 name True)
     (let newParams = queryParamsEndAt (queryParams' this) value name in
      thenDo (validateLimit' newParams)
      (thenDo (validateQueryEndpoints' D newParams)
      (if hasEnd (queryParams' this) then
         Inl (Error
           (''Query.endAt: Ending point was already set (by another call to endAt, endBefore, or '' @
            ''equalTo).''))
       else
         Inr (new_Query (database this) (path this) newParams (orderByCalled' this))))))))"

text \<open>\<^verbatim>\<open>Query.endBefore\<close> (lines 573 to 592).\<close>

definition endBefore :: "deps \<Rightarrow> Query \<Rightarrow> nat \<Rightarrow> jsval \<Rightarrow> string option \<Rightarrow> error + Query" where
  "endBefore D this argc value0 name =
    (let value = defaultNull value0 in
     thenDo (validateArgCount D ''Query.endBefore'' 0 2 argc)
     (thenDo (validateFirebaseDataArg D ''Query.endBefore'' 1 value (path this) False)
     (thenDo (validateKey D ''Query.endBefore'' 2 name True)
     (let newParams = queryParamsEndBefore (queryParams' this) value name in
      thenDo (validateLimit' newParams)
      (thenDo (validateQueryEndpoints' D newParams)
      (if hasEnd (queryParams' this) then
         Inl (Error
           (''Query.endBefore: Ending point was already set (by another call to endAt, endBefore, or '' @
            ''equalTo).''))
       else
         Inr (new_Query (database this) (path this) newParams (orderByCalled' this))))))))"

text \<open>\<^verbatim>\<open>Query.equalTo\<close> (lines 598 to 615): \<open>equalToChecks\<close> is lines 599 to 613, the
  return of line 614 follows. The two inner calls pass two arguments.\<close>

definition equalToChecks :: "deps \<Rightarrow> Query \<Rightarrow> nat \<Rightarrow> jsval \<Rightarrow> string option \<Rightarrow> error option" where
  "equalToChecks D this argc value name =
    firstError (validateArgCount D ''Query.equalTo'' 1 2 argc)
    (firstError (validateFirebaseDataArg D ''Query.equalTo'' 1 value (path this) False)
    (firstError (validateKey D ''Query.equalTo'' 2 name True)
    (if hasStart (queryParams' this) then
       Some (Error
         (''Query.equalTo: Starting point was already set (by another call to startAt/startAfter or '' @
          ''equalTo).''))
     else if hasEnd (queryParams' this) then
       Some (Error
         (''Query.equalTo: Ending point was already set (by another call to endAt/endBefore or '' @
          ''equalTo).''))
     else None)))"

definition equalTo :: "deps \<Rightarrow> Query \<Rightarrow> nat \<Rightarrow> jsval \<Rightarrow> string option \<Rightarrow> error + Query" where
  "equalTo D this argc value name =
    thenDo (equalToChecks D this argc value name)
      (bindQ (startAt D this 2 value name) (\<lambda>q. endAt D q 2 value name))"

subsection \<open>Identity of a query\<close>

text \<open>\<^verbatim>\<open>Query.toString\<close> (lines 620 to 624).\<close>

definition toString :: "deps \<Rightarrow> Query \<Rightarrow> nat \<Rightarrow> error + string" where
  "toString D this argc =
    thenDo (validateArgCount D ''Query.toString'' 0 0 argc)
      (Inr (repoToString D (repo this) @ pathToUrlEncodedString D (path this)))"

text \<open>\<^verbatim>\<open>Query.queryObject\<close> and \<^verbatim>\<open>Query.queryIdentifier\<close> (lines 637 to 645).\<close>

definition queryObject :: "Query \<Rightarrow> queryObject" where
  "queryObject this = queryParamsGetQueryObject (queryParams' this)"

definition queryIdentifier :: "deps \<Rightarrow> Query \<Rightarrow> string" where
  "queryIdentifier D this =
    (let obj = queryObject this;
         id = ObjectToUniqueKey D obj
     in if id = ''{}'' then ''default'' else id)"

text \<open>\<^verbatim>\<open>Query.isEqual\<close> (lines 650 to 664). The argument is a query (\<open>Inr\<close>) or a value
  that is not an instance of \<^verbatim>\<open>Query\<close> (\<open>Inl\<close>).\<close>

definition isEqual :: "deps \<Rightarrow> Query \<Rightarrow> nat \<Rightarrow> jsval + Query \<Rightarrow> error + bool" where
  "isEqual D this argc other =
    thenDo (validateArgCount D ''Query.isEqual'' 1 1 argc)
    (case other of
       Inl v \<Rightarrow>
         Inl (Error
           ''Query.isEqual failed: First argument must be an instance of firebase.database.Query.'')
     | Inr otherQuery \<Rightarrow>
         (let sameRepo = (repo this = repo otherQuery);
              samePath = pathEquals D (path this) (path otherQuery);
              sameQueryIdentifier = (queryIdentifier D this = queryIdentifier D otherQuery)
          in Inr (sameRepo \<and> samePath \<and> sameQueryIdentifier)))"

subsection \<open>Listeners\<close>

text \<open>\<^verbatim>\<open>Query.getCancelAndContextArgs_\<close> (lines 671 to 701).\<close>

record CancelAndContext =
  retCancel :: jsval
  retContext :: jsval

definition getCancelAndContextArgs' ::
  "deps \<Rightarrow> string \<Rightarrow> jsval \<Rightarrow> jsval \<Rightarrow> error + CancelAndContext" where
  "getCancelAndContextArgs' D fnName cancelOrContext ctx =
    (if truthy cancelOrContext \<and> truthy ctx then
       thenDo (validateCallback D fnName 3 cancelOrContext True)
       (thenDo (validateContextObject D fnName 4 ctx True)
       (Inr \<lparr>retCancel = cancelOrContext, retContext = ctx\<rparr>))
     else if truthy cancelOrContext then
       (if typeof cancelOrContext = ''object'' \<and> cancelOrContext \<noteq> JNull then
          Inr \<lparr>retCancel = JNull, retContext = cancelOrContext\<rparr>
        else if typeof cancelOrContext = ''function'' then
          Inr \<lparr>retCancel = cancelOrContext, retContext = JNull\<rparr>
        else
          Inl (Error
            (errorPrefix D fnName 3 True @
             '' must either be a cancel callback or a context object.'')))
     else Inr \<lparr>retCancel = JNull, retContext = JNull\<rparr>)"

text \<open>
  Modelled from the spec: \<^verbatim>\<open>core/view/EventRegistration.ts\<close> and
  \<^verbatim>\<open>repoAddEventCallbackForQuery\<close> are not among the sources. An event registration is a
  value callback or a set of child-event callbacks, with a cancel callback and a context
  (section 3 of the spec); \<^verbatim>\<open>on\<close> hands one to the repo, and the model returns it beside
  the callback that \<^verbatim>\<open>on\<close> returns.
\<close>

datatype EventRegistration =
    ValueEventRegistration jsval jsval jsval
  | ChildEventRegistration "(string \<times> jsval) list" jsval jsval

text \<open>\<^verbatim>\<open>Query.onValueEvent\<close> and \<^verbatim>\<open>Query.onChildEvent\<close> (lines 237 to 261).\<close>

definition onValueEvent :: "jsval \<Rightarrow> jsval \<Rightarrow> jsval \<Rightarrow> EventRegistration" where
  "onValueEvent callback cancelCallback ctx =
     ValueEventRegistration callback (orNull cancelCallback) (orNull ctx)"

definition onChildEvent :: "(string \<times> jsval) list \<Rightarrow> jsval \<Rightarrow> jsval \<Rightarrow> EventRegistration" where
  "onChildEvent callbacks cancelCallback ctx =
     ChildEventRegistration callbacks cancelCallback ctx"

text \<open>\<^verbatim>\<open>Query.on\<close> (lines 211 to 235).\<close>

definition on ::
  "deps \<Rightarrow> Query \<Rightarrow> nat \<Rightarrow> string \<Rightarrow> jsval \<Rightarrow> jsval \<Rightarrow> jsval \<Rightarrow> error + EventRegistration \<times> jsval" where
  "on D this argc eventType callback cancelCallbackOrContext ctx =
    thenDo (validateArgCount D ''Query.on'' 2 4 argc)
    (thenDo (validateEventType D ''Query.on'' 1 eventType False)
    (thenDo (validateCallback D ''Query.on'' 2 callback False)
    (bindQ (getCancelAndContextArgs' D ''Query.on'' cancelCallbackOrContext ctx)
      (\<lambda>ret.
        if eventType = ''value'' then
          Inr (onValueEvent callback (retCancel ret) (retContext ret), callback)
        else
          Inr (onChildEvent [(eventType, callback)] (retCancel ret) (retContext ret),
               callback)))))"

text \<open>The first statements of \<^verbatim>\<open>Query.once\<close> (lines 311 to 319), up to the value of
  \<^verbatim>\<open>ret\<close>, which the callbacks built afterwards read.\<close>

definition onceRet ::
  "deps \<Rightarrow> Query \<Rightarrow> nat \<Rightarrow> string \<Rightarrow> jsval \<Rightarrow> jsval \<Rightarrow> jsval \<Rightarrow> error + CancelAndContext" where
  "onceRet D this argc eventType userCallback failureCallbackOrContext ctx =
    thenDo (validateArgCount D ''Query.once'' 1 4 argc)
    (thenDo (validateEventType D ''Query.once'' 1 eventType False)
    (thenDo (validateCallback D ''Query.once'' 2 userCallback True)
    (getCancelAndContextArgs' D ''Query.once'' failureCallbackOrContext ctx)))"

section \<open>Queries as objects\<close>

text \<open>
  The methods above take their receiver as a value. To say what a call does to the
  queries that exist when it is made, the builder methods are written here a second time,
  on a store: a query object is a position in the list of the queries constructed so far,
  \<open>this\<close> is such a position, and a field of the receiver is read from the store wherever
  the source reads it (\<^verbatim>\<open>this.queryParams_\<close> is \<open>queryParams' (h ! this)\<close>). A method
  answers the store it leaves and, beside it, the error it throws or the position of the
  query it returns.
\<close>

type_synonym store = "Query list"

text \<open>\<^verbatim>\<open>throw new Error(...)\<close>: the store stays as it is.\<close>

definition throwing :: "store \<Rightarrow> error \<Rightarrow> store \<times> (error + nat)" where
  "throwing h e = (h, Inl e)"

text \<open>A call of a validator of the previous sections, which throws or lets the method go
  on; it is given values and does not write to the store.\<close>

definition guarded ::
  "store \<Rightarrow> error option \<Rightarrow> store \<times> (error + nat) \<Rightarrow> store \<times> (error + nat)" where
  "guarded h r k = (case r of Some e \<Rightarrow> throwing h e | None \<Rightarrow> k)"

text \<open>\<^verbatim>\<open>return new Query(database, path, params, orderByCalled)\<close>: the constructed query is
  a new object, at the first free position.\<close>

definition construct_Query ::
  "store \<Rightarrow> Database \<Rightarrow> Path \<Rightarrow> QueryParams \<Rightarrow> bool \<Rightarrow> store \<times> (error + nat)" where
  "construct_Query h db p params orderByCalled =
     (h @ [new_Query db p params orderByCalled], Inr (length h))"

text \<open>\<^verbatim>\<open>Query.limitToFirst\<close> and \<^verbatim>\<open>Query.limitToLast\<close> (lines 363 to 416).\<close>

definition Query_limitToFirst ::
  "deps \<Rightarrow> store \<Rightarrow> nat \<Rightarrow> nat \<Rightarrow> jsval \<Rightarrow> store \<times> (error + nat)" where
  "Query_limitToFirst D h this argc limit =
    guarded h (validateArgCount D ''Query.limitToFirst'' 1 1 argc)
    (case limit of
       JNum n \<Rightarrow>
         if numStrictNeq (Math_floor n) n \<or> numLeZero n then
           throwing h (Error ''Query.limitToFirst: First argument must be a positive integer.'')
         else if hasLimit (queryParams' (h ! this)) then
           throwing h (Error
             (''Query.limitToFirst: Limit was already set (by another call to limit, '' @
              ''limitToFirst, or limitToLast).''))
         else
           construct_Query h (database (h ! this)) (path (h ! this))
             (queryParamsLimitToFirst (queryParams' (h ! this)) n) (orderByCalled' (h ! this))
     | _ \<Rightarrow> throwing h (Error ''Query.limitToFirst: First argument must be a positive integer.''))"

definition Query_limitToLast ::
  "deps \<Rightarrow> store \<Rightarrow> nat \<Rightarrow> nat \<Rightarrow> jsval \<Rightarrow> store \<times> (error + nat)" where
  "Query_limitToLast D h this argc limit =
    guarded h (validateArgCount D ''Query.limitToLast'' 1 1 argc)
    (case limit of
       JNum n \<Rightarrow>
         if numStrictNeq (Math_floor n) n \<or> numLeZero n then
           throwing h (Error ''Query.limitToLast: First argument must be a positive integer.'')
         else if hasLimit (queryParams' (h ! this)) then
           throwing h (Error
             (''Query.limitToLast: Limit was already set (by another call to limit, '' @
              ''limitToFirst, or limitToLast).''))
         else
           construct_Query h (database (h ! this)) (path (h ! this))
             (queryParamsLimitToLast (queryParams' (h ! this)) n) (orderByCalled' (h ! this))
     | _ \<Rightarrow> throwing h (Error ''Query.limitToLast: First argument must be a positive integer.''))"

text \<open>\<^verbatim>\<open>Query.orderByChild\<close>, \<^verbatim>\<open>orderByKey\<close>, \<^verbatim>\<open>orderByPriority\<close> and \<^verbatim>\<open>orderByValue\<close>
  (lines 421 to 502).\<close>

definition Query_orderByChild ::
  "deps \<Rightarrow> store \<Rightarrow> nat \<Rightarrow> nat \<Rightarrow> string \<Rightarrow> store \<times> (error + nat)" where
  "Query_orderByChild D h this argc pathString =
    guarded h (validateArgCount D ''Query.orderByChild'' 1 1 argc)
    (if pathString = ''$key'' then
       throwing h (Error ''Query.orderByChild: \"$key\" is invalid.  Use Query.orderByKey() instead.'')
     else if pathString = ''$priority'' then
       throwing h (Error
         ''Query.orderByChild: \"$priority\" is invalid.  Use Query.orderByPriority() instead.'')
     else if pathString = ''$value'' then
       throwing h (Error ''Query.orderByChild: \"$value\" is invalid.  Use Query.orderByValue() instead.'')
     else
       guarded h (validatePathString D ''Query.orderByChild'' 1 pathString False)
       (guarded h (validateNoPreviousOrderByCall' (h ! this) ''Query.orderByChild'')
       (let parsedPath = newPath D pathString in
        if pathIsEmpty D parsedPath then
          throwing h (Error
            ''Query.orderByChild: cannot pass in empty path.  Use Query.orderByValue() instead.'')
        else
          (let idx = PathIndex parsedPath;
               newParams = queryParamsOrderBy (queryParams' (h ! this)) idx
           in guarded h (validateQueryEndpoints' D newParams)
                (construct_Query h (database (h ! this)) (path (h ! this)) newParams True)))))"

definition Query_orderByKey ::
  "deps \<Rightarrow> store \<Rightarrow> nat \<Rightarrow> nat \<Rightarrow> store \<times> (error + nat)" where
  "Query_orderByKey D h this argc =
    guarded h (validateArgCount D ''Query.orderByKey'' 0 0 argc)
    (guarded h (validateNoPreviousOrderByCall' (h ! this) ''Query.orderByKey'')
    (let newParams = queryParamsOrderBy (queryParams' (h ! this)) KEY_INDEX in
     guarded h (validateQueryEndpoints' D newParams)
       (construct_Query h (database (h ! this)) (path (h ! this)) newParams True)))"

definition Query_orderByPriority ::
  "deps \<Rightarrow> store \<Rightarrow> nat \<Rightarrow> nat \<Rightarrow> store \<times> (error + nat)" where
  "Query_orderByPriority D h this argc =
    guarded h (validateArgCount D ''Query.orderByPriority'' 0 0 argc)
    (guarded h (validateNoPreviousOrderByCall' (h ! this) ''Query.orderByPriority'')
    (let newParams = queryParamsOrderBy (queryParams' (h ! this)) PRIORITY_INDEX in
     guarded h (validateQueryEndpoints' D newParams)
       (construct_Query h (database (h ! this)) (path (h ! this)) newParams True)))"

definition Query_orderByValue ::
  "deps \<Rightarrow> store \<Rightarrow> nat \<Rightarrow> nat \<Rightarrow> store \<times> (error + nat)" where
  "Query_orderByValue D h this argc =
    guarded h (validateArgCount D ''Query.orderByValue'' 0 0 argc)
    (guarded h (validateNoPreviousOrderByCall' (h ! this) ''Query.orderByValue'')
    (let newParams = queryParamsOrderBy (queryParams' (h ! this)) VALUE_INDEX in
     guarded h (validateQueryEndpoints' D newParams)
       (construct_Query h (database (h ! this)) (path (h ! this)) newParams True)))"

text \<open>\<^verbatim>\<open>Query.startAt\<close>, \<^verbatim>\<open>startAfter\<close>, \<^verbatim>\<open>endAt\<close> and \<^verbatim>\<open>endBefore\<close> (lines 504 to 592).\<close>

definition Query_startAt ::
  "deps \<Rightarrow> store \<Rightarrow> nat \<Rightarrow> nat \<Rightarrow> jsval \<Rightarrow> string option \<Rightarrow> store \<times> (error + nat)" where
  "Query_startAt D h this argc value0 name =
    (let value = defaultNull value0 in
     guarded h (validateArgCount D ''Query.startAt'' 0 2 argc)
     (guarded h (validateFirebaseDataArg D ''Query.startAt'' 1 value (path (h ! this)) True)
     (guarded h (validateKey D ''Query.startAt'' 2 name True)
     (let newParams = queryParamsStartAt (queryParams' (h ! this)) value name in
      guarded h (validateLimit' newParams)
      (guarded h (validateQueryEndpoints' D newParams)
      (if hasStart (queryParams' (h ! this)) then
         throwing h (Error
           (''Query.startAt: Starting point was already set (by another call to startAt '' @
            ''or equalTo).''))
       else
         construct_Query h (database (h ! this)) (path (h ! this)) newParams
           (orderByCalled' (h ! this))))))))"

definition Query_startAfter ::
  "deps \<Rightarrow> store \<Rightarrow> nat \<Rightarrow> nat \<Rightarrow> jsval \<Rightarrow> string option \<Rightarrow> store \<times> (error + nat)" where
  "Query_startAfter D h this argc value0 name =
    (let value = defaultNull value0 in
     guarded h (validateArgCount D ''Query.startAfter'' 0 2 argc)
     (guarded h (validateFirebaseDataArg D ''Query.startAfter'' 1 value (path (h ! this)) False)
     (guarded h (validateKey D ''Query.startAfter'' 2 name True)
     (let newParams = queryParamsStartAfter (queryParams' (h ! this)) value name in
      guarded h (validateLimit' newParams)
      (guarded h (validateQueryEndpoints' D newParams)
      (if hasStart (queryParams' (h ! this)) then
         throwing h (Error
           (''Query.startAfter: Starting point was already set (by another call to startAt, startAfter '' @
            ''or equalTo).''))
       else
         construct_Query h (database (h ! this)) (path (h ! this)) newParams
           (orderByCalled' (h ! this))))))))"

definition Query_endAt ::
  "deps \<Rightarrow> store \<Rightarrow> nat \<Rightarrow> nat \<Rightarrow> jsval \<Rightarrow> string option \<Rightarrow> store \<times> (error + nat)" where
  "Query_endAt D h this argc value0 name =
    (let value = defaultNull value0 in
     guarded h (validateArgCount D ''Query.endAt'' 0 2 argc)
     (guarded h (validateFirebaseDataArg D ''Query.endAt'' 1 value (path (h ! this)) True)
     (guarded h (validateKey D ''Query.endAt'' 2 name True)
     (let newParams = queryParamsEndAt (queryParams' (h ! this)) value name in
      guarded h (validateLimit' newParams)
      (guarded h (validateQueryEndpoints' D newParams)
      (if hasEnd (queryParams' (h ! this)) then
         throwing h (Error
           (''Query.endAt: Ending point was already set (by another call to endAt, endBefore, or '' @
            ''equalTo).''))
       else
         construct_Query h (database (h ! this)) (path (h ! this)) newParams
           (orderByCalled' (h ! this))))))))"

definition Query_endBefore ::
  "deps \<Rightarrow> store \<Rightarrow> nat \<Rightarrow> nat \<Rightarrow> jsval \<Rightarrow> string option \<Rightarrow> store \<times> (error + nat)" where
  "Query_endBefore D h this argc value0 name =
    (let value = defaultNull value0 in
     guarded h (validateArgCount D ''Query.endBefore'' 0 2 argc)
     (guarded h (validateFirebaseDataArg D ''Query.endBefore'' 1 value (path (h ! this)) False)
     (guarded h (validateKey D ''Query.endBefore'' 2 name True)
     (let newParams = queryParamsEndBefore (queryParams' (h ! this)) value name in
      guarded h (validateLimit' newParams)
      (guarded h (validateQueryEndpoints' D newParams)
      (if hasEnd (queryParams' (h ! this)) then
         throwing h (Error
           (''Query.endBefore: Ending point was already set (by another call to endAt, endBefore, or '' @
            ''equalTo).''))
       else
         construct_Query h (database (h ! this)) (path (h ! this)) newParams
           (orderByCalled' (h ! this))))))))"

text \<open>\<^verbatim>\<open>Query.equalTo\<close> (lines 598 to 615): \<^verbatim>\<open>this.startAt(value, name)\<close> is a call on the
  receiver, and \<^verbatim>\<open>.endAt(value, name)\<close> a call on the query it returned, in the store it
  left.\<close>

definition Query_equalTo ::
  "deps \<Rightarrow> store \<Rightarrow> nat \<Rightarrow> nat \<Rightarrow> jsval \<Rightarrow> string option \<Rightarrow> store \<times> (error + nat)" where
  "Query_equalTo D h this argc value name =
    guarded h (validateArgCount D ''Query.equalTo'' 1 2 argc)
    (guarded h (validateFirebaseDataArg D ''Query.equalTo'' 1 value (path (h ! this)) False)
    (guarded h (validateKey D ''Query.equalTo'' 2 name True)
    (if hasStart (queryParams' (h ! this)) then
       throwing h (Error
         (''Query.equalTo: Starting point was already set (by another call to startAt/startAfter or '' @
          ''equalTo).''))
     else if hasEnd (queryParams' (h ! this)) then
       throwing h (Error
         (''Query.equalTo: Ending point was already set (by another call to endAt/endBefore or '' @
          ''equalTo).''))
     else
       (case Query_startAt D h this 2 value name of
          (h1, Inl e) \<Rightarrow> (h1, Inl e)
        | (h1, Inr started) \<Rightarrow> Query_endAt D h1 started 2 value name))))"

text \<open>
  What a call with receiver \<open>this\<close> on the store \<open>h\<close> may answer if it leaves its
  receiver alone: every query of \<open>h\<close> is in the store it leaves, as it was, so the receiver
  has its four fields unchanged, and a returned query is at a position that was free in
  \<open>h\<close>, which makes it a new object.
\<close>

definition leavesReceiver :: "store \<Rightarrow> nat \<Rightarrow> store \<times> (error + nat) \<Rightarrow> bool" where
  "leavesReceiver h this res =
     (case res of (h', r) \<Rightarrow>
        take (length h) h' = h \<and> h' ! this = h ! this \<and>
        database (h' ! this) = database (h ! this) \<and> path (h' ! this) = path (h ! this) \<and>
        queryParams' (h' ! this) = queryParams' (h ! this) \<and>
        orderByCalled' (h' ! this) = orderByCalled' (h ! this) \<and>
        (case r of
           Inl e \<Rightarrow> True
         | Inr a \<Rightarrow> a \<noteq> this \<and> length h \<le> a \<and> a < length h'))"

text \<open>A call that throws and leaves the store, or constructs one query and returns it.\<close>

definition oneConstruction :: "store \<Rightarrow> store \<times> (error + nat) \<Rightarrow> bool" where
  "oneConstruction h res =
     ((\<exists>e. res = (h, Inl e)) \<or> (\<exists>q. res = (h @ [q], Inr (length h))))"

section \<open>Chains of calls\<close>

text \<open>
  The arguments \<open>v\<close> and \<open>n\<close> of \<^verbatim>\<open>startAt\<close> or \<^verbatim>\<open>startAfter\<close> are valid for the index
  \<open>idx\<close> when \<^verbatim>\<open>Query.validateQueryEndpoints_\<close> accepts the parameters that hold this index
  and this start bound and nothing else; likewise for the arguments of \<^verbatim>\<open>endAt\<close> or
  \<^verbatim>\<open>endBefore\<close>. Lemma \<open>valid_for_index\<close> says what this is for each index.
\<close>

definition startValidForIndex :: "deps \<Rightarrow> index \<Rightarrow> jsval \<Rightarrow> string option \<Rightarrow> bool" where
  "startValidForIndex D idx v n =
     (validateQueryEndpoints' D
        \<lparr>qpIndex = idx, qpStart = Some (Bound v n True), qpEnd = None, qpLimit = None\<rparr> = None)"

definition endValidForIndex :: "deps \<Rightarrow> index \<Rightarrow> jsval \<Rightarrow> string option \<Rightarrow> bool" where
  "endValidForIndex D idx v n =
     (validateQueryEndpoints' D
        \<lparr>qpIndex = idx, qpStart = None, qpEnd = Some (Bound v n True), qpLimit = None\<rparr> = None)"

text \<open>
  Modelled from the spec: \<^verbatim>\<open>api/Reference.ts\<close>, whose constructor makes the query every
  chain of calls starts from, is not among the sources. Section 3 of the spec: the default
  query has no ordering, no range and no limit, so a reference is a query with no start
  bound, no end bound, no limit and no \<^verbatim>\<open>orderBy\<close> call recorded; its index is left
  open here. A query is reachable when it is a reference or is returned by a builder
  method called on a reachable query.
\<close>

inductive reachable :: "deps \<Rightarrow> Query \<Rightarrow> bool" for D :: deps where
  reference:
    "reachable D
       (new_Query db p \<lparr>qpIndex = idx, qpStart = None, qpEnd = None, qpLimit = None\<rparr> False)"
| by_orderByChild:
    "reachable D q \<Longrightarrow> orderByChild D q argc pathString = Inr q' \<Longrightarrow> reachable D q'"
| by_orderByKey:
    "reachable D q \<Longrightarrow> orderByKey D q argc = Inr q' \<Longrightarrow> reachable D q'"
| by_orderByPriority:
    "reachable D q \<Longrightarrow> orderByPriority D q argc = Inr q' \<Longrightarrow> reachable D q'"
| by_orderByValue:
    "reachable D q \<Longrightarrow> orderByValue D q argc = Inr q' \<Longrightarrow> reachable D q'"
| by_startAt:
    "reachable D q \<Longrightarrow> startAt D q argc v n = Inr q' \<Longrightarrow> reachable D q'"
| by_startAfter:
    "reachable D q \<Longrightarrow> startAfter D q argc v n = Inr q' \<Longrightarrow> reachable D q'"
| by_endAt:
    "reachable D q \<Longrightarrow> endAt D q argc v n = Inr q' \<Longrightarrow> reachable D q'"
| by_endBefore:
    "reachable D q \<Longrightarrow> endBefore D q argc v n = Inr q' \<Longrightarrow> reachable D q'"
| by_equalTo:
    "reachable D q \<Longrightarrow> equalTo D q argc v n = Inr q' \<Longrightarrow> reachable D q'"
| by_limitToFirst:
    "reachable D q \<Longrightarrow> limitToFirst D q argc limit = Inr q' \<Longrightarrow> reachable D q'"
| by_limitToLast:
    "reachable D q \<Longrightarrow> limitToLast D q argc limit = Inr q' \<Longrightarrow> reachable D q'"

text \<open>What \<^verbatim>\<open>Query.ts\<close> has checked of the parameters of every query it returns.\<close>

definition checkedParams :: "deps \<Rightarrow> QueryParams \<Rightarrow> bool" where
  "checkedParams D p =
     ((hasLimit p \<longrightarrow> hasAnchoredLimit p) \<and> validateQueryEndpoints' D p = None)"

section \<open>Instances of the helpers\<close>

text \<open>
  The witnesses below run the methods on concrete inputs, which needs concrete helpers.
  Their unique key of a parameter object is \<^verbatim>\<open>{}\<close> for the empty object and otherwise
  spells the object out field by field, every field behind a tag character and every
  number in unary, so that no key is the beginning of another and two objects never
  share a key. Each function below writes one part of the key in front of \<open>rest\<close>.
\<close>

fun encNat :: "nat \<Rightarrow> string \<Rightarrow> string" where
  "encNat 0 rest = CHR ''0'' # rest"
| "encNat (Suc n) rest = CHR ''1'' # encNat n rest"

definition encBool :: "bool \<Rightarrow> string \<Rightarrow> string" where
  "encBool b rest = (if b then CHR ''t'' else CHR ''f'') # rest"

definition encInt :: "int \<Rightarrow> string \<Rightarrow> string" where
  "encInt i rest =
     (if i < 0 then CHR ''-'' # encNat (nat (- i)) rest else CHR ''+'' # encNat (nat i) rest)"

definition encRat :: "rat \<Rightarrow> string \<Rightarrow> string" where
  "encRat r rest = (case quotient_of r of (a, b) \<Rightarrow> encInt a (encInt b rest))"

fun encString :: "string \<Rightarrow> string \<Rightarrow> string" where
  "encString [] rest = CHR ''0'' # rest"
| "encString (c # cs) rest = CHR ''1'' # encNat (of_char c) (encString cs rest)"

fun encPath :: "Path \<Rightarrow> string \<Rightarrow> string" where
  "encPath [] rest = CHR ''0'' # rest"
| "encPath (k # ks) rest = CHR ''1'' # encString k (encPath ks rest)"

fun encNum :: "jsnum \<Rightarrow> string \<Rightarrow> string" where
  "encNum (Finite r) rest = CHR ''F'' # encRat r rest"
| "encNum PosInfinity rest = CHR ''P'' # rest"
| "encNum NegInfinity rest = CHR ''M'' # rest"
| "encNum NaN rest = CHR ''X'' # rest"

fun encVal :: "jsval \<Rightarrow> string \<Rightarrow> string" where
  "encVal JUndefined rest = CHR ''U'' # rest"
| "encVal JNull rest = CHR ''N'' # rest"
| "encVal (JBool b) rest = CHR ''B'' # encBool b rest"
| "encVal (JNum n) rest = CHR ''D'' # encNum n rest"
| "encVal (JStr s) rest = CHR ''S'' # encString s rest"
| "encVal (JObject a) rest = CHR ''O'' # encNat a rest"
| "encVal (JFunction a) rest = CHR ''C'' # encNat a rest"

fun encName :: "string option \<Rightarrow> string \<Rightarrow> string" where
  "encName None rest = CHR ''0'' # rest"
| "encName (Some s) rest = CHR ''1'' # encString s rest"

fun encBound :: "bound option \<Rightarrow> string \<Rightarrow> string" where
  "encBound None rest = CHR ''0'' # rest"
| "encBound (Some (Bound v n i)) rest = CHR ''1'' # encVal v (encName n (encBool i rest))"

fun encLimit :: "limit option \<Rightarrow> string \<Rightarrow> string" where
  "encLimit None rest = CHR ''0'' # rest"
| "encLimit (Some (Limit c None)) rest = CHR ''1'' # encNum c rest"
| "encLimit (Some (Limit c (Some AnchorFirst))) rest = CHR ''l'' # encNum c rest"
| "encLimit (Some (Limit c (Some AnchorLast))) rest = CHR ''r'' # encNum c rest"

fun encIndex :: "index option \<Rightarrow> string \<Rightarrow> string" where
  "encIndex None rest = CHR ''0'' # rest"
| "encIndex (Some KEY_INDEX) rest = CHR ''k'' # rest"
| "encIndex (Some PRIORITY_INDEX) rest = CHR ''p'' # rest"
| "encIndex (Some VALUE_INDEX) rest = CHR ''v'' # rest"
| "encIndex (Some (PathIndex p)) rest = CHR ''c'' # encPath p rest"

definition encObject :: "queryObject \<Rightarrow> string" where
  "encObject obj =
     (if obj = emptyObject then ''{}''
      else CHR ''{'' # encBound (objStart obj) (encBound (objEnd obj)
             (encLimit (objLimit obj) (encIndex (objIndex obj) ''}''))))"

text \<open>
  \<open>acceptingHelpers\<close> accept every argument of a call with a legal number of arguments;
  a valid priority is null, a number or a string (section 4.2 of the spec); a path
  string is a single key.
\<close>

definition acceptingHelpers :: deps where
  "acceptingHelpers =
    \<lparr>validateArgCount =
       (\<lambda>fnName minCount maxCount argCount.
          if argCount < minCount \<or> maxCount < argCount
          then Some (Error (fnName @ '' failed: Was called with a wrong number of arguments.''))
          else None),
     validateFirebaseDataArg = (\<lambda>fnName argumentNumber v p optional. None),
     validateKey = (\<lambda>fnName argumentNumber k optional. None),
     validatePathString = (\<lambda>fnName argumentNumber s optional. None),
     validateEventType = (\<lambda>fnName argumentNumber t optional. None),
     validateCallback = (\<lambda>fnName argumentNumber c optional. None),
     validateContextObject = (\<lambda>fnName argumentNumber c optional. None),
     errorPrefix = (\<lambda>fnName argumentNumber optional. fnName @ '' failed: argument''),
     isValidPriority = (\<lambda>v. v = JNull \<or> typeof v = ''number'' \<or> typeof v = ''string''),
     MIN_NAME = ''[MIN_NAME]'',
     MAX_NAME = ''[MAX_NAME]'',
     newPath = (\<lambda>s. if s = [] then [] else [s]),
     pathIsEmpty = (\<lambda>p. p = []),
     pathEquals = (\<lambda>p q. p = q),
     pathToUrlEncodedString = (\<lambda>p. if p = [] then ''/'' else concat (map (\<lambda>k. CHR ''/'' # k) p)),
     repoToString = (\<lambda>r. ''https://repo'' @ replicate r CHR ''0'' @ ''.example''),
     ObjectToUniqueKey = encObject\<rparr>"

text \<open>Two queries for the witnesses: a location with no range and no limit under the
  priority index, and the same under the key index.\<close>

definition exampleDatabase :: Database where
  "exampleDatabase = \<lparr>repo' = 0\<rparr>"

definition priorityParams :: QueryParams where
  "priorityParams = \<lparr>qpIndex = PRIORITY_INDEX, qpStart = None, qpEnd = None, qpLimit = None\<rparr>"

definition keyParams :: QueryParams where
  "keyParams = \<lparr>qpIndex = KEY_INDEX, qpStart = None, qpEnd = None, qpLimit = None\<rparr>"

definition priorityQuery :: Query where
  "priorityQuery = new_Query exampleDatabase [''messages''] priorityParams False"

definition keyQuery :: Query where
  "keyQuery = new_Query exampleDatabase [''messages''] keyParams False"

text \<open>The priority-index query after \<^verbatim>\<open>startAt(5)\<close>, with no \<^verbatim>\<open>orderBy\<close> call recorded.\<close>

definition startAtFiveQuery :: Query where
  "startAtFiveQuery =
     new_Query exampleDatabase [''messages'']
       (queryParamsStartAt priorityParams (JNum (Finite 5)) None) False"

text \<open>A query whose parameters end at 10 and hold the limit 5 with no anchor.\<close>

definition endAndRawLimitQuery :: Query where
  "endAndRawLimitQuery =
     new_Query exampleDatabase [''messages'']
       \<lparr>qpIndex = PRIORITY_INDEX, qpStart = None,
        qpEnd = Some (Bound (JNum (Finite 10)) None True),
        qpLimit = Some (Limit (Finite 5) None)\<rparr> False"

text \<open>A query whose parameters start at 1, end at 10 and hold the limit 5 with no
  anchor.\<close>

definition windowAndRawLimitQuery :: Query where
  "windowAndRawLimitQuery =
     new_Query exampleDatabase [''messages'']
       \<lparr>qpIndex = PRIORITY_INDEX,
        qpStart = Some (Bound (JNum (Finite 1)) None True),
        qpEnd = Some (Bound (JNum (Finite 10)) None True),
        qpLimit = Some (Limit (Finite 5) None)\<rparr> False"

text \<open>The priority-index query after \<^verbatim>\<open>limitToFirst(3)\<close>.\<close>

definition firstThreeQuery :: Query where
  "firstThreeQuery =
     new_Query exampleDatabase [''messages'']
       (queryParamsLimitToFirst priorityParams (Finite 3)) False"

text \<open>The priority-index query after \<^verbatim>\<open>orderByValue()\<close>.\<close>

definition valueQuery :: Query where
  "valueQuery =
     new_Query exampleDatabase [''messages'']
       (queryParamsOrderBy priorityParams VALUE_INDEX) True"

section \<open>Sequencing\<close>

lemma thenDo_simps [simp]:
  "thenDo None k = k" "thenDo (Some e) k = Inl e"
  by (simp_all add: thenDo_def)

lemma firstError_simps [simp]:
  "firstError None b = b" "firstError (Some e) b = Some e"
  by (simp_all add: firstError_def)

lemma bindQ_simps [simp]:
  "bindQ (Inl e) f = Inl e" "bindQ (Inr x) f = f x"
  by (simp_all add: bindQ_def)

lemma thenDo_Inr: "thenDo r k = Inr x \<longleftrightarrow> r = None \<and> k = Inr x"
  by (cases r) simp_all

lemma isl_thenDo: "isl (thenDo r k) \<longleftrightarrow> r \<noteq> None \<or> isl k"
  by (cases r) simp_all

section \<open>Outcomes of the range methods\<close>

text \<open>When each of the four range methods returns, and what it returns then.\<close>

lemma startAt_Inr:
  "startAt D q argc v n = Inr r \<longleftrightarrow>
     validateArgCount D ''Query.startAt'' 0 2 argc = None \<and>
     validateFirebaseDataArg D ''Query.startAt'' 1 (defaultNull v) (path q) True = None \<and>
     validateKey D ''Query.startAt'' 2 n True = None \<and>
     validateLimit' (queryParamsStartAt (queryParams' q) (defaultNull v) n) = None \<and>
     validateQueryEndpoints' D (queryParamsStartAt (queryParams' q) (defaultNull v) n) = None \<and>
     \<not> hasStart (queryParams' q) \<and>
     r = new_Query (database q) (path q)
           (queryParamsStartAt (queryParams' q) (defaultNull v) n) (orderByCalled' q)"
  by (auto simp: startAt_def Let_def thenDo_Inr)

lemma startAfter_Inr:
  "startAfter D q argc v n = Inr r \<longleftrightarrow>
     validateArgCount D ''Query.startAfter'' 0 2 argc = None \<and>
     validateFirebaseDataArg D ''Query.startAfter'' 1 (defaultNull v) (path q) False = None \<and>
     validateKey D ''Query.startAfter'' 2 n True = None \<and>
     validateLimit' (queryParamsStartAfter (queryParams' q) (defaultNull v) n) = None \<and>
     validateQueryEndpoints' D
       (queryParamsStartAfter (queryParams' q) (defaultNull v) n) = None \<and>
     \<not> hasStart (queryParams' q) \<and>
     r = new_Query (database q) (path q)
           (queryParamsStartAfter (queryParams' q) (defaultNull v) n) (orderByCalled' q)"
  by (auto simp: startAfter_def Let_def thenDo_Inr)

lemma endAt_Inr:
  "endAt D q argc v n = Inr r \<longleftrightarrow>
     validateArgCount D ''Query.endAt'' 0 2 argc = None \<and>
     validateFirebaseDataArg D ''Query.endAt'' 1 (defaultNull v) (path q) True = None \<and>
     validateKey D ''Query.endAt'' 2 n True = None \<and>
     validateLimit' (queryParamsEndAt (queryParams' q) (defaultNull v) n) = None \<and>
     validateQueryEndpoints' D (queryParamsEndAt (queryParams' q) (defaultNull v) n) = None \<and>
     \<not> hasEnd (queryParams' q) \<and>
     r = new_Query (database q) (path q)
           (queryParamsEndAt (queryParams' q) (defaultNull v) n) (orderByCalled' q)"
  by (auto simp: endAt_def Let_def thenDo_Inr)

lemma endBefore_Inr:
  "endBefore D q argc v n = Inr r \<longleftrightarrow>
     validateArgCount D ''Query.endBefore'' 0 2 argc = None \<and>
     validateFirebaseDataArg D ''Query.endBefore'' 1 (defaultNull v) (path q) False = None \<and>
     validateKey D ''Query.endBefore'' 2 n True = None \<and>
     validateLimit' (queryParamsEndBefore (queryParams' q) (defaultNull v) n) = None \<and>
     validateQueryEndpoints' D
       (queryParamsEndBefore (queryParams' q) (defaultNull v) n) = None \<and>
     \<not> hasEnd (queryParams' q) \<and>
     r = new_Query (database q) (path q)
           (queryParamsEndBefore (queryParams' q) (defaultNull v) n) (orderByCalled' q)"
  by (auto simp: endBefore_def Let_def thenDo_Inr)

lemma isl_iff_no_Inr: "isl x \<longleftrightarrow> (\<forall>r. x \<noteq> Inr r)"
  by (cases x) simp_all

text \<open>What the parameters built by a range method hold.\<close>

lemma builder_keeps_limit:
  "hasLimit (queryParamsStartAt p v n) = hasLimit p"
  "hasLimit (queryParamsStartAfter p v n) = hasLimit p"
  "hasLimit (queryParamsEndAt p v n) = hasLimit p"
  "hasLimit (queryParamsEndBefore p v n) = hasLimit p"
  "hasAnchoredLimit (queryParamsStartAt p v n) = hasAnchoredLimit p"
  "hasAnchoredLimit (queryParamsStartAfter p v n) = hasAnchoredLimit p"
  "hasAnchoredLimit (queryParamsEndAt p v n) = hasAnchoredLimit p"
  "hasAnchoredLimit (queryParamsEndBefore p v n) = hasAnchoredLimit p"
  by (simp_all add: hasLimit_def hasAnchoredLimit_def queryParamsStartAt_def
      queryParamsStartAfter_def queryParamsEndAt_def queryParamsEndBefore_def)

lemma builder_sets_bound:
  "hasStart (queryParamsStartAt p v n)" "hasStart (queryParamsStartAfter p v n)"
  "hasEnd (queryParamsEndAt p v n)" "hasEnd (queryParamsEndBefore p v n)"
  "hasEnd (queryParamsStartAt p v n) = hasEnd p"
  "hasEnd (queryParamsStartAfter p v n) = hasEnd p"
  "hasStart (queryParamsEndAt p v n) = hasStart p"
  "hasStart (queryParamsEndBefore p v n) = hasStart p"
  by (simp_all add: hasStart_def hasEnd_def queryParamsStartAt_def
      queryParamsStartAfter_def queryParamsEndAt_def queryParamsEndBefore_def)

lemma built_params_read:
  "getIndex (queryParamsStartAt p v n) = getIndex p"
  "getIndex (queryParamsStartAfter p v n) = getIndex p"
  "getIndex (queryParamsEndAt p v n) = getIndex p"
  "getIndex (queryParamsEndBefore p v n) = getIndex p"
  "getIndexStartValue (queryParamsStartAt p v n) = v"
  "getIndexStartValue (queryParamsStartAfter p v n) = v"
  "getIndexEndValue (queryParamsEndAt p v n) = v"
  "getIndexEndValue (queryParamsEndBefore p v n) = v"
  "getIndexStartName m (queryParamsStartAt p v (Some nm)) = nm"
  "getIndexStartName m (queryParamsStartAfter p v (Some nm)) = nm"
  "getIndexEndName m (queryParamsEndAt p v (Some nm)) = nm"
  "getIndexEndName m (queryParamsEndBefore p v (Some nm)) = nm"
  by (simp_all add: getIndex_def getIndexStartValue_def getIndexEndValue_def
      getIndexStartName_def getIndexEndName_def queryParamsStartAt_def
      queryParamsStartAfter_def queryParamsEndAt_def queryParamsEndBefore_def)

lemma validateLimit'_None:
  "validateLimit' p = None \<longleftrightarrow>
     \<not> (hasStart p \<and> hasEnd p \<and> hasLimit p \<and> \<not> hasAnchoredLimit p)"
  by (simp add: validateLimit'_def)

lemma validateLimit'_built:
  "validateLimit' (queryParamsStartAt p v n) = None \<longleftrightarrow>
     \<not> (hasEnd p \<and> hasLimit p \<and> \<not> hasAnchoredLimit p)"
  "validateLimit' (queryParamsStartAfter p v n) = None \<longleftrightarrow>
     \<not> (hasEnd p \<and> hasLimit p \<and> \<not> hasAnchoredLimit p)"
  "validateLimit' (queryParamsEndAt p v n) = None \<longleftrightarrow>
     \<not> (hasStart p \<and> hasLimit p \<and> \<not> hasAnchoredLimit p)"
  "validateLimit' (queryParamsEndBefore p v n) = None \<longleftrightarrow>
     \<not> (hasStart p \<and> hasLimit p \<and> \<not> hasAnchoredLimit p)"
  by (simp_all add: validateLimit'_None builder_keeps_limit builder_sets_bound)

lemma endpoints_no_bounds:
  "\<not> hasStart p \<Longrightarrow> \<not> hasEnd p \<Longrightarrow> validateQueryEndpoints' D p = None"
  by (cases "getIndex p") (simp_all add: validateQueryEndpoints'_def notLooseNull_def)

lemma endpoints_priority_valid:
  assumes "getIndex p = PRIORITY_INDEX"
    and "hasStart p \<Longrightarrow> isValidPriority D (getIndexStartValue p)"
    and "hasEnd p \<Longrightarrow> isValidPriority D (getIndexEndValue p)"
  shows "validateQueryEndpoints' D p = None"
  using assms by (auto simp: validateQueryEndpoints'_def notLooseNull_def)

section \<open>Queries built by calls\<close>

text \<open>An \<^verbatim>\<open>orderBy\<close> method throws when the bounds of its receiver do not fit the new
  index.\<close>

lemma endpoints_checked_by_order_calls:
  "validateQueryEndpoints' D (queryParamsOrderBy (queryParams' q) KEY_INDEX) \<noteq> None
     \<longrightarrow> isl (orderByKey D q argc)"
  "validateQueryEndpoints' D (queryParamsOrderBy (queryParams' q) PRIORITY_INDEX) \<noteq> None
     \<longrightarrow> isl (orderByPriority D q argc)"
  "validateQueryEndpoints' D (queryParamsOrderBy (queryParams' q) VALUE_INDEX) \<noteq> None
     \<longrightarrow> isl (orderByValue D q argc)"
  "validateQueryEndpoints' D
       (queryParamsOrderBy (queryParams' q) (PathIndex (newPath D c))) \<noteq> None
     \<longrightarrow> isl (orderByChild D q argc c)"
  by (auto simp: orderByKey_def orderByPriority_def orderByValue_def orderByChild_def
      isl_thenDo Let_def)

text \<open>The endpoint check looks at the start bound and at the end bound one by one, and
  not at the limit.\<close>

lemma endpoints_start_end:
  "validateQueryEndpoints' D p = None \<longleftrightarrow>
     (case qpStart p of
        None \<Rightarrow> True
      | Some b \<Rightarrow> startValidForIndex D (qpIndex p) (boundValue b) (boundName b)) \<and>
     (case qpEnd p of
        None \<Rightarrow> True
      | Some b \<Rightarrow> endValidForIndex D (qpIndex p) (boundValue b) (boundName b))"
  by (cases "qpIndex p"; cases "qpStart p"; cases "qpEnd p")
    (auto simp: validateQueryEndpoints'_def startValidForIndex_def endValidForIndex_def
      hasStart_def hasEnd_def getIndex_def getIndexStartValue_def getIndexEndValue_def
      getIndexStartName_def getIndexEndName_def notLooseNull_def Let_def)

lemma endpoints_of_built:
  assumes "validateQueryEndpoints' D p = None"
  shows "startValidForIndex D (getIndex p) v n \<Longrightarrow>
           validateQueryEndpoints' D (queryParamsStartAt p v n) = None"
    and "startValidForIndex D (getIndex p) v n \<Longrightarrow>
           validateQueryEndpoints' D (queryParamsStartAfter p v n) = None"
    and "endValidForIndex D (getIndex p) v n \<Longrightarrow>
           validateQueryEndpoints' D (queryParamsEndAt p v n) = None"
    and "endValidForIndex D (getIndex p) v n \<Longrightarrow>
           validateQueryEndpoints' D (queryParamsEndBefore p v n) = None"
  using assms
  by (auto simp: endpoints_start_end queryParamsStartAt_def queryParamsStartAfter_def
      queryParamsEndAt_def queryParamsEndBefore_def getIndex_def split: option.splits)

lemma endpoints_without_limit:
  "validateQueryEndpoints' D (queryParamsLimitToFirst p l) = validateQueryEndpoints' D p"
  "validateQueryEndpoints' D (queryParamsLimitToLast p l) = validateQueryEndpoints' D p"
  by (simp_all add: validateQueryEndpoints'_def queryParamsLimitToFirst_def
      queryParamsLimitToLast_def hasStart_def hasEnd_def getIndex_def getIndexStartValue_def
      getIndexEndValue_def getIndexStartName_def getIndexEndName_def)

lemma valid_for_index:
  "startValidForIndex D KEY_INDEX v n \<longleftrightarrow>
     (n = None \<or> n = Some (MIN_NAME D)) \<and> typeof v = ''string''"
  "startValidForIndex D PRIORITY_INDEX v n \<longleftrightarrow> \<not> notLooseNull v \<or> isValidPriority D v"
  "startValidForIndex D VALUE_INDEX v n \<longleftrightarrow> \<not> notLooseNull v \<or> typeof v \<noteq> ''object''"
  "startValidForIndex D (PathIndex c) v n \<longleftrightarrow> \<not> notLooseNull v \<or> typeof v \<noteq> ''object''"
  "endValidForIndex D KEY_INDEX v n \<longleftrightarrow>
     (n = None \<or> n = Some (MAX_NAME D)) \<and> typeof v = ''string''"
  "endValidForIndex D PRIORITY_INDEX v n \<longleftrightarrow> \<not> notLooseNull v \<or> isValidPriority D v"
  "endValidForIndex D VALUE_INDEX v n \<longleftrightarrow> \<not> notLooseNull v \<or> typeof v \<noteq> ''object''"
  "endValidForIndex D (PathIndex c) v n \<longleftrightarrow> \<not> notLooseNull v \<or> typeof v \<noteq> ''object''"
  by (cases n;
      auto simp: startValidForIndex_def endValidForIndex_def validateQueryEndpoints'_def
        hasStart_def hasEnd_def getIndex_def getIndexStartValue_def getIndexEndValue_def
        getIndexStartName_def getIndexEndName_def notLooseNull_def Let_def)+

text \<open>The parameters of a query returned by a builder method.\<close>

lemma limit_Inr:
  "limitToFirst D q argc limit = Inr q' \<Longrightarrow>
     \<exists>l. queryParams' q' = queryParamsLimitToFirst (queryParams' q) l"
  "limitToLast D q argc limit = Inr q' \<Longrightarrow>
     \<exists>l. queryParams' q' = queryParamsLimitToLast (queryParams' q) l"
  by (cases limit;
      auto simp: limitToFirst_def limitToLast_def thenDo_Inr new_Query_def split: if_splits)+

lemma orderBy_Inr:
  "orderByChild D q argc pathString = Inr q' \<Longrightarrow>
     (\<exists>idx. queryParams' q' = queryParamsOrderBy (queryParams' q) idx) \<and>
     validateQueryEndpoints' D (queryParams' q') = None"
  "orderByKey D q argc = Inr q' \<Longrightarrow>
     (\<exists>idx. queryParams' q' = queryParamsOrderBy (queryParams' q) idx) \<and>
     validateQueryEndpoints' D (queryParams' q') = None"
  "orderByPriority D q argc = Inr q' \<Longrightarrow>
     (\<exists>idx. queryParams' q' = queryParamsOrderBy (queryParams' q) idx) \<and>
     validateQueryEndpoints' D (queryParams' q') = None"
  "orderByValue D q argc = Inr q' \<Longrightarrow>
     (\<exists>idx. queryParams' q' = queryParamsOrderBy (queryParams' q) idx) \<and>
     validateQueryEndpoints' D (queryParams' q') = None"
  by (auto simp: orderByChild_def orderByKey_def orderByPriority_def orderByValue_def
      thenDo_Inr new_Query_def Let_def split: if_splits)

lemma limit_of_built:
  "hasLimit (queryParamsOrderBy p idx) = hasLimit p"
  "hasAnchoredLimit (queryParamsOrderBy p idx) = hasAnchoredLimit p"
  "hasAnchoredLimit (queryParamsLimitToFirst p l)"
  "hasAnchoredLimit (queryParamsLimitToLast p l)"
  by (simp_all add: hasLimit_def hasAnchoredLimit_def queryParamsOrderBy_def
      queryParamsLimitToFirst_def queryParamsLimitToLast_def)

lemma equalTo_Inr:
  "equalTo D q argc v n = Inr q' \<Longrightarrow>
   \<exists>started. startAt D q 2 v n = Inr started \<and> endAt D started 2 v n = Inr q'"
  by (cases "startAt D q 2 v n") (auto simp: equalTo_def thenDo_Inr)

text \<open>Every reachable query has parameters that pass the endpoint check and hold no limit
  without an anchor: a reference has, and every builder method keeps it so.\<close>

lemma checkedParams_reference:
  "checkedParams D \<lparr>qpIndex = idx, qpStart = None, qpEnd = None, qpLimit = None\<rparr>"
  by (simp add: checkedParams_def hasLimit_def endpoints_start_end)

lemma checkedParams_limit:
  "checkedParams D (queryParams' q) \<Longrightarrow> limitToFirst D q argc limit = Inr q' \<Longrightarrow>
   checkedParams D (queryParams' q')"
  "checkedParams D (queryParams' q) \<Longrightarrow> limitToLast D q argc limit = Inr q' \<Longrightarrow>
   checkedParams D (queryParams' q')"
  by (auto simp: checkedParams_def endpoints_without_limit limit_of_built dest!: limit_Inr)

lemma checkedParams_orderBy:
  "checkedParams D (queryParams' q) \<Longrightarrow> orderByChild D q argc pathString = Inr q' \<Longrightarrow>
   checkedParams D (queryParams' q')"
  "checkedParams D (queryParams' q) \<Longrightarrow> orderByKey D q argc = Inr q' \<Longrightarrow>
   checkedParams D (queryParams' q')"
  "checkedParams D (queryParams' q) \<Longrightarrow> orderByPriority D q argc = Inr q' \<Longrightarrow>
   checkedParams D (queryParams' q')"
  "checkedParams D (queryParams' q) \<Longrightarrow> orderByValue D q argc = Inr q' \<Longrightarrow>
   checkedParams D (queryParams' q')"
  by (auto simp: checkedParams_def limit_of_built dest!: orderBy_Inr)

lemma checkedParams_range:
  "checkedParams D (queryParams' q) \<Longrightarrow> startAt D q argc v n = Inr q' \<Longrightarrow>
   checkedParams D (queryParams' q')"
  "checkedParams D (queryParams' q) \<Longrightarrow> startAfter D q argc v n = Inr q' \<Longrightarrow>
   checkedParams D (queryParams' q')"
  "checkedParams D (queryParams' q) \<Longrightarrow> endAt D q argc v n = Inr q' \<Longrightarrow>
   checkedParams D (queryParams' q')"
  "checkedParams D (queryParams' q) \<Longrightarrow> endBefore D q argc v n = Inr q' \<Longrightarrow>
   checkedParams D (queryParams' q')"
  by (auto simp: checkedParams_def startAt_Inr startAfter_Inr endAt_Inr endBefore_Inr
      new_Query_def builder_keeps_limit)

lemma checkedParams_equalTo:
  "checkedParams D (queryParams' q) \<Longrightarrow> equalTo D q argc v n = Inr q' \<Longrightarrow>
   checkedParams D (queryParams' q')"
  using checkedParams_range(1) checkedParams_range(3) by (blast dest: equalTo_Inr)

lemma reachable_checkedParams: "reachable D q \<Longrightarrow> checkedParams D (queryParams' q)"
proof (induction rule: reachable.induct)
  case (reference db p idx)
  then show ?case by (simp add: new_Query_def checkedParams_reference)
qed (blast intro: checkedParams_limit checkedParams_orderBy checkedParams_range
    checkedParams_equalTo)+

lemma reachable_limit_anchored:
  "reachable D q \<Longrightarrow> hasLimit (queryParams' q) \<Longrightarrow> hasAnchoredLimit (queryParams' q)"
  using reachable_checkedParams [of D q] by (simp add: checkedParams_def)

lemma raw_limit_not_reachable:
  "\<not> reachable D endAndRawLimitQuery" "\<not> reachable D windowAndRawLimitQuery"
  using reachable_limit_anchored [of D endAndRawLimitQuery]
    reachable_limit_anchored [of D windowAndRawLimitQuery]
  by (auto simp: endAndRawLimitQuery_def windowAndRawLimitQuery_def new_Query_def hasLimit_def
      hasAnchoredLimit_def)

text \<open>On such a query a range call with valid arguments passes both checks that precede
  the test of the bound already set.\<close>

lemma range_call_returns:
  assumes "checkedParams D (queryParams' q)"
  shows "\<not> hasStart (queryParams' q) \<Longrightarrow>
         validateArgCount D ''Query.startAt'' 0 2 argc = None \<Longrightarrow>
         validateFirebaseDataArg D ''Query.startAt'' 1 (defaultNull v) (path q) True = None \<Longrightarrow>
         validateKey D ''Query.startAt'' 2 n True = None \<Longrightarrow>
         startValidForIndex D (getIndex (queryParams' q)) (defaultNull v) n \<Longrightarrow>
         startAt D q argc v n =
           Inr (new_Query (database q) (path q)
                  (queryParamsStartAt (queryParams' q) (defaultNull v) n) (orderByCalled' q))"
    and "\<not> hasStart (queryParams' q) \<Longrightarrow>
         validateArgCount D ''Query.startAfter'' 0 2 argc = None \<Longrightarrow>
         validateFirebaseDataArg D ''Query.startAfter'' 1 (defaultNull v) (path q) False = None \<Longrightarrow>
         validateKey D ''Query.startAfter'' 2 n True = None \<Longrightarrow>
         startValidForIndex D (getIndex (queryParams' q)) (defaultNull v) n \<Longrightarrow>
         startAfter D q argc v n =
           Inr (new_Query (database q) (path q)
                  (queryParamsStartAfter (queryParams' q) (defaultNull v) n) (orderByCalled' q))"
    and "\<not> hasEnd (queryParams' q) \<Longrightarrow>
         validateArgCount D ''Query.endAt'' 0 2 argc = None \<Longrightarrow>
         validateFirebaseDataArg D ''Query.endAt'' 1 (defaultNull v) (path q) True = None \<Longrightarrow>
         validateKey D ''Query.endAt'' 2 n True = None \<Longrightarrow>
         endValidForIndex D (getIndex (queryParams' q)) (defaultNull v) n \<Longrightarrow>
         endAt D q argc v n =
           Inr (new_Query (database q) (path q)
                  (queryParamsEndAt (queryParams' q) (defaultNull v) n) (orderByCalled' q))"
    and "\<not> hasEnd (queryParams' q) \<Longrightarrow>
         validateArgCount D ''Query.endBefore'' 0 2 argc = None \<Longrightarrow>
         validateFirebaseDataArg D ''Query.endBefore'' 1 (defaultNull v) (path q) False = None \<Longrightarrow>
         validateKey D ''Query.endBefore'' 2 n True = None \<Longrightarrow>
         endValidForIndex D (getIndex (queryParams' q)) (defaultNull v) n \<Longrightarrow>
         endBefore D q argc v n =
           Inr (new_Query (database q) (path q)
                  (queryParamsEndBefore (queryParams' q) (defaultNull v) n) (orderByCalled' q))"
  using assms
  by (simp_all add: checkedParams_def startAt_Inr startAfter_Inr endAt_Inr endBefore_Inr
      validateLimit'_built endpoints_of_built)

section \<open>The key of a parameter object\<close>

lemma encNat_eq [simp]: "encNat m xs = encNat n ys \<longleftrightarrow> m = n \<and> xs = ys"
proof (induction m arbitrary: n)
  case 0
  then show ?case by (cases n) simp_all
next
  case (Suc m)
  then show ?case by (cases n) simp_all
qed

lemma encBool_eq [simp]: "encBool a xs = encBool b ys \<longleftrightarrow> a = b \<and> xs = ys"
  by (auto simp: encBool_def)

lemma encInt_eq [simp]: "encInt a xs = encInt b ys \<longleftrightarrow> a = b \<and> xs = ys"
  by (auto simp: encInt_def)

lemma encRat_eq [simp]: "encRat a xs = encRat b ys \<longleftrightarrow> a = b \<and> xs = ys"
  by (auto simp: encRat_def quotient_of_inject split: prod.splits)

lemma encString_eq [simp]: "encString a xs = encString b ys \<longleftrightarrow> a = b \<and> xs = ys"
proof (induction a arbitrary: b)
  case Nil
  then show ?case by (cases b) simp_all
next
  case (Cons c cs)
  then show ?case by (cases b) auto
qed

lemma encPath_eq [simp]: "encPath a xs = encPath b ys \<longleftrightarrow> a = b \<and> xs = ys"
proof (induction a arbitrary: b)
  case Nil
  then show ?case by (cases b) simp_all
next
  case (Cons c cs)
  then show ?case by (cases b) auto
qed

lemma encNum_eq [simp]: "encNum a xs = encNum b ys \<longleftrightarrow> a = b \<and> xs = ys"
  by (cases a; cases b) simp_all

lemma encVal_eq [simp]: "encVal a xs = encVal b ys \<longleftrightarrow> a = b \<and> xs = ys"
  by (cases a; cases b) simp_all

lemma encName_eq [simp]: "encName a xs = encName b ys \<longleftrightarrow> a = b \<and> xs = ys"
  by (cases a; cases b) simp_all

lemma encBound_eq [simp]: "encBound a xs = encBound b ys \<longleftrightarrow> a = b \<and> xs = ys"
  by (cases "(a, xs)" rule: encBound.cases; cases "(b, ys)" rule: encBound.cases) auto

lemma encLimit_eq [simp]: "encLimit a xs = encLimit b ys \<longleftrightarrow> a = b \<and> xs = ys"
  by (cases "(a, xs)" rule: encLimit.cases; cases "(b, ys)" rule: encLimit.cases) auto

lemma encIndex_eq [simp]: "encIndex a xs = encIndex b ys \<longleftrightarrow> a = b \<and> xs = ys"
  by (cases "(a, xs)" rule: encIndex.cases; cases "(b, ys)" rule: encIndex.cases) auto

lemma encBound_not_brace: "encBound a xs \<noteq> ''}''" "''}'' \<noteq> encBound a xs"
  by (cases "(a, xs)" rule: encBound.cases; simp)+

lemma encObject_inj: "inj encObject"
proof (rule injI)
  fix x y
  assume eq: "encObject x = encObject y"
  show "x = y"
  proof (cases "x = emptyObject"; cases "y = emptyObject")
    assume "x \<noteq> emptyObject" "y \<noteq> emptyObject"
    then show ?thesis using eq by (cases x; cases y) (simp add: encObject_def)
  qed (use eq in \<open>auto simp: encObject_def encBound_not_brace\<close>)
qed

lemma encObject_not_default: "encObject obj \<noteq> ''default''"
  by (simp add: encObject_def)

section \<open>The example queries\<close>

lemma priorityQuery_fields:
  "database priorityQuery = exampleDatabase" "path priorityQuery = [''messages'']"
  "queryParams' priorityQuery = priorityParams" "\<not> orderByCalled' priorityQuery"
  by (simp_all add: priorityQuery_def new_Query_def)

lemma startAtFiveQuery_fields:
  "database startAtFiveQuery = exampleDatabase" "path startAtFiveQuery = [''messages'']"
  "queryParams' startAtFiveQuery = queryParamsStartAt priorityParams (JNum (Finite 5)) None"
  "\<not> orderByCalled' startAtFiveQuery"
  by (simp_all add: startAtFiveQuery_def new_Query_def)

lemma keyQuery_fields:
  "database keyQuery = exampleDatabase" "path keyQuery = [''messages'']"
  "queryParams' keyQuery = keyParams" "\<not> orderByCalled' keyQuery"
  by (simp_all add: keyQuery_def new_Query_def)

lemma valueQuery_fields:
  "database valueQuery = exampleDatabase" "path valueQuery = [''messages'']"
  "queryParams' valueQuery = queryParamsOrderBy priorityParams VALUE_INDEX"
  "orderByCalled' valueQuery"
  by (simp_all add: valueQuery_def new_Query_def)

lemma acceptingHelpers_number_priority: "isValidPriority acceptingHelpers (JNum x)"
  by (simp add: acceptingHelpers_def)

lemma priorityParams_reads:
  "getIndex priorityParams = PRIORITY_INDEX" "\<not> hasStart priorityParams"
  "\<not> hasEnd priorityParams" "\<not> hasLimit priorityParams"
  by (simp_all add: priorityParams_def getIndex_def hasStart_def hasEnd_def hasLimit_def)

lemma firstThreeQuery_fields:
  "database firstThreeQuery = exampleDatabase" "path firstThreeQuery = [''messages'']"
  "queryParams' firstThreeQuery = queryParamsLimitToFirst priorityParams (Finite 3)"
  "\<not> orderByCalled' firstThreeQuery"
  by (simp_all add: firstThreeQuery_def new_Query_def)

lemma example_params_read:
  "getIndex (queryParamsLimitToFirst priorityParams l) = PRIORITY_INDEX"
  "\<not> hasStart (queryParamsLimitToFirst priorityParams l)"
  "\<not> hasEnd (queryParamsLimitToFirst priorityParams l)"
  "getIndex (queryParamsStartAt priorityParams v n) = PRIORITY_INDEX"
  "\<not> hasEnd (queryParamsStartAt priorityParams v n)"
  by (simp_all add: getIndex_def hasStart_def hasEnd_def queryParamsLimitToFirst_def
      queryParamsStartAt_def priorityParams_def)

lemma acceptingHelpers_accepts:
  "validateArgCount acceptingHelpers fn 0 2 1 = None"
  "validateArgCount acceptingHelpers fn 0 0 0 = None"
  "validateArgCount acceptingHelpers fn 1 1 1 = None"
  "validateFirebaseDataArg acceptingHelpers fn i v pth opt = None"
  "validateKey acceptingHelpers fn i n opt = None"
  by (simp_all add: acceptingHelpers_def)

lemma number_valid_for_priority:
  "startValidForIndex acceptingHelpers PRIORITY_INDEX (JNum x) n"
  "endValidForIndex acceptingHelpers PRIORITY_INDEX (JNum x) n"
  by (simp_all add: valid_for_index acceptingHelpers_number_priority)

lemma acceptingHelpers_key:
  "inj (ObjectToUniqueKey acceptingHelpers)"
  "''default'' \<notin> range (ObjectToUniqueKey acceptingHelpers)"
proof -
  show "inj (ObjectToUniqueKey acceptingHelpers)"
    using encObject_inj by (simp add: acceptingHelpers_def)
  show "''default'' \<notin> range (ObjectToUniqueKey acceptingHelpers)"
  proof
    assume "''default'' \<in> range (ObjectToUniqueKey acceptingHelpers)"
    then obtain obj where "''default'' = encObject obj"
      by (auto simp: acceptingHelpers_def)
    then show False using encObject_not_default [of obj] by simp
  qed
qed

lemma example_queries_reachable:
  "reachable acceptingHelpers priorityQuery"
  "reachable acceptingHelpers startAtFiveQuery"
  "reachable acceptingHelpers firstThreeQuery"
proof -
  show base: "reachable acceptingHelpers priorityQuery"
    unfolding priorityQuery_def priorityParams_def by (rule reachable.reference)
  have "startAt acceptingHelpers priorityQuery 1 (JNum (Finite 5)) None = Inr startAtFiveQuery"
    by (simp add: startAt_def acceptingHelpers_def priorityQuery_def
        priorityParams_def startAtFiveQuery_def new_Query_def defaultNull_def
        queryParamsStartAt_def validateLimit'_def validateQueryEndpoints'_def hasStart_def
        hasEnd_def hasLimit_def getIndex_def getIndexStartValue_def notLooseNull_def)
  then show "reachable acceptingHelpers startAtFiveQuery"
    by (rule reachable.by_startAt [OF base])
  have "limitToFirst acceptingHelpers priorityQuery 1 (JNum (Finite 3)) = Inr firstThreeQuery"
    by (simp add: limitToFirst_def acceptingHelpers_def priorityQuery_def priorityParams_def
        firstThreeQuery_def new_Query_def numStrictNeq_def hasLimit_def)
  then show "reachable acceptingHelpers firstThreeQuery"
    by (rule reachable.by_limitToFirst [OF base])
qed

section \<open>Equality of queries\<close>

text \<open>When the unique key tells any two parameter objects apart and is never the word
  \<^verbatim>\<open>default\<close>, two queries have the same identifier exactly when they have the same
  parameter object.\<close>

lemma identifier_is_object:
  assumes inj: "inj (ObjectToUniqueKey D)"
    and nd: "''default'' \<notin> range (ObjectToUniqueKey D)"
  shows "queryIdentifier D x = queryIdentifier D y \<longleftrightarrow> queryObject x = queryObject y"
proof
  assume eq: "queryIdentifier D x = queryIdentifier D y"
  have nd': "ObjectToUniqueKey D obj \<noteq> ''default''" for obj
    using nd by (metis rangeI)
  have "ObjectToUniqueKey D (queryObject x) = ObjectToUniqueKey D (queryObject y)"
    using eq nd' [of "queryObject x"] nd' [of "queryObject y"]
    by (simp add: queryIdentifier_def Let_def split: if_splits)
  then show "queryObject x = queryObject y"
    using inj by (rule injD [rotated])
next
  assume "queryObject x = queryObject y"
  then show "queryIdentifier D x = queryIdentifier D y"
    by (simp add: queryIdentifier_def)
qed

lemma startAt_startAfter_objects:
  "queryObject (new_Query db p (queryParamsStartAt params v n) c) \<noteq>
   queryObject (new_Query db' p' (queryParamsStartAfter params' v' n') c')"
  by (simp add: queryObject_def queryParamsGetQueryObject_def queryParamsStartAt_def
      queryParamsStartAfter_def new_Query_def)

text \<open>
  C1. \<^verbatim>\<open>isEqual\<close>, called with one argument that is a query, answers true exactly when the
  two queries have the same repo, paths that \<^verbatim>\<open>pathEquals\<close> accepts, and the same query
  identifier. So two queries with the same repo, equal paths and the same canonical
  parameter object are equal, however they were built; and when the unique key tells any
  two parameter objects apart and is never the word \<^verbatim>\<open>default\<close>, only such queries are
  equal. With such a key, \<^verbatim>\<open>startAt\<close> and \<^verbatim>\<open>startAfter\<close>, called on a reachable query that
  has no start bound with the same arguments, valid for its index, both return, and the
  two queries they return are not equal.
\<close>

theorem isEqual_repo_path_identifier:
  assumes argc: "validateArgCount D ''Query.isEqual'' 1 1 argc = None"
  shows "isEqual D q1 argc (Inr q2) =
           Inr (repo q1 = repo q2 \<and> pathEquals D (path q1) (path q2) \<and>
                queryIdentifier D q1 = queryIdentifier D q2)
       \<and> (repo q1 = repo q2 \<and> pathEquals D (path q1) (path q2) \<and>
            queryObject q1 = queryObject q2
          \<longrightarrow> isEqual D q1 argc (Inr q2) = Inr True)
       \<and> (inj (ObjectToUniqueKey D) \<and> ''default'' \<notin> range (ObjectToUniqueKey D)
          \<longrightarrow> isEqual D q1 argc (Inr q2) =
                Inr (repo q1 = repo q2 \<and> pathEquals D (path q1) (path q2) \<and>
                     queryObject q1 = queryObject q2))
       \<and> (inj (ObjectToUniqueKey D) \<and> ''default'' \<notin> range (ObjectToUniqueKey D) \<and>
            reachable D q \<and> \<not> hasStart (queryParams' q) \<and>
            validateArgCount D ''Query.startAt'' 0 2 a1 = None \<and>
            validateFirebaseDataArg D ''Query.startAt'' 1 (defaultNull v) (path q) True = None \<and>
            validateKey D ''Query.startAt'' 2 n True = None \<and>
            validateArgCount D ''Query.startAfter'' 0 2 a2 = None \<and>
            validateFirebaseDataArg D ''Query.startAfter'' 1 (defaultNull v) (path q) False = None \<and>
            validateKey D ''Query.startAfter'' 2 n True = None \<and>
            startValidForIndex D (getIndex (queryParams' q)) (defaultNull v) n
          \<longrightarrow> (\<exists>qa qb. startAt D q a1 v n = Inr qa \<and> startAfter D q a2 v n = Inr qb \<and>
                 isEqual D qa argc (Inr qb) = Inr False))"
proof -
  have eq: "isEqual D x argc (Inr y) =
           Inr (repo x = repo y \<and> pathEquals D (path x) (path y) \<and>
                queryIdentifier D x = queryIdentifier D y)" for x y
    using argc by (simp add: isEqual_def)
  have same: "queryObject q1 = queryObject q2 \<Longrightarrow> queryIdentifier D q1 = queryIdentifier D q2"
    by (simp add: queryIdentifier_def)
  have obj: "isEqual D x argc (Inr y) =
       Inr (repo x = repo y \<and> pathEquals D (path x) (path y) \<and> queryObject x = queryObject y)"
    if "inj (ObjectToUniqueKey D)" "''default'' \<notin> range (ObjectToUniqueKey D)" for x y
    using eq [of x y] identifier_is_object [OF that, of x y] by simp
  have pair: "\<exists>qa qb. startAt D q a1 v n = Inr qa \<and> startAfter D q a2 v n = Inr qb \<and>
                 isEqual D qa argc (Inr qb) = Inr False"
    if key: "inj (ObjectToUniqueKey D)" "''default'' \<notin> range (ObjectToUniqueKey D)"
      and r: "reachable D q" and ns: "\<not> hasStart (queryParams' q)"
      and sa: "validateArgCount D ''Query.startAt'' 0 2 a1 = None"
        "validateFirebaseDataArg D ''Query.startAt'' 1 (defaultNull v) (path q) True = None"
        "validateKey D ''Query.startAt'' 2 n True = None"
      and sb: "validateArgCount D ''Query.startAfter'' 0 2 a2 = None"
        "validateFirebaseDataArg D ''Query.startAfter'' 1 (defaultNull v) (path q) False = None"
        "validateKey D ''Query.startAfter'' 2 n True = None"
      and valid: "startValidForIndex D (getIndex (queryParams' q)) (defaultNull v) n"
  proof -
    note chk = reachable_checkedParams [OF r]
    have a: "startAt D q a1 v n =
        Inr (new_Query (database q) (path q)
               (queryParamsStartAt (queryParams' q) (defaultNull v) n) (orderByCalled' q))"
      by (rule range_call_returns(1) [OF chk ns sa valid])
    have b: "startAfter D q a2 v n =
        Inr (new_Query (database q) (path q)
               (queryParamsStartAfter (queryParams' q) (defaultNull v) n) (orderByCalled' q))"
      by (rule range_call_returns(2) [OF chk ns sb valid])
    show ?thesis
      using a b obj [OF key] startAt_startAfter_objects by simp
  qed
  have c2: "repo q1 = repo q2 \<and> pathEquals D (path q1) (path q2) \<and>
            queryObject q1 = queryObject q2
          \<longrightarrow> isEqual D q1 argc (Inr q2) = Inr True"
    using eq [of q1 q2] same by simp
  have c3: "inj (ObjectToUniqueKey D) \<and> ''default'' \<notin> range (ObjectToUniqueKey D)
          \<longrightarrow> isEqual D q1 argc (Inr q2) =
                Inr (repo q1 = repo q2 \<and> pathEquals D (path q1) (path q2) \<and>
                     queryObject q1 = queryObject q2)"
    by (intro impI, elim conjE) (rule obj)
  have c4: "inj (ObjectToUniqueKey D) \<and> ''default'' \<notin> range (ObjectToUniqueKey D) \<and>
            reachable D q \<and> \<not> hasStart (queryParams' q) \<and>
            validateArgCount D ''Query.startAt'' 0 2 a1 = None \<and>
            validateFirebaseDataArg D ''Query.startAt'' 1 (defaultNull v) (path q) True = None \<and>
            validateKey D ''Query.startAt'' 2 n True = None \<and>
            validateArgCount D ''Query.startAfter'' 0 2 a2 = None \<and>
            validateFirebaseDataArg D ''Query.startAfter'' 1 (defaultNull v) (path q) False = None \<and>
            validateKey D ''Query.startAfter'' 2 n True = None \<and>
            startValidForIndex D (getIndex (queryParams' q)) (defaultNull v) n
          \<longrightarrow> (\<exists>qa qb. startAt D q a1 v n = Inr qa \<and> startAfter D q a2 v n = Inr qb \<and>
                 isEqual D qa argc (Inr qb) = Inr False)"
    by (intro impI, elim conjE) (rule pair)
  show ?thesis
    by (intro conjI) (rule eq c2 c3 c4)+
qed

theorem isEqual_repo_path_identifier_witness:
  "bindQ (orderByPriority acceptingHelpers priorityQuery 0)
      (\<lambda>ordered. startAt acceptingHelpers ordered 1 (JNum (Finite 5)) None) =
     Inr (new_Query exampleDatabase [''messages'']
            (queryParamsStartAt priorityParams (JNum (Finite 5)) None) True)
   \<and> startAt acceptingHelpers priorityQuery 1 (JNum (Finite 5)) None = Inr startAtFiveQuery
   \<and> new_Query exampleDatabase [''messages'']
        (queryParamsStartAt priorityParams (JNum (Finite 5)) None) True \<noteq> startAtFiveQuery
   \<and> isEqual acceptingHelpers
        (new_Query exampleDatabase [''messages'']
           (queryParamsStartAt priorityParams (JNum (Finite 5)) None) True) 1
        (Inr startAtFiveQuery) = Inr True
   \<and> startAfter acceptingHelpers priorityQuery 1 (JNum (Finite 5)) None =
       Inr (new_Query exampleDatabase [''messages'']
          (queryParamsStartAfter priorityParams (JNum (Finite 5)) None) False)
   \<and> isEqual acceptingHelpers startAtFiveQuery 1
       (Inr (new_Query exampleDatabase [''messages'']
          (queryParamsStartAfter priorityParams (JNum (Finite 5)) None) False)) = Inr False"
proof -
  let ?ordered = "new_Query exampleDatabase [''messages'']
            (queryParamsStartAt priorityParams (JNum (Finite 5)) None) True"
  let ?after = "new_Query exampleDatabase [''messages'']
          (queryParamsStartAfter priorityParams (JNum (Finite 5)) None) False"
  have argc: "validateArgCount acceptingHelpers ''Query.isEqual'' 1 1 1 = None"
    by (simp add: acceptingHelpers_def)
  have o: "bindQ (orderByPriority acceptingHelpers priorityQuery 0)
      (\<lambda>ordered. startAt acceptingHelpers ordered 1 (JNum (Finite 5)) None) = Inr ?ordered"
    by (simp add: orderByPriority_def startAt_def acceptingHelpers_def priorityQuery_def
        priorityParams_def new_Query_def defaultNull_def queryParamsStartAt_def
        queryParamsOrderBy_def validateNoPreviousOrderByCall'_def
        validateLimit'_def validateQueryEndpoints'_def hasStart_def hasEnd_def hasLimit_def
        getIndex_def getIndexStartValue_def notLooseNull_def)
  have a: "startAt acceptingHelpers priorityQuery 1 (JNum (Finite 5)) None = Inr startAtFiveQuery"
    by (simp add: startAt_def acceptingHelpers_def priorityQuery_def
        priorityParams_def startAtFiveQuery_def new_Query_def defaultNull_def
        queryParamsStartAt_def validateLimit'_def validateQueryEndpoints'_def hasStart_def
        hasEnd_def hasLimit_def getIndex_def getIndexStartValue_def notLooseNull_def)
  have b: "startAfter acceptingHelpers priorityQuery 1 (JNum (Finite 5)) None = Inr ?after"
    by (simp add: startAfter_def acceptingHelpers_def priorityQuery_def
        priorityParams_def new_Query_def defaultNull_def queryParamsStartAfter_def
        validateLimit'_def validateQueryEndpoints'_def hasStart_def hasEnd_def hasLimit_def
        getIndex_def getIndexStartValue_def notLooseNull_def)
  have ne: "?ordered \<noteq> startAtFiveQuery"
    by (simp add: startAtFiveQuery_def new_Query_def)
  have same: "repo ?ordered = repo startAtFiveQuery"
    "pathEquals acceptingHelpers (path ?ordered) (path startAtFiveQuery)"
    "queryObject ?ordered = queryObject startAtFiveQuery"
    by (simp_all add: startAtFiveQuery_def new_Query_def queryObject_def acceptingHelpers_def)
  have t: "isEqual acceptingHelpers ?ordered 1 (Inr startAtFiveQuery) = Inr True"
    using isEqual_repo_path_identifier [OF argc, where ?q1.0 = ?ordered
        and ?q2.0 = startAtFiveQuery, THEN conjunct2, THEN conjunct1] same
    by simp
  have f: "isEqual acceptingHelpers startAtFiveQuery 1 (Inr ?after) = Inr False"
    using isEqual_repo_path_identifier [OF argc, where q = priorityQuery and ?a1.0 = 1
        and ?a2.0 = 1 and v = "JNum (Finite 5)" and n = None,
        THEN conjunct2, THEN conjunct2, THEN conjunct2]
      acceptingHelpers_key example_queries_reachable(1) acceptingHelpers_accepts
      number_valid_for_priority priorityQuery_fields priorityParams_reads a b
    by (simp add: defaultNull_def)
  show ?thesis using o a ne t b f by (simp only: simp_thms)
qed

section \<open>The receiver of a call\<close>

text \<open>Each method on the store answers what the method on values answers for the receiver
  as it is in the store, and constructs the returned query.\<close>

lemma store_method_is_method:
  "Query_orderByChild D h this argc pathString =
     (case orderByChild D (h ! this) argc pathString of
        Inl e \<Rightarrow> (h, Inl e) | Inr q \<Rightarrow> (h @ [q], Inr (length h)))"
  "Query_orderByKey D h this argc =
     (case orderByKey D (h ! this) argc of
        Inl e \<Rightarrow> (h, Inl e) | Inr q \<Rightarrow> (h @ [q], Inr (length h)))"
  "Query_orderByPriority D h this argc =
     (case orderByPriority D (h ! this) argc of
        Inl e \<Rightarrow> (h, Inl e) | Inr q \<Rightarrow> (h @ [q], Inr (length h)))"
  "Query_orderByValue D h this argc =
     (case orderByValue D (h ! this) argc of
        Inl e \<Rightarrow> (h, Inl e) | Inr q \<Rightarrow> (h @ [q], Inr (length h)))"
  "Query_startAt D h this argc v n =
     (case startAt D (h ! this) argc v n of
        Inl e \<Rightarrow> (h, Inl e) | Inr q \<Rightarrow> (h @ [q], Inr (length h)))"
  "Query_startAfter D h this argc v n =
     (case startAfter D (h ! this) argc v n of
        Inl e \<Rightarrow> (h, Inl e) | Inr q \<Rightarrow> (h @ [q], Inr (length h)))"
  "Query_endAt D h this argc v n =
     (case endAt D (h ! this) argc v n of
        Inl e \<Rightarrow> (h, Inl e) | Inr q \<Rightarrow> (h @ [q], Inr (length h)))"
  "Query_endBefore D h this argc v n =
     (case endBefore D (h ! this) argc v n of
        Inl e \<Rightarrow> (h, Inl e) | Inr q \<Rightarrow> (h @ [q], Inr (length h)))"
  "Query_limitToFirst D h this argc limit =
     (case limitToFirst D (h ! this) argc limit of
        Inl e \<Rightarrow> (h, Inl e) | Inr q \<Rightarrow> (h @ [q], Inr (length h)))"
  "Query_limitToLast D h this argc limit =
     (case limitToLast D (h ! this) argc limit of
        Inl e \<Rightarrow> (h, Inl e) | Inr q \<Rightarrow> (h @ [q], Inr (length h)))"
  by (simp_all add: Query_orderByChild_def Query_orderByKey_def Query_orderByPriority_def
      Query_orderByValue_def Query_startAt_def Query_startAfter_def Query_endAt_def
      Query_endBefore_def Query_limitToFirst_def Query_limitToLast_def
      orderByChild_def orderByKey_def orderByPriority_def orderByValue_def startAt_def
      startAfter_def endAt_def endBefore_def limitToFirst_def limitToLast_def
      guarded_def throwing_def construct_Query_def thenDo_def Let_def
      split: option.splits jsval.splits)

text \<open>Every method but \<^verbatim>\<open>equalTo\<close> throws or constructs one query; \<^verbatim>\<open>equalTo\<close> is two such
  calls in a row.\<close>

lemma oneConstruction_throwing: "oneConstruction h (throwing h e)"
  by (simp add: oneConstruction_def throwing_def)

lemma oneConstruction_construct: "oneConstruction h (construct_Query h db p params obc)"
  by (simp add: oneConstruction_def construct_Query_def)

lemma oneConstruction_guarded:
  "oneConstruction h k \<Longrightarrow> oneConstruction h (guarded h r k)"
  by (cases r) (simp_all add: guarded_def oneConstruction_throwing)

lemmas oneConstruction_intros =
  oneConstruction_throwing oneConstruction_construct oneConstruction_guarded

lemma limit_oneConstruction:
  "oneConstruction h (Query_limitToFirst D h this argc limit)"
  "oneConstruction h (Query_limitToLast D h this argc limit)"
  by (cases limit; simp add: Query_limitToFirst_def Query_limitToLast_def oneConstruction_intros)+

lemma orderBy_oneConstruction:
  "oneConstruction h (Query_orderByChild D h this argc pathString)"
  "oneConstruction h (Query_orderByKey D h this argc)"
  "oneConstruction h (Query_orderByPriority D h this argc)"
  "oneConstruction h (Query_orderByValue D h this argc)"
  by (simp_all add: Query_orderByChild_def Query_orderByKey_def Query_orderByPriority_def
      Query_orderByValue_def Let_def oneConstruction_intros)

lemma range_oneConstruction:
  "oneConstruction h (Query_startAt D h this argc v n)"
  "oneConstruction h (Query_startAfter D h this argc v n)"
  "oneConstruction h (Query_endAt D h this argc v n)"
  "oneConstruction h (Query_endBefore D h this argc v n)"
  by (simp_all add: Query_startAt_def Query_startAfter_def Query_endAt_def Query_endBefore_def
      Let_def oneConstruction_intros)

lemma oneConstruction_leavesReceiver:
  "this < length h \<Longrightarrow> oneConstruction h res \<Longrightarrow> leavesReceiver h this res"
  by (auto simp: oneConstruction_def leavesReceiver_def nth_append)

lemma then_leavesReceiver:
  assumes alloc: "this < length h" and first: "oneConstruction h (h1, r1)"
    and second: "oneConstruction h1 res"
  shows "leavesReceiver h this res"
  using assms by (auto simp: oneConstruction_def leavesReceiver_def nth_append)

lemma equalTo_leavesReceiver:
  assumes alloc: "this < length h"
  shows "leavesReceiver h this (Query_equalTo D h this argc v n)"
proof -
  obtain h1 r1 where s: "Query_startAt D h this 2 v n = (h1, r1)"
    by (cases "Query_startAt D h this 2 v n") simp
  have one: "oneConstruction h (h1, r1)"
    using range_oneConstruction(1) [of h D this 2 v n] s by simp
  have inner: "leavesReceiver h this
      (case Query_startAt D h this 2 v n of
         (h1, Inl e) \<Rightarrow> (h1, Inl e)
       | (h1, Inr started) \<Rightarrow> Query_endAt D h1 started 2 v n)"
  proof (cases r1)
    case (Inl e)
    then show ?thesis
      using oneConstruction_leavesReceiver [OF alloc one] s by simp
  next
    case (Inr started)
    then show ?thesis
      using then_leavesReceiver [OF alloc one range_oneConstruction(3) [of h1 D started 2 v n]] s
      by simp
  qed
  have thr: "leavesReceiver h this (throwing h e)" for e
    by (rule oneConstruction_leavesReceiver [OF alloc oneConstruction_throwing])
  show ?thesis
    using inner thr by (simp add: Query_equalTo_def guarded_def split: option.splits)
qed

text \<open>
  C2. A call of any of the eleven builder methods on a query of the store leaves every
  query of the store as it was, in particular the receiver with its fields \<^verbatim>\<open>database\<close>,
  \<^verbatim>\<open>path\<close>, \<^verbatim>\<open>queryParams_\<close> and \<^verbatim>\<open>orderByCalled_\<close>, whether the call returns or throws; and
  the query a call returns is a new object, not the receiver.
\<close>

theorem builder_call_leaves_receiver:
  assumes "this < length h"
  shows "leavesReceiver h this (Query_orderByChild D h this argc pathString)
       \<and> leavesReceiver h this (Query_orderByKey D h this argc)
       \<and> leavesReceiver h this (Query_orderByPriority D h this argc)
       \<and> leavesReceiver h this (Query_orderByValue D h this argc)
       \<and> leavesReceiver h this (Query_startAt D h this argc v n)
       \<and> leavesReceiver h this (Query_startAfter D h this argc v n)
       \<and> leavesReceiver h this (Query_endAt D h this argc v n)
       \<and> leavesReceiver h this (Query_endBefore D h this argc v n)
       \<and> leavesReceiver h this (Query_equalTo D h this argc v n)
       \<and> leavesReceiver h this (Query_limitToFirst D h this argc limit)
       \<and> leavesReceiver h this (Query_limitToLast D h this argc limit)"
  using assms
  by (simp add: oneConstruction_leavesReceiver limit_oneConstruction orderBy_oneConstruction
      range_oneConstruction equalTo_leavesReceiver)

theorem builder_call_leaves_receiver_witness:
  "Query_limitToFirst acceptingHelpers [priorityQuery] 0 1 (JNum (Finite 3)) =
     ([priorityQuery, firstThreeQuery], Inr 1)
   \<and> Query_limitToFirst acceptingHelpers [priorityQuery] 0 1 (JNum (Finite 0)) =
     ([priorityQuery],
      Inl (Error ''Query.limitToFirst: First argument must be a positive integer.''))
   \<and> Query_equalTo acceptingHelpers [priorityQuery] 0 1 (JNum (Finite 5)) None =
     ([priorityQuery, startAtFiveQuery,
       new_Query exampleDatabase [''messages'']
         (queryParamsEndAt (queryParamsStartAt priorityParams (JNum (Finite 5)) None)
            (JNum (Finite 5)) None) False], Inr 2)
   \<and> leavesReceiver [priorityQuery] 0
        (Query_limitToFirst acceptingHelpers [priorityQuery] 0 1 (JNum (Finite 3)))
   \<and> leavesReceiver [priorityQuery] 0
        (Query_limitToFirst acceptingHelpers [priorityQuery] 0 1 (JNum (Finite 0)))
   \<and> leavesReceiver [priorityQuery] 0
        (Query_equalTo acceptingHelpers [priorityQuery] 0 1 (JNum (Finite 5)) None)"
proof -
  have ok: "Query_limitToFirst acceptingHelpers [priorityQuery] 0 1 (JNum (Finite 3)) =
     ([priorityQuery, firstThreeQuery], Inr 1)"
    by (simp add: store_method_is_method limitToFirst_def acceptingHelpers_def
        priorityQuery_def priorityParams_def firstThreeQuery_def new_Query_def
        numStrictNeq_def hasLimit_def)
  have bad: "Query_limitToFirst acceptingHelpers [priorityQuery] 0 1 (JNum (Finite 0)) =
     ([priorityQuery],
      Inl (Error ''Query.limitToFirst: First argument must be a positive integer.''))"
    by (simp add: store_method_is_method limitToFirst_def acceptingHelpers_def)
  have eq: "Query_equalTo acceptingHelpers [priorityQuery] 0 1 (JNum (Finite 5)) None =
     ([priorityQuery, startAtFiveQuery,
       new_Query exampleDatabase [''messages'']
         (queryParamsEndAt (queryParamsStartAt priorityParams (JNum (Finite 5)) None)
            (JNum (Finite 5)) None) False], Inr 2)"
    by (simp add: Query_equalTo_def Query_startAt_def Query_endAt_def guarded_def throwing_def
        construct_Query_def acceptingHelpers_def priorityQuery_def priorityParams_def
        startAtFiveQuery_def new_Query_def defaultNull_def queryParamsStartAt_def
        queryParamsEndAt_def validateLimit'_def validateQueryEndpoints'_def hasStart_def
        hasEnd_def hasLimit_def getIndex_def getIndexStartValue_def getIndexEndValue_def
        notLooseNull_def)
  note leaves = builder_call_leaves_receiver [where h = "[priorityQuery]" and this = 0
      and D = acceptingHelpers and argc = 1 and n = None]
  have a: "leavesReceiver [priorityQuery] 0
        (Query_limitToFirst acceptingHelpers [priorityQuery] 0 1 (JNum (Finite 3)))"
    using leaves [where limit = "JNum (Finite 3)"] by simp
  have b: "leavesReceiver [priorityQuery] 0
        (Query_limitToFirst acceptingHelpers [priorityQuery] 0 1 (JNum (Finite 0)))"
    using leaves [where limit = "JNum (Finite 0)"] by simp
  have c: "leavesReceiver [priorityQuery] 0
        (Query_equalTo acceptingHelpers [priorityQuery] 0 1 (JNum (Finite 5)) None)"
    using leaves [where v = "JNum (Finite 5)"] by simp
  show ?thesis using ok bad eq a b c by (simp only: simp_thms)
qed

section \<open>One orderBy call per query\<close>

lemma orderBy_after_orderBy:
  "orderByCalled' q \<Longrightarrow>
   isl (orderByChild D q argc p) \<and> isl (orderByKey D q argc) \<and>
   isl (orderByPriority D q argc) \<and> isl (orderByValue D q argc)"
  by (simp add: orderByChild_def orderByKey_def orderByPriority_def orderByValue_def
      validateNoPreviousOrderByCall'_def isl_thenDo)

lemma orderByKey_first:
  "\<not> orderByCalled' q \<Longrightarrow> validateArgCount D ''Query.orderByKey'' 0 0 argc = None \<Longrightarrow>
   validateQueryEndpoints' D (queryParamsOrderBy (queryParams' q) KEY_INDEX) = None \<Longrightarrow>
   orderByKey D q argc =
     Inr (new_Query (database q) (path q) (queryParamsOrderBy (queryParams' q) KEY_INDEX) True)"
  by (simp add: orderByKey_def validateNoPreviousOrderByCall'_def)

lemma orderByPriority_first:
  "\<not> orderByCalled' q \<Longrightarrow> validateArgCount D ''Query.orderByPriority'' 0 0 argc = None \<Longrightarrow>
   validateQueryEndpoints' D (queryParamsOrderBy (queryParams' q) PRIORITY_INDEX) = None \<Longrightarrow>
   orderByPriority D q argc =
     Inr (new_Query (database q) (path q)
            (queryParamsOrderBy (queryParams' q) PRIORITY_INDEX) True)"
  by (simp add: orderByPriority_def validateNoPreviousOrderByCall'_def)

lemma orderByValue_first:
  "\<not> orderByCalled' q \<Longrightarrow> validateArgCount D ''Query.orderByValue'' 0 0 argc = None \<Longrightarrow>
   validateQueryEndpoints' D (queryParamsOrderBy (queryParams' q) VALUE_INDEX) = None \<Longrightarrow>
   orderByValue D q argc =
     Inr (new_Query (database q) (path q) (queryParamsOrderBy (queryParams' q) VALUE_INDEX) True)"
  by (simp add: orderByValue_def validateNoPreviousOrderByCall'_def)

lemma orderByChild_first:
  "\<not> orderByCalled' q \<Longrightarrow> validateArgCount D ''Query.orderByChild'' 1 1 argc = None \<Longrightarrow>
   p \<noteq> ''$key'' \<Longrightarrow> p \<noteq> ''$priority'' \<Longrightarrow> p \<noteq> ''$value'' \<Longrightarrow>
   validatePathString D ''Query.orderByChild'' 1 p False = None \<Longrightarrow>
   \<not> pathIsEmpty D (newPath D p) \<Longrightarrow>
   validateQueryEndpoints' D
     (queryParamsOrderBy (queryParams' q) (PathIndex (newPath D p))) = None \<Longrightarrow>
   orderByChild D q argc p =
     Inr (new_Query (database q) (path q)
            (queryParamsOrderBy (queryParams' q) (PathIndex (newPath D p))) True)"
  by (simp add: orderByChild_def validateNoPreviousOrderByCall'_def Let_def)

text \<open>
  C3 (as amended). On a query on which an \<^verbatim>\<open>orderBy\<close> method has been called, each of
  \<^verbatim>\<open>orderByChild\<close>, \<^verbatim>\<open>orderByKey\<close>, \<^verbatim>\<open>orderByPriority\<close> and \<^verbatim>\<open>orderByValue\<close> throws. On a
  query with no such call, each of them, called with arguments that pass its argument
  checks, returns a new query marked as ordered, with the index replaced, provided the
  start and end bounds the query already has are valid for the new index; when they are
  not, the call throws.
\<close>

theorem orderBy_at_most_once:
  "(orderByCalled' q \<longrightarrow>
      isl (orderByChild D q argc p) \<and> isl (orderByKey D q argc) \<and>
      isl (orderByPriority D q argc) \<and> isl (orderByValue D q argc))
   \<and> (\<not> orderByCalled' q \<and> validateArgCount D ''Query.orderByKey'' 0 0 argc = None \<and>
       validateQueryEndpoints' D (queryParamsOrderBy (queryParams' q) KEY_INDEX) = None
      \<longrightarrow> orderByKey D q argc =
            Inr (new_Query (database q) (path q)
                   (queryParamsOrderBy (queryParams' q) KEY_INDEX) True))
   \<and> (\<not> orderByCalled' q \<and> validateArgCount D ''Query.orderByPriority'' 0 0 argc = None \<and>
       validateQueryEndpoints' D (queryParamsOrderBy (queryParams' q) PRIORITY_INDEX) = None
      \<longrightarrow> orderByPriority D q argc =
            Inr (new_Query (database q) (path q)
                   (queryParamsOrderBy (queryParams' q) PRIORITY_INDEX) True))
   \<and> (\<not> orderByCalled' q \<and> validateArgCount D ''Query.orderByValue'' 0 0 argc = None \<and>
       validateQueryEndpoints' D (queryParamsOrderBy (queryParams' q) VALUE_INDEX) = None
      \<longrightarrow> orderByValue D q argc =
            Inr (new_Query (database q) (path q)
                   (queryParamsOrderBy (queryParams' q) VALUE_INDEX) True))
   \<and> (\<not> orderByCalled' q \<and> validateArgCount D ''Query.orderByChild'' 1 1 argc = None \<and>
       p \<noteq> ''$key'' \<and> p \<noteq> ''$priority'' \<and> p \<noteq> ''$value'' \<and>
       validatePathString D ''Query.orderByChild'' 1 p False = None \<and>
       \<not> pathIsEmpty D (newPath D p) \<and>
       validateQueryEndpoints' D
         (queryParamsOrderBy (queryParams' q) (PathIndex (newPath D p))) = None
      \<longrightarrow> orderByChild D q argc p =
            Inr (new_Query (database q) (path q)
                   (queryParamsOrderBy (queryParams' q) (PathIndex (newPath D p))) True))
   \<and> orderByCalled' (new_Query db pth params True)
   \<and> (validateQueryEndpoints' D (queryParamsOrderBy (queryParams' q) KEY_INDEX) \<noteq> None
      \<longrightarrow> isl (orderByKey D q argc))
   \<and> (validateQueryEndpoints' D (queryParamsOrderBy (queryParams' q) PRIORITY_INDEX) \<noteq> None
      \<longrightarrow> isl (orderByPriority D q argc))
   \<and> (validateQueryEndpoints' D (queryParamsOrderBy (queryParams' q) VALUE_INDEX) \<noteq> None
      \<longrightarrow> isl (orderByValue D q argc))
   \<and> (validateQueryEndpoints' D
         (queryParamsOrderBy (queryParams' q) (PathIndex (newPath D p))) \<noteq> None
      \<longrightarrow> isl (orderByChild D q argc p))"
proof -
  have called: "orderByCalled' q \<longrightarrow>
      isl (orderByChild D q argc p) \<and> isl (orderByKey D q argc) \<and>
      isl (orderByPriority D q argc) \<and> isl (orderByValue D q argc)"
    using orderBy_after_orderBy [of q D argc p] by simp
  have made: "orderByCalled' (new_Query db pth params True)"
    by (simp add: new_Query_def)
  show ?thesis
    using called made orderByKey_first [of q D argc] orderByPriority_first [of q D argc]
      orderByValue_first [of q D argc] orderByChild_first [of q D argc p]
      endpoints_checked_by_order_calls(1-3) [where D = D and q = q and argc = argc]
      endpoints_checked_by_order_calls(4) [where D = D and q = q and argc = argc and c = p]
    by (simp only: simp_thms) blast
qed

theorem orderBy_at_most_once_witness:
  "orderByKey acceptingHelpers priorityQuery 0 =
     Inr (new_Query exampleDatabase [''messages'']
            (queryParamsOrderBy priorityParams KEY_INDEX) True)
   \<and> orderByPriority acceptingHelpers priorityQuery 0 =
     Inr (new_Query exampleDatabase [''messages'']
            (queryParamsOrderBy priorityParams PRIORITY_INDEX) True)
   \<and> orderByValue acceptingHelpers priorityQuery 0 = Inr valueQuery
   \<and> orderByChild acceptingHelpers priorityQuery 1 ''age'' =
     Inr (new_Query exampleDatabase [''messages'']
            (queryParamsOrderBy priorityParams (PathIndex [''age''])) True)
   \<and> isl (orderByChild acceptingHelpers valueQuery 1 ''age'')
   \<and> isl (orderByKey acceptingHelpers valueQuery 0)
   \<and> isl (orderByPriority acceptingHelpers valueQuery 0)
   \<and> isl (orderByValue acceptingHelpers valueQuery 0)
   \<and> orderByValue acceptingHelpers startAtFiveQuery 0 =
     Inr (new_Query exampleDatabase [''messages'']
            (queryParamsOrderBy (queryParamsStartAt priorityParams (JNum (Finite 5)) None)
               VALUE_INDEX) True)
   \<and> isl (orderByKey acceptingHelpers startAtFiveQuery 0)"
proof -
  note first = orderBy_at_most_once [where q = priorityQuery and D = acceptingHelpers
      and db = exampleDatabase and pth = "[]" and params = priorityParams]
  have nb: "\<not> hasStart (queryParamsOrderBy priorityParams i)"
    "\<not> hasEnd (queryParamsOrderBy priorityParams i)" for i
    by (simp_all add: hasStart_def hasEnd_def queryParamsOrderBy_def priorityParams_def)
  have ep: "validateQueryEndpoints' acceptingHelpers (queryParamsOrderBy priorityParams i) = None"
    for i
    by (rule endpoints_no_bounds [OF nb])
  have k: "orderByKey acceptingHelpers priorityQuery 0 =
     Inr (new_Query exampleDatabase [''messages'']
            (queryParamsOrderBy priorityParams KEY_INDEX) True)"
    using first [where argc = 0 and p = "''age''", THEN conjunct2, THEN conjunct1]
      ep priorityQuery_fields
    by (simp add: acceptingHelpers_def)
  have pr: "orderByPriority acceptingHelpers priorityQuery 0 =
     Inr (new_Query exampleDatabase [''messages'']
            (queryParamsOrderBy priorityParams PRIORITY_INDEX) True)"
    using first [where argc = 0 and p = "''age''",
        THEN conjunct2, THEN conjunct2, THEN conjunct1] ep priorityQuery_fields
    by (simp add: acceptingHelpers_def)
  have v: "orderByValue acceptingHelpers priorityQuery 0 = Inr valueQuery"
    using first [where argc = 0 and p = "''age''",
        THEN conjunct2, THEN conjunct2, THEN conjunct2, THEN conjunct1]
      ep priorityQuery_fields
    by (simp add: acceptingHelpers_def valueQuery_def)
  have np: "newPath acceptingHelpers ''age'' = [''age'']"
    "\<not> pathIsEmpty acceptingHelpers [''age'']"
    "validateArgCount acceptingHelpers ''Query.orderByChild'' 1 1 1 = None"
    "validatePathString acceptingHelpers ''Query.orderByChild'' 1 ''age'' False = None"
    by (simp_all add: acceptingHelpers_def)
  have c: "orderByChild acceptingHelpers priorityQuery 1 ''age'' =
     Inr (new_Query exampleDatabase [''messages'']
            (queryParamsOrderBy priorityParams (PathIndex [''age''])) True)"
    using first [where argc = 1 and p = "''age''",
        THEN conjunct2, THEN conjunct2, THEN conjunct2, THEN conjunct2, THEN conjunct1]
      ep priorityQuery_fields np
    by simp
  have again: "isl (orderByChild acceptingHelpers valueQuery argc ''age'') \<and>
      isl (orderByKey acceptingHelpers valueQuery argc) \<and>
      isl (orderByPriority acceptingHelpers valueQuery argc) \<and>
      isl (orderByValue acceptingHelpers valueQuery argc)" for argc
    using orderBy_at_most_once [where q = valueQuery and D = acceptingHelpers and argc = argc
        and p = "''age''", THEN conjunct1] valueQuery_fields
    by simp
  note bounded = orderBy_at_most_once [where q = startAtFiveQuery and D = acceptingHelpers
      and argc = 0 and p = "''age''"]
  have fits: "validateQueryEndpoints' acceptingHelpers
      (queryParamsOrderBy (queryParamsStartAt priorityParams (JNum (Finite 5)) None)
         VALUE_INDEX) = None"
    by (simp add: validateQueryEndpoints'_def queryParamsOrderBy_def queryParamsStartAt_def
        priorityParams_def hasStart_def hasEnd_def getIndex_def getIndexStartValue_def
        notLooseNull_def)
  have misfit: "validateQueryEndpoints' acceptingHelpers
      (queryParamsOrderBy (queryParamsStartAt priorityParams (JNum (Finite 5)) None)
         KEY_INDEX) \<noteq> None"
    by (simp add: validateQueryEndpoints'_def queryParamsOrderBy_def queryParamsStartAt_def
        priorityParams_def hasStart_def hasEnd_def getIndex_def getIndexStartValue_def
        getIndexStartName_def)
  have ret: "orderByValue acceptingHelpers startAtFiveQuery 0 =
     Inr (new_Query exampleDatabase [''messages'']
            (queryParamsOrderBy (queryParamsStartAt priorityParams (JNum (Finite 5)) None)
               VALUE_INDEX) True)"
    using bounded [THEN conjunct2, THEN conjunct2, THEN conjunct2, THEN conjunct1]
      fits startAtFiveQuery_fields acceptingHelpers_accepts
    by simp
  have thr: "isl (orderByKey acceptingHelpers startAtFiveQuery 0)"
    using bounded [THEN conjunct2, THEN conjunct2, THEN conjunct2, THEN conjunct2,
        THEN conjunct2, THEN conjunct2, THEN conjunct1]
      misfit startAtFiveQuery_fields
    by simp
  show ?thesis using k pr v c again [of 0] again [of 1] ret thr by simp
qed

theorem orderByKey_after_startAt_counterexample:
  "\<not> orderByCalled' startAtFiveQuery
   \<and> validateArgCount acceptingHelpers ''Query.orderByKey'' 0 0 0 = None
   \<and> orderByKey acceptingHelpers startAtFiveQuery 0 = Inl (Error wrongArgTypeError)"
  by (simp add: orderByKey_def startAtFiveQuery_def new_Query_def acceptingHelpers_def
      validateNoPreviousOrderByCall'_def validateQueryEndpoints'_def queryParamsOrderBy_def
      queryParamsStartAt_def priorityParams_def hasStart_def hasEnd_def getIndex_def
      getIndexStartValue_def getIndexStartName_def)

section \<open>Start and end bounds\<close>

lemma start_already_set:
  "hasStart (queryParams' q) \<Longrightarrow>
   isl (startAt D q argc v n) \<and> isl (startAfter D q argc v n)"
  by (simp add: isl_iff_no_Inr startAt_Inr startAfter_Inr)

lemma end_already_set:
  "hasEnd (queryParams' q) \<Longrightarrow> isl (endAt D q argc v n) \<and> isl (endBefore D q argc v n)"
  by (simp add: isl_iff_no_Inr endAt_Inr endBefore_Inr)

text \<open>
  C4. On a query that has a start bound, \<^verbatim>\<open>startAt\<close> and \<^verbatim>\<open>startAfter\<close> throw; on a query
  that has an end bound, \<^verbatim>\<open>endAt\<close> and \<^verbatim>\<open>endBefore\<close> throw. On a reachable query without
  the respective bound, each of these calls, given arguments that pass the argument checks
  and are valid for the index of the query, returns a new query with the bound set.
\<close>

theorem one_start_one_end:
  "(hasStart (queryParams' q) \<longrightarrow>
      isl (startAt D q argc v n) \<and> isl (startAfter D q argc v n))
   \<and> (hasEnd (queryParams' q) \<longrightarrow>
      isl (endAt D q argc v n) \<and> isl (endBefore D q argc v n))
   \<and> (reachable D q \<and> \<not> hasStart (queryParams' q) \<and>
       validateArgCount D ''Query.startAt'' 0 2 argc = None \<and>
       validateFirebaseDataArg D ''Query.startAt'' 1 (defaultNull v) (path q) True = None \<and>
       validateKey D ''Query.startAt'' 2 n True = None \<and>
       startValidForIndex D (getIndex (queryParams' q)) (defaultNull v) n
      \<longrightarrow> startAt D q argc v n =
            Inr (new_Query (database q) (path q)
                   (queryParamsStartAt (queryParams' q) (defaultNull v) n) (orderByCalled' q)))
   \<and> (reachable D q \<and> \<not> hasStart (queryParams' q) \<and>
       validateArgCount D ''Query.startAfter'' 0 2 argc = None \<and>
       validateFirebaseDataArg D ''Query.startAfter'' 1 (defaultNull v) (path q) False = None \<and>
       validateKey D ''Query.startAfter'' 2 n True = None \<and>
       startValidForIndex D (getIndex (queryParams' q)) (defaultNull v) n
      \<longrightarrow> startAfter D q argc v n =
            Inr (new_Query (database q) (path q)
                   (queryParamsStartAfter (queryParams' q) (defaultNull v) n)
                   (orderByCalled' q)))
   \<and> (reachable D q \<and> \<not> hasEnd (queryParams' q) \<and>
       validateArgCount D ''Query.endAt'' 0 2 argc = None \<and>
       validateFirebaseDataArg D ''Query.endAt'' 1 (defaultNull v) (path q) True = None \<and>
       validateKey D ''Query.endAt'' 2 n True = None \<and>
       endValidForIndex D (getIndex (queryParams' q)) (defaultNull v) n
      \<longrightarrow> endAt D q argc v n =
            Inr (new_Query (database q) (path q)
                   (queryParamsEndAt (queryParams' q) (defaultNull v) n) (orderByCalled' q)))
   \<and> (reachable D q \<and> \<not> hasEnd (queryParams' q) \<and>
       validateArgCount D ''Query.endBefore'' 0 2 argc = None \<and>
       validateFirebaseDataArg D ''Query.endBefore'' 1 (defaultNull v) (path q) False = None \<and>
       validateKey D ''Query.endBefore'' 2 n True = None \<and>
       endValidForIndex D (getIndex (queryParams' q)) (defaultNull v) n
      \<longrightarrow> endBefore D q argc v n =
            Inr (new_Query (database q) (path q)
                   (queryParamsEndBefore (queryParams' q) (defaultNull v) n)
                   (orderByCalled' q)))"
proof -
  have ret: "reachable D q \<Longrightarrow> checkedParams D (queryParams' q)"
    by (rule reachable_checkedParams)
  show ?thesis
    using start_already_set [of q D argc v n] end_already_set [of q D argc v n]
      range_call_returns [of D q argc v n] ret
    by blast
qed

theorem one_start_one_end_witness:
  "startAt acceptingHelpers priorityQuery 1 (JNum (Finite 5)) None = Inr startAtFiveQuery
   \<and> endAt acceptingHelpers startAtFiveQuery 1 (JNum (Finite 10)) None =
       Inr (new_Query exampleDatabase [''messages'']
              (queryParamsEndAt (queryParamsStartAt priorityParams (JNum (Finite 5)) None)
                 (JNum (Finite 10)) None) False)
   \<and> startAfter acceptingHelpers firstThreeQuery 1 (JNum (Finite 5)) None =
       Inr (new_Query exampleDatabase [''messages'']
              (queryParamsStartAfter (queryParamsLimitToFirst priorityParams (Finite 3))
                 (JNum (Finite 5)) None) False)
   \<and> endBefore acceptingHelpers priorityQuery 1 (JNum (Finite 10)) None =
       Inr (new_Query exampleDatabase [''messages'']
              (queryParamsEndBefore priorityParams (JNum (Finite 10)) None) False)
   \<and> isl (startAt acceptingHelpers startAtFiveQuery 1 (JNum (Finite 7)) None)
   \<and> isl (startAfter acceptingHelpers startAtFiveQuery 1 (JNum (Finite 7)) None)
   \<and> isl (endAt acceptingHelpers
             (new_Query exampleDatabase [''messages'']
                (queryParamsEndAt priorityParams (JNum (Finite 10)) None) False)
             1 (JNum (Finite 20)) None)
   \<and> isl (endBefore acceptingHelpers
             (new_Query exampleDatabase [''messages'']
                (queryParamsEndAt priorityParams (JNum (Finite 10)) None) False)
             1 (JNum (Finite 20)) None)
   \<and> \<not> reachable acceptingHelpers endAndRawLimitQuery"
proof -
  let ?ended = "new_Query exampleDatabase [''messages'']
                (queryParamsEndAt priorityParams (JNum (Finite 10)) None) False"
  have a: "startAt acceptingHelpers priorityQuery 1 (JNum (Finite 5)) None = Inr startAtFiveQuery"
    using one_start_one_end [where q = priorityQuery and D = acceptingHelpers
        and argc = 1 and n = None and v = "JNum (Finite 5)",
        THEN conjunct2, THEN conjunct2, THEN conjunct1]
      example_queries_reachable acceptingHelpers_accepts number_valid_for_priority
      priorityQuery_fields priorityParams_reads
    by (simp add: defaultNull_def startAtFiveQuery_def)
  have b: "endAt acceptingHelpers startAtFiveQuery 1 (JNum (Finite 10)) None =
       Inr (new_Query exampleDatabase [''messages'']
              (queryParamsEndAt (queryParamsStartAt priorityParams (JNum (Finite 5)) None)
                 (JNum (Finite 10)) None) False)"
    using one_start_one_end [where q = startAtFiveQuery and D = acceptingHelpers
        and argc = 1 and n = None and v = "JNum (Finite 10)",
        THEN conjunct2, THEN conjunct2, THEN conjunct2, THEN conjunct2, THEN conjunct1]
      example_queries_reachable acceptingHelpers_accepts number_valid_for_priority
      startAtFiveQuery_fields example_params_read
    by (simp add: defaultNull_def)
  have c: "startAfter acceptingHelpers firstThreeQuery 1 (JNum (Finite 5)) None =
       Inr (new_Query exampleDatabase [''messages'']
              (queryParamsStartAfter (queryParamsLimitToFirst priorityParams (Finite 3))
                 (JNum (Finite 5)) None) False)"
    using one_start_one_end [where q = firstThreeQuery and D = acceptingHelpers
        and argc = 1 and n = None and v = "JNum (Finite 5)",
        THEN conjunct2, THEN conjunct2, THEN conjunct2, THEN conjunct1]
      example_queries_reachable acceptingHelpers_accepts number_valid_for_priority
      firstThreeQuery_fields example_params_read
    by (simp add: defaultNull_def)
  have d: "endBefore acceptingHelpers priorityQuery 1 (JNum (Finite 10)) None =
       Inr (new_Query exampleDatabase [''messages'']
              (queryParamsEndBefore priorityParams (JNum (Finite 10)) None) False)"
    using one_start_one_end [where q = priorityQuery and D = acceptingHelpers
        and argc = 1 and n = None and v = "JNum (Finite 10)",
        THEN conjunct2, THEN conjunct2, THEN conjunct2, THEN conjunct2, THEN conjunct2]
      example_queries_reachable acceptingHelpers_accepts number_valid_for_priority
      priorityQuery_fields priorityParams_reads
    by (simp add: defaultNull_def)
  have e: "isl (startAt acceptingHelpers startAtFiveQuery 1 (JNum (Finite 7)) None) \<and>
      isl (startAfter acceptingHelpers startAtFiveQuery 1 (JNum (Finite 7)) None)"
    using one_start_one_end [where q = startAtFiveQuery and D = acceptingHelpers
        and argc = 1 and v = "JNum (Finite 7)" and n = None, THEN conjunct1]
      startAtFiveQuery_fields
    by (simp add: builder_sets_bound)
  have f: "isl (endAt acceptingHelpers ?ended 1 (JNum (Finite 20)) None) \<and>
      isl (endBefore acceptingHelpers ?ended 1 (JNum (Finite 20)) None)"
    using one_start_one_end [where q = ?ended and D = acceptingHelpers
        and argc = 1 and v = "JNum (Finite 20)" and n = None, THEN conjunct2, THEN conjunct1]
    by (simp add: builder_sets_bound new_Query_def)
  show ?thesis
    using a b c d e f raw_limit_not_reachable(1) [of acceptingHelpers]
    by (simp only: simp_thms)
qed

section \<open>Limits\<close>

lemma limitToFirst_JNum:
  "validateArgCount D ''Query.limitToFirst'' 1 1 argc = None \<Longrightarrow>
   limitToFirst D q argc (JNum x) =
     (if numStrictNeq (Math_floor x) x \<or> numLeZero x then
        Inl (Error ''Query.limitToFirst: First argument must be a positive integer.'')
      else if hasLimit (queryParams' q) then
        Inl (Error
          (''Query.limitToFirst: Limit was already set (by another call to limit, '' @
           ''limitToFirst, or limitToLast).''))
      else
        Inr (new_Query (database q) (path q)
               (queryParamsLimitToFirst (queryParams' q) x) (orderByCalled' q)))"
  by (simp add: limitToFirst_def)

lemma limitToLast_JNum:
  "validateArgCount D ''Query.limitToLast'' 1 1 argc = None \<Longrightarrow>
   limitToLast D q argc (JNum x) =
     (if numStrictNeq (Math_floor x) x \<or> numLeZero x then
        Inl (Error ''Query.limitToLast: First argument must be a positive integer.'')
      else if hasLimit (queryParams' q) then
        Inl (Error
          (''Query.limitToLast: Limit was already set (by another call to limit, '' @
           ''limitToFirst, or limitToLast).''))
      else
        Inr (new_Query (database q) (path q)
               (queryParamsLimitToLast (queryParams' q) x) (orderByCalled' q)))"
  by (simp add: limitToLast_def)

lemma limit_not_number:
  "typeof l \<noteq> ''number'' \<Longrightarrow>
   isl (limitToFirst D q argc l) \<and> isl (limitToLast D q argc l)"
  by (cases l) (simp_all add: limitToFirst_def limitToLast_def isl_thenDo)

lemma floor_neq_iff: "numStrictNeq (Math_floor (Finite r)) (Finite r) \<longleftrightarrow> r \<notin> \<int>"
proof -
  have "of_int \<lfloor>r\<rfloor> = r \<longleftrightarrow> r \<in> \<int>"
    by (metis Ints_of_int floor_of_int Ints_cases)
  then show ?thesis by (auto simp: numStrictNeq_def)
qed

text \<open>
  C5. \<^verbatim>\<open>limitToFirst\<close> and \<^verbatim>\<open>limitToLast\<close> accept the number \<^verbatim>\<open>Infinity\<close>, which is not a
  positive integer: \<^verbatim>\<open>Math.floor(Infinity)\<close> is \<^verbatim>\<open>Infinity\<close>, and \<^verbatim>\<open>Infinity <= 0\<close> is false.
  On a query with no limit the call returns a query whose limit is \<^verbatim>\<open>Infinity\<close>.
\<close>

theorem limit_accepts_infinity:
  "(\<not> hasLimit (queryParams' q) \<and> validateArgCount D ''Query.limitToFirst'' 1 1 argc = None
      \<longrightarrow> limitToFirst D q argc (JNum PosInfinity) =
            Inr (new_Query (database q) (path q)
                   (queryParamsLimitToFirst (queryParams' q) PosInfinity) (orderByCalled' q)))
   \<and> (\<not> hasLimit (queryParams' q) \<and> validateArgCount D ''Query.limitToLast'' 1 1 argc = None
      \<longrightarrow> limitToLast D q argc (JNum PosInfinity) =
            Inr (new_Query (database q) (path q)
                   (queryParamsLimitToLast (queryParams' q) PosInfinity) (orderByCalled' q)))"
  by (simp add: limitToFirst_JNum limitToLast_JNum numStrictNeq_def)

theorem limit_accepts_infinity_witness:
  "limitToFirst acceptingHelpers priorityQuery 1 (JNum PosInfinity) =
     Inr (new_Query exampleDatabase [''messages'']
            \<lparr>qpIndex = PRIORITY_INDEX, qpStart = None, qpEnd = None,
             qpLimit = Some (Limit PosInfinity (Some AnchorFirst))\<rparr> False)
   \<and> limitToLast acceptingHelpers priorityQuery 1 (JNum PosInfinity) =
     Inr (new_Query exampleDatabase [''messages'']
            \<lparr>qpIndex = PRIORITY_INDEX, qpStart = None, qpEnd = None,
             qpLimit = Some (Limit PosInfinity (Some AnchorLast))\<rparr> False)"
proof -
  have args: "validateArgCount acceptingHelpers ''Query.limitToFirst'' 1 1 1 = None"
    "validateArgCount acceptingHelpers ''Query.limitToLast'' 1 1 1 = None"
    by (simp_all add: acceptingHelpers_def)
  have nolimit: "\<not> hasLimit priorityParams"
    by (simp add: hasLimit_def priorityParams_def)
  show ?thesis
    using limit_accepts_infinity [of priorityQuery acceptingHelpers 1] args nolimit
      priorityQuery_fields
    by (simp add: queryParamsLimitToFirst_def queryParamsLimitToLast_def priorityParams_def)
qed

text \<open>
  For every other argument the two methods do what their messages say. They throw when
  the argument is not a number, is \<^verbatim>\<open>NaN\<close> or \<^verbatim>\<open>-Infinity\<close>, is finite and not an integer, or
  is at most zero, and they throw when the query has a limit. Called with one argument
  that is a finite positive integer, on a query with no limit, they return a new query
  whose parameters hold that limit, anchored to the first (\<^verbatim>\<open>limitToFirst\<close>) or to the
  last (\<^verbatim>\<open>limitToLast\<close>) children; the other parameters and fields are those of the
  receiver.
\<close>

theorem limit_positive_integer:
  "(typeof l \<noteq> ''number'' \<or> l = JNum NaN \<or> l = JNum NegInfinity \<or>
      (\<exists>r. l = JNum (Finite r) \<and> (r \<notin> \<int> \<or> r \<le> 0)) \<or> hasLimit (queryParams' q)
      \<longrightarrow> isl (limitToFirst D q argc l) \<and> isl (limitToLast D q argc l))
   \<and> (r \<in> \<int> \<and> 0 < r \<and> \<not> hasLimit (queryParams' q) \<and>
       validateArgCount D ''Query.limitToFirst'' 1 1 argc = None
      \<longrightarrow> limitToFirst D q argc (JNum (Finite r)) =
            Inr (new_Query (database q) (path q)
                   ((queryParams' q)\<lparr>qpLimit := Some (Limit (Finite r) (Some AnchorFirst))\<rparr>)
                   (orderByCalled' q)))
   \<and> (r \<in> \<int> \<and> 0 < r \<and> \<not> hasLimit (queryParams' q) \<and>
       validateArgCount D ''Query.limitToLast'' 1 1 argc = None
      \<longrightarrow> limitToLast D q argc (JNum (Finite r)) =
            Inr (new_Query (database q) (path q)
                   ((queryParams' q)\<lparr>qpLimit := Some (Limit (Finite r) (Some AnchorLast))\<rparr>)
                   (orderByCalled' q)))"
proof -
  have throws: "isl (limitToFirst D q argc (JNum x)) \<and> isl (limitToLast D q argc (JNum x))"
    if "numStrictNeq (Math_floor x) x \<or> numLeZero x \<or> hasLimit (queryParams' q)" for x
    using that by (auto simp: limitToFirst_def limitToLast_def isl_thenDo)
  have a: "isl (limitToFirst D q argc l) \<and> isl (limitToLast D q argc l)"
    if "typeof l \<noteq> ''number'' \<or> l = JNum NaN \<or> l = JNum NegInfinity \<or>
      (\<exists>r. l = JNum (Finite r) \<and> (r \<notin> \<int> \<or> r \<le> 0)) \<or> hasLimit (queryParams' q)"
  proof (cases l)
    case (JNum x)
    then have "numStrictNeq (Math_floor x) x \<or> numLeZero x \<or> hasLimit (queryParams' q)"
      using that floor_neq_iff by (cases x) (auto simp: numStrictNeq_def)
    then show ?thesis using throws JNum by simp
  qed (simp_all add: limit_not_number)
  have b: "\<not> numStrictNeq (Math_floor (Finite r)) (Finite r) \<and> \<not> numLeZero (Finite r)"
    if "r \<in> \<int>" "0 < r"
    using that floor_neq_iff [of r] by simp
  show ?thesis
    using a b
    by (simp add: limitToFirst_JNum limitToLast_JNum queryParamsLimitToFirst_def
        queryParamsLimitToLast_def)
qed

theorem limit_positive_integer_witness:
  "limitToFirst acceptingHelpers priorityQuery 1 (JNum (Finite 3)) = Inr firstThreeQuery
   \<and> isl (limitToLast acceptingHelpers firstThreeQuery 1 (JNum (Finite 2)))
   \<and> isl (limitToFirst acceptingHelpers priorityQuery 1 (JNum (Finite (3 / 2))))
   \<and> isl (limitToFirst acceptingHelpers priorityQuery 1 (JStr ''3''))"
proof -
  have args: "validateArgCount acceptingHelpers ''Query.limitToFirst'' 1 1 1 = None"
    by (simp add: acceptingHelpers_def)
  have nolimit: "\<not> hasLimit priorityParams" "hasLimit (queryParams' firstThreeQuery)"
    by (simp_all add: hasLimit_def priorityParams_def firstThreeQuery_def new_Query_def
        queryParamsLimitToFirst_def)
  have three: "(3::rat) \<in> \<int>" "(0::rat) < 3" by simp_all
  have half: "(3 / 2 :: rat) \<notin> \<int>"
  proof
    assume "(3 / 2 :: rat) \<in> \<int>"
    then obtain k :: int where "(3 / 2 :: rat) = of_int k" by (auto elim: Ints_cases)
    then have "(3::rat) = of_int (2 * k)" by simp
    then have "(3::int) = 2 * k" by (metis of_int_eq_iff of_int_numeral)
    then show False by presburger
  qed
  have frac: "\<exists>r. JNum (Finite (3 / 2)) = JNum (Finite r) \<and> (r \<notin> \<int> \<or> r \<le> 0)"
    using half by blast
  have a: "limitToFirst acceptingHelpers priorityQuery 1 (JNum (Finite 3)) = Inr firstThreeQuery"
    using limit_positive_integer [of "JNum (Finite 3)" priorityQuery acceptingHelpers 1 3]
      args nolimit three priorityQuery_fields
    by (simp add: firstThreeQuery_def queryParamsLimitToFirst_def)
  have b: "isl (limitToLast acceptingHelpers firstThreeQuery 1 (JNum (Finite 2)))"
    using limit_positive_integer [of "JNum (Finite 2)" firstThreeQuery acceptingHelpers 1 3]
      nolimit
    by simp
  have c: "isl (limitToFirst acceptingHelpers priorityQuery 1 (JNum (Finite (3 / 2))))"
    using limit_positive_integer [of "JNum (Finite (3 / 2))" priorityQuery acceptingHelpers 1 3]
      frac
    by blast
  have d: "isl (limitToFirst acceptingHelpers priorityQuery 1 (JStr ''3''))"
    using limit_positive_integer [of "JStr ''3''" priorityQuery acceptingHelpers 1 3]
    by simp
  show ?thesis using a b c d by simp
qed

section \<open>Limits and both bounds\<close>






section \<open>Endpoint types\<close>

lemma key_index_start:
  "getIndex p = KEY_INDEX \<and> hasStart p \<and>
     (typeof (getIndexStartValue p) \<noteq> ''string'' \<or>
      getIndexStartName (MIN_NAME D) p \<noteq> MIN_NAME D)
   \<longrightarrow> validateQueryEndpoints' D p \<noteq> None"
  by (auto simp: validateQueryEndpoints'_def Let_def)

lemma key_index_end:
  "getIndex p = KEY_INDEX \<and> hasEnd p \<and>
     (typeof (getIndexEndValue p) \<noteq> ''string'' \<or>
      getIndexEndName (MAX_NAME D) p \<noteq> MAX_NAME D)
   \<longrightarrow> validateQueryEndpoints' D p \<noteq> None"
  by (auto simp: validateQueryEndpoints'_def Let_def firstError_def split: option.splits)

lemma priority_index_start:
  "getIndex p = PRIORITY_INDEX \<and> hasStart p \<and> notLooseNull (getIndexStartValue p) \<and>
     \<not> isValidPriority D (getIndexStartValue p)
   \<longrightarrow> validateQueryEndpoints' D p \<noteq> None"
  by (simp add: validateQueryEndpoints'_def)

lemma priority_index_end:
  "getIndex p = PRIORITY_INDEX \<and> hasEnd p \<and> notLooseNull (getIndexEndValue p) \<and>
     \<not> isValidPriority D (getIndexEndValue p)
   \<longrightarrow> validateQueryEndpoints' D p \<noteq> None"
  by (simp add: validateQueryEndpoints'_def)

lemma value_or_path_index_start:
  "(getIndex p = VALUE_INDEX \<or> getIndex p = PathIndex c) \<and> hasStart p \<and>
     notLooseNull (getIndexStartValue p) \<and> typeof (getIndexStartValue p) = ''object''
   \<longrightarrow> validateQueryEndpoints' D p \<noteq> None"
  by (auto simp: validateQueryEndpoints'_def)

lemma value_or_path_index_end:
  "(getIndex p = VALUE_INDEX \<or> getIndex p = PathIndex c) \<and> hasEnd p \<and>
     notLooseNull (getIndexEndValue p) \<and> typeof (getIndexEndValue p) = ''object''
   \<longrightarrow> validateQueryEndpoints' D p \<noteq> None"
  by (auto simp: validateQueryEndpoints'_def)

lemma endpoints_checked_by_range_calls:
  "validateQueryEndpoints' D (queryParamsStartAt (queryParams' q) (defaultNull v) n) \<noteq> None
     \<longrightarrow> isl (startAt D q argc v n)"
  "validateQueryEndpoints' D (queryParamsStartAfter (queryParams' q) (defaultNull v) n) \<noteq> None
     \<longrightarrow> isl (startAfter D q argc v n)"
  "validateQueryEndpoints' D (queryParamsEndAt (queryParams' q) (defaultNull v) n) \<noteq> None
     \<longrightarrow> isl (endAt D q argc v n)"
  "validateQueryEndpoints' D (queryParamsEndBefore (queryParams' q) (defaultNull v) n) \<noteq> None
     \<longrightarrow> isl (endBefore D q argc v n)"
  by (simp_all add: isl_iff_no_Inr startAt_Inr startAfter_Inr endAt_Inr endBefore_Inr)

lemma key_index_range_value:
  "getIndex (queryParams' q) = KEY_INDEX \<and> typeof (defaultNull v) \<noteq> ''string''
   \<longrightarrow> isl (startAt D q argc v n) \<and> isl (startAfter D q argc v n) \<and>
       isl (endAt D q argc v n) \<and> isl (endBefore D q argc v n)"
  using key_index_start [of "queryParamsStartAt (queryParams' q) (defaultNull v) n" D]
    key_index_start [of "queryParamsStartAfter (queryParams' q) (defaultNull v) n" D]
    key_index_end [of "queryParamsEndAt (queryParams' q) (defaultNull v) n" D]
    key_index_end [of "queryParamsEndBefore (queryParams' q) (defaultNull v) n" D]
    endpoints_checked_by_range_calls [of D q v n argc]
  by (simp add: built_params_read builder_sets_bound)

lemma key_index_range_start_name:
  "getIndex (queryParams' q) = KEY_INDEX \<and> nm \<noteq> MIN_NAME D
   \<longrightarrow> isl (startAt D q argc v (Some nm)) \<and> isl (startAfter D q argc v (Some nm))"
  using key_index_start [of "queryParamsStartAt (queryParams' q) (defaultNull v) (Some nm)" D]
    key_index_start [of "queryParamsStartAfter (queryParams' q) (defaultNull v) (Some nm)" D]
    endpoints_checked_by_range_calls [of D q v "Some nm" argc]
  by (simp add: built_params_read builder_sets_bound)

lemma key_index_range_end_name:
  "getIndex (queryParams' q) = KEY_INDEX \<and> nm \<noteq> MAX_NAME D
   \<longrightarrow> isl (endAt D q argc v (Some nm)) \<and> isl (endBefore D q argc v (Some nm))"
  using key_index_end [of "queryParamsEndAt (queryParams' q) (defaultNull v) (Some nm)" D]
    key_index_end [of "queryParamsEndBefore (queryParams' q) (defaultNull v) (Some nm)" D]
    endpoints_checked_by_range_calls [of D q v "Some nm" argc]
  by (simp add: built_params_read builder_sets_bound)

lemma priority_index_range:
  "getIndex (queryParams' q) = PRIORITY_INDEX \<and> notLooseNull (defaultNull v) \<and>
     \<not> isValidPriority D (defaultNull v)
   \<longrightarrow> isl (startAt D q argc v n) \<and> isl (startAfter D q argc v n) \<and>
       isl (endAt D q argc v n) \<and> isl (endBefore D q argc v n)"
  using priority_index_start [of "queryParamsStartAt (queryParams' q) (defaultNull v) n" D]
    priority_index_start [of "queryParamsStartAfter (queryParams' q) (defaultNull v) n" D]
    priority_index_end [of "queryParamsEndAt (queryParams' q) (defaultNull v) n" D]
    priority_index_end [of "queryParamsEndBefore (queryParams' q) (defaultNull v) n" D]
    endpoints_checked_by_range_calls [of D q v n argc]
  by (simp add: built_params_read builder_sets_bound)

lemma value_or_path_index_range:
  "(getIndex (queryParams' q) = VALUE_INDEX \<or> getIndex (queryParams' q) = PathIndex c') \<and>
     notLooseNull (defaultNull v) \<and> typeof (defaultNull v) = ''object''
   \<longrightarrow> isl (startAt D q argc v n) \<and> isl (startAfter D q argc v n) \<and>
       isl (endAt D q argc v n) \<and> isl (endBefore D q argc v n)"
  using value_or_path_index_start
      [of "queryParamsStartAt (queryParams' q) (defaultNull v) n" c' D]
    value_or_path_index_start
      [of "queryParamsStartAfter (queryParams' q) (defaultNull v) n" c' D]
    value_or_path_index_end [of "queryParamsEndAt (queryParams' q) (defaultNull v) n" c' D]
    value_or_path_index_end
      [of "queryParamsEndBefore (queryParams' q) (defaultNull v) n" c' D]
    endpoints_checked_by_range_calls [of D q v n argc]
  by (simp add: built_params_read builder_sets_bound)

text \<open>
  C7. The endpoint check throws on parameters that order by key and have a start or end
  bound whose value is not a string or whose name is not the sentinel name the
  parameters report for a bound given without a name; on parameters that order by
  priority and have a start or end value that is neither null nor undefined nor a valid
  priority; and on parameters that order by value or by a child path and have a start or
  end value that is an object. The check is made by the call that builds the parameters:
  \<^verbatim>\<open>startAt\<close>, \<^verbatim>\<open>startAfter\<close>, \<^verbatim>\<open>endAt\<close>, \<^verbatim>\<open>endBefore\<close> and the four \<^verbatim>\<open>orderBy\<close> methods throw
  when the parameters they build fail it. So a range method throws at once when the query
  orders by key and the value is not a string or a name other than the sentinel is given,
  when the query orders by priority and the value is not a valid priority, and when the
  query orders by value or by a child path and the value is an object.
\<close>

theorem endpoints_checked_eagerly:
  "(getIndex p = KEY_INDEX \<and> hasStart p \<and>
      (typeof (getIndexStartValue p) \<noteq> ''string'' \<or>
       getIndexStartName (MIN_NAME D) p \<noteq> MIN_NAME D)
      \<longrightarrow> validateQueryEndpoints' D p \<noteq> None)
   \<and> (getIndex p = KEY_INDEX \<and> hasEnd p \<and>
      (typeof (getIndexEndValue p) \<noteq> ''string'' \<or>
       getIndexEndName (MAX_NAME D) p \<noteq> MAX_NAME D)
      \<longrightarrow> validateQueryEndpoints' D p \<noteq> None)
   \<and> (getIndex p = PRIORITY_INDEX \<and> hasStart p \<and> notLooseNull (getIndexStartValue p) \<and>
      \<not> isValidPriority D (getIndexStartValue p)
      \<longrightarrow> validateQueryEndpoints' D p \<noteq> None)
   \<and> (getIndex p = PRIORITY_INDEX \<and> hasEnd p \<and> notLooseNull (getIndexEndValue p) \<and>
      \<not> isValidPriority D (getIndexEndValue p)
      \<longrightarrow> validateQueryEndpoints' D p \<noteq> None)
   \<and> ((getIndex p = VALUE_INDEX \<or> getIndex p = PathIndex c') \<and> hasStart p \<and>
      notLooseNull (getIndexStartValue p) \<and> typeof (getIndexStartValue p) = ''object''
      \<longrightarrow> validateQueryEndpoints' D p \<noteq> None)
   \<and> ((getIndex p = VALUE_INDEX \<or> getIndex p = PathIndex c') \<and> hasEnd p \<and>
      notLooseNull (getIndexEndValue p) \<and> typeof (getIndexEndValue p) = ''object''
      \<longrightarrow> validateQueryEndpoints' D p \<noteq> None)
   \<and> (validateQueryEndpoints' D (queryParamsStartAt (queryParams' q) (defaultNull v) n) \<noteq> None
      \<longrightarrow> isl (startAt D q argc v n))
   \<and> (validateQueryEndpoints' D (queryParamsStartAfter (queryParams' q) (defaultNull v) n) \<noteq> None
      \<longrightarrow> isl (startAfter D q argc v n))
   \<and> (validateQueryEndpoints' D (queryParamsEndAt (queryParams' q) (defaultNull v) n) \<noteq> None
      \<longrightarrow> isl (endAt D q argc v n))
   \<and> (validateQueryEndpoints' D (queryParamsEndBefore (queryParams' q) (defaultNull v) n) \<noteq> None
      \<longrightarrow> isl (endBefore D q argc v n))
   \<and> (validateQueryEndpoints' D (queryParamsOrderBy (queryParams' q) KEY_INDEX) \<noteq> None
      \<longrightarrow> isl (orderByKey D q argc))
   \<and> (validateQueryEndpoints' D (queryParamsOrderBy (queryParams' q) PRIORITY_INDEX) \<noteq> None
      \<longrightarrow> isl (orderByPriority D q argc))
   \<and> (validateQueryEndpoints' D (queryParamsOrderBy (queryParams' q) VALUE_INDEX) \<noteq> None
      \<longrightarrow> isl (orderByValue D q argc))
   \<and> (validateQueryEndpoints' D
         (queryParamsOrderBy (queryParams' q) (PathIndex (newPath D c))) \<noteq> None
      \<longrightarrow> isl (orderByChild D q argc c))
   \<and> (getIndex (queryParams' q) = KEY_INDEX \<and> typeof (defaultNull v) \<noteq> ''string''
      \<longrightarrow> isl (startAt D q argc v n) \<and> isl (startAfter D q argc v n) \<and>
          isl (endAt D q argc v n) \<and> isl (endBefore D q argc v n))
   \<and> (getIndex (queryParams' q) = KEY_INDEX \<and> nm \<noteq> MIN_NAME D
      \<longrightarrow> isl (startAt D q argc v (Some nm)) \<and> isl (startAfter D q argc v (Some nm)))
   \<and> (getIndex (queryParams' q) = KEY_INDEX \<and> nm \<noteq> MAX_NAME D
      \<longrightarrow> isl (endAt D q argc v (Some nm)) \<and> isl (endBefore D q argc v (Some nm)))
   \<and> (getIndex (queryParams' q) = PRIORITY_INDEX \<and> notLooseNull (defaultNull v) \<and>
       \<not> isValidPriority D (defaultNull v)
      \<longrightarrow> isl (startAt D q argc v n) \<and> isl (startAfter D q argc v n) \<and>
          isl (endAt D q argc v n) \<and> isl (endBefore D q argc v n))
   \<and> ((getIndex (queryParams' q) = VALUE_INDEX \<or> getIndex (queryParams' q) = PathIndex c') \<and>
       notLooseNull (defaultNull v) \<and> typeof (defaultNull v) = ''object''
      \<longrightarrow> isl (startAt D q argc v n) \<and> isl (startAfter D q argc v n) \<and>
          isl (endAt D q argc v n) \<and> isl (endBefore D q argc v n))"
  by (intro conjI)
     (rule key_index_start key_index_end priority_index_start priority_index_end
        value_or_path_index_start value_or_path_index_end
        endpoints_checked_by_range_calls endpoints_checked_by_order_calls
        key_index_range_value key_index_range_start_name key_index_range_end_name
        priority_index_range value_or_path_index_range)+

theorem endpoints_checked_eagerly_witness:
  "validateQueryEndpoints' acceptingHelpers (queryParamsStartAt keyParams (JNum (Finite 5)) None)
     \<noteq> None
   \<and> validateQueryEndpoints' acceptingHelpers
       (queryParamsEndAt keyParams (JStr ''a'') (Some ''b'')) \<noteq> None
   \<and> validateQueryEndpoints' acceptingHelpers
       (queryParamsStartAfter priorityParams (JBool True) None) \<noteq> None
   \<and> validateQueryEndpoints' acceptingHelpers
       (queryParamsEndBefore priorityParams (JObject 7) None) \<noteq> None
   \<and> validateQueryEndpoints' acceptingHelpers
       (queryParamsStartAt (queryParamsOrderBy priorityParams VALUE_INDEX) (JObject 7) None)
       \<noteq> None
   \<and> validateQueryEndpoints' acceptingHelpers
       (queryParamsEndAt (queryParamsOrderBy priorityParams (PathIndex [''age'']))
          (JObject 7) None) \<noteq> None
   \<and> isl (startAt acceptingHelpers keyQuery 1 (JNum (Finite 5)) None)
   \<and> isl (startAfter acceptingHelpers keyQuery 1 (JNum (Finite 5)) None)
   \<and> isl (endAt acceptingHelpers keyQuery 1 (JNum (Finite 5)) None)
   \<and> isl (endBefore acceptingHelpers keyQuery 1 (JNum (Finite 5)) None)
   \<and> isl (startAt acceptingHelpers keyQuery 2 (JStr ''a'') (Some ''b''))
   \<and> isl (startAfter acceptingHelpers keyQuery 2 (JStr ''a'') (Some ''b''))
   \<and> isl (endAt acceptingHelpers keyQuery 2 (JStr ''a'') (Some ''b''))
   \<and> isl (endBefore acceptingHelpers keyQuery 2 (JStr ''a'') (Some ''b''))
   \<and> isl (startAt acceptingHelpers priorityQuery 1 (JBool True) None)
   \<and> isl (startAfter acceptingHelpers priorityQuery 1 (JBool True) None)
   \<and> isl (endAt acceptingHelpers priorityQuery 1 (JBool True) None)
   \<and> isl (endBefore acceptingHelpers priorityQuery 1 (JBool True) None)
   \<and> isl (startAt acceptingHelpers valueQuery 1 (JObject 7) None)
   \<and> isl (startAfter acceptingHelpers valueQuery 1 (JObject 7) None)
   \<and> isl (endAt acceptingHelpers valueQuery 1 (JObject 7) None)
   \<and> isl (endBefore acceptingHelpers valueQuery 1 (JObject 7) None)
   \<and> isl (orderByKey acceptingHelpers startAtFiveQuery 0)
   \<and> isl (orderByPriority acceptingHelpers
             (new_Query exampleDatabase [''messages'']
                (queryParamsStartAt keyParams (JBool True) None) False) 0)
   \<and> isl (orderByValue acceptingHelpers
             (new_Query exampleDatabase [''messages'']
                (queryParamsStartAt keyParams (JObject 7) None) False) 0)
   \<and> isl (orderByChild acceptingHelpers
             (new_Query exampleDatabase [''messages'']
                (queryParamsStartAt keyParams (JObject 7) None) False) 1 ''age'')"
proof -
  have kp: "getIndex keyParams = KEY_INDEX"
    by (simp add: keyParams_def getIndex_def)
  have names: "''b'' \<noteq> MIN_NAME acceptingHelpers" "''b'' \<noteq> MAX_NAME acceptingHelpers"
    by (simp_all add: acceptingHelpers_def)
  have notprio: "\<not> isValidPriority acceptingHelpers (JBool True)"
    "\<not> isValidPriority acceptingHelpers (JObject 7)"
    by (simp_all add: acceptingHelpers_def)
  have ob: "getIndex (queryParamsOrderBy p i) = i"
    "hasStart (queryParamsOrderBy p i) = hasStart p"
    "getIndexStartValue (queryParamsOrderBy p i) = getIndexStartValue p" for p i
    by (simp_all add: getIndex_def hasStart_def getIndexStartValue_def queryParamsOrderBy_def)
  have np: "newPath acceptingHelpers ''age'' = [''age'']"
    by (simp add: acceptingHelpers_def)
  note T = endpoints_checked_eagerly [where D = acceptingHelpers]
  have c1: "validateQueryEndpoints' acceptingHelpers
      (queryParamsStartAt keyParams (JNum (Finite 5)) None) \<noteq> None"
    using T [where p = "queryParamsStartAt keyParams (JNum (Finite 5)) None", THEN conjunct1]
    by (simp add: built_params_read builder_sets_bound kp)
  have c2: "validateQueryEndpoints' acceptingHelpers
       (queryParamsEndAt keyParams (JStr ''a'') (Some ''b'')) \<noteq> None"
    using T [where p = "queryParamsEndAt keyParams (JStr ''a'') (Some ''b'')",
        THEN conjunct2, THEN conjunct1] names
    by (simp add: built_params_read builder_sets_bound kp)
  have c3: "validateQueryEndpoints' acceptingHelpers
       (queryParamsStartAfter priorityParams (JBool True) None) \<noteq> None"
    using T [where p = "queryParamsStartAfter priorityParams (JBool True) None",
        THEN conjunct2, THEN conjunct2, THEN conjunct1] notprio
    by (simp add: built_params_read builder_sets_bound priorityParams_reads notLooseNull_def)
  have c4: "validateQueryEndpoints' acceptingHelpers
       (queryParamsEndBefore priorityParams (JObject 7) None) \<noteq> None"
    using T [where p = "queryParamsEndBefore priorityParams (JObject 7) None",
        THEN conjunct2, THEN conjunct2, THEN conjunct2, THEN conjunct1] notprio
    by (simp add: built_params_read builder_sets_bound priorityParams_reads notLooseNull_def)
  have c5: "validateQueryEndpoints' acceptingHelpers
       (queryParamsStartAt (queryParamsOrderBy priorityParams VALUE_INDEX) (JObject 7) None)
       \<noteq> None"
    using T [where p = "queryParamsStartAt (queryParamsOrderBy priorityParams VALUE_INDEX)
          (JObject 7) None",
        THEN conjunct2, THEN conjunct2, THEN conjunct2, THEN conjunct2, THEN conjunct1]
    by (simp add: built_params_read builder_sets_bound ob notLooseNull_def)
  have c6: "validateQueryEndpoints' acceptingHelpers
       (queryParamsEndAt (queryParamsOrderBy priorityParams (PathIndex [''age'']))
          (JObject 7) None) \<noteq> None"
    using T [where p = "queryParamsEndAt (queryParamsOrderBy priorityParams (PathIndex [''age'']))
          (JObject 7) None" and c' = "[''age'']",
        THEN conjunct2, THEN conjunct2, THEN conjunct2, THEN conjunct2, THEN conjunct2,
        THEN conjunct1]
    by (simp add: built_params_read builder_sets_bound ob notLooseNull_def)
  have c15: "isl (startAt acceptingHelpers keyQuery 1 (JNum (Finite 5)) None) \<and>
      isl (startAfter acceptingHelpers keyQuery 1 (JNum (Finite 5)) None) \<and>
      isl (endAt acceptingHelpers keyQuery 1 (JNum (Finite 5)) None) \<and>
      isl (endBefore acceptingHelpers keyQuery 1 (JNum (Finite 5)) None)"
    using T [where q = keyQuery and v = "JNum (Finite 5)" and n = None and argc = 1,
        THEN conjunct2, THEN conjunct2, THEN conjunct2, THEN conjunct2,
        THEN conjunct2, THEN conjunct2, THEN conjunct2, THEN conjunct2,
        THEN conjunct2, THEN conjunct2, THEN conjunct2, THEN conjunct2,
        THEN conjunct2, THEN conjunct2, THEN conjunct1]
    by (simp add: keyQuery_fields kp defaultNull_def)
  have c16: "isl (startAt acceptingHelpers keyQuery 2 (JStr ''a'') (Some ''b'')) \<and>
      isl (startAfter acceptingHelpers keyQuery 2 (JStr ''a'') (Some ''b''))"
    using T [where q = keyQuery and v = "JStr ''a''" and nm = "''b''" and argc = 2,
        THEN conjunct2, THEN conjunct2, THEN conjunct2, THEN conjunct2,
        THEN conjunct2, THEN conjunct2, THEN conjunct2, THEN conjunct2,
        THEN conjunct2, THEN conjunct2, THEN conjunct2, THEN conjunct2,
        THEN conjunct2, THEN conjunct2, THEN conjunct2, THEN conjunct1] names
    by (simp add: keyQuery_fields kp)
  have c17: "isl (endAt acceptingHelpers keyQuery 2 (JStr ''a'') (Some ''b'')) \<and>
      isl (endBefore acceptingHelpers keyQuery 2 (JStr ''a'') (Some ''b''))"
    using T [where q = keyQuery and v = "JStr ''a''" and nm = "''b''" and argc = 2,
        THEN conjunct2, THEN conjunct2, THEN conjunct2, THEN conjunct2,
        THEN conjunct2, THEN conjunct2, THEN conjunct2, THEN conjunct2,
        THEN conjunct2, THEN conjunct2, THEN conjunct2, THEN conjunct2,
        THEN conjunct2, THEN conjunct2, THEN conjunct2, THEN conjunct2,
        THEN conjunct1] names
    by (simp add: keyQuery_fields kp)
  have c18: "isl (startAt acceptingHelpers priorityQuery 1 (JBool True) None) \<and>
      isl (startAfter acceptingHelpers priorityQuery 1 (JBool True) None) \<and>
      isl (endAt acceptingHelpers priorityQuery 1 (JBool True) None) \<and>
      isl (endBefore acceptingHelpers priorityQuery 1 (JBool True) None)"
    using T [where q = priorityQuery and v = "JBool True" and n = None and argc = 1,
        THEN conjunct2, THEN conjunct2, THEN conjunct2, THEN conjunct2,
        THEN conjunct2, THEN conjunct2, THEN conjunct2, THEN conjunct2,
        THEN conjunct2, THEN conjunct2, THEN conjunct2, THEN conjunct2,
        THEN conjunct2, THEN conjunct2, THEN conjunct2, THEN conjunct2,
        THEN conjunct2, THEN conjunct1] notprio
    by (simp add: priorityQuery_fields priorityParams_reads defaultNull_def notLooseNull_def)
  have c19: "isl (startAt acceptingHelpers valueQuery 1 (JObject 7) None) \<and>
      isl (startAfter acceptingHelpers valueQuery 1 (JObject 7) None) \<and>
      isl (endAt acceptingHelpers valueQuery 1 (JObject 7) None) \<and>
      isl (endBefore acceptingHelpers valueQuery 1 (JObject 7) None)"
    using T [where q = valueQuery and v = "JObject 7" and n = None and argc = 1
        and c' = "[]",
        THEN conjunct2, THEN conjunct2, THEN conjunct2, THEN conjunct2,
        THEN conjunct2, THEN conjunct2, THEN conjunct2, THEN conjunct2,
        THEN conjunct2, THEN conjunct2, THEN conjunct2, THEN conjunct2,
        THEN conjunct2, THEN conjunct2, THEN conjunct2, THEN conjunct2,
        THEN conjunct2, THEN conjunct2]
    by (simp add: valueQuery_fields ob defaultNull_def notLooseNull_def)
  have c11: "isl (orderByKey acceptingHelpers startAtFiveQuery 0)"
    using T [where q = startAtFiveQuery and argc = 0,
        THEN conjunct2, THEN conjunct2, THEN conjunct2, THEN conjunct2,
        THEN conjunct2, THEN conjunct2, THEN conjunct2, THEN conjunct2,
        THEN conjunct2, THEN conjunct2, THEN conjunct1]
      T [where p = "queryParamsOrderBy (queryParamsStartAt priorityParams (JNum (Finite 5)) None)
          KEY_INDEX", THEN conjunct1]
    by (simp add: startAtFiveQuery_fields ob built_params_read builder_sets_bound)
  let ?bool = "new_Query exampleDatabase [''messages'']
                (queryParamsStartAt keyParams (JBool True) None) False"
  let ?obj = "new_Query exampleDatabase [''messages'']
                (queryParamsStartAt keyParams (JObject 7) None) False"
  have c12: "isl (orderByPriority acceptingHelpers ?bool 0)"
    using T [where q = ?bool and argc = 0,
        THEN conjunct2, THEN conjunct2, THEN conjunct2, THEN conjunct2,
        THEN conjunct2, THEN conjunct2, THEN conjunct2, THEN conjunct2,
        THEN conjunct2, THEN conjunct2, THEN conjunct2, THEN conjunct1]
      T [where p = "queryParamsOrderBy (queryParamsStartAt keyParams (JBool True) None)
          PRIORITY_INDEX", THEN conjunct2, THEN conjunct2, THEN conjunct1] notprio
    by (simp add: new_Query_def ob built_params_read builder_sets_bound notLooseNull_def)
  have c13: "isl (orderByValue acceptingHelpers ?obj 0)"
    using T [where q = ?obj and argc = 0,
        THEN conjunct2, THEN conjunct2, THEN conjunct2, THEN conjunct2,
        THEN conjunct2, THEN conjunct2, THEN conjunct2, THEN conjunct2,
        THEN conjunct2, THEN conjunct2, THEN conjunct2, THEN conjunct2,
        THEN conjunct1]
      T [where p = "queryParamsOrderBy (queryParamsStartAt keyParams (JObject 7) None)
          VALUE_INDEX" and c' = "[]",
        THEN conjunct2, THEN conjunct2, THEN conjunct2, THEN conjunct2, THEN conjunct1]
    by (simp add: new_Query_def ob built_params_read builder_sets_bound notLooseNull_def)
  have c14: "isl (orderByChild acceptingHelpers ?obj 1 ''age'')"
    using T [where q = ?obj and argc = 1 and c = "''age''",
        THEN conjunct2, THEN conjunct2, THEN conjunct2, THEN conjunct2,
        THEN conjunct2, THEN conjunct2, THEN conjunct2, THEN conjunct2,
        THEN conjunct2, THEN conjunct2, THEN conjunct2, THEN conjunct2,
        THEN conjunct2, THEN conjunct1]
      T [where p = "queryParamsOrderBy (queryParamsStartAt keyParams (JObject 7) None)
          (PathIndex [''age''])" and c' = "[''age'']",
        THEN conjunct2, THEN conjunct2, THEN conjunct2, THEN conjunct2, THEN conjunct1] np
    by (simp add: new_Query_def ob built_params_read builder_sets_bound notLooseNull_def)
  show ?thesis
    using c1 c2 c3 c4 c5 c6 c15 c16 c17 c18 c19 c11 c12 c13 c14 by (simp only: simp_thms)
qed

section \<open>equalTo\<close>

lemma equalToChecks_None:
  "equalToChecks D q argc v n = None \<longleftrightarrow>
     validateArgCount D ''Query.equalTo'' 1 2 argc = None \<and>
     validateFirebaseDataArg D ''Query.equalTo'' 1 v (path q) False = None \<and>
     validateKey D ''Query.equalTo'' 2 n True = None \<and>
     \<not> hasStart (queryParams' q) \<and> \<not> hasEnd (queryParams' q)"
  by (auto simp: equalToChecks_def firstError_def split: option.splits)

lemma equalTo_returns:
  "equalTo D q argc v n = Inr r \<Longrightarrow>
   bindQ (startAt D q 2 v n) (\<lambda>q'. endAt D q' 2 v n) = Inr r"
  by (simp add: equalTo_def thenDo_Inr)

lemma startAt_endAt_params:
  assumes "bindQ (startAt D q a1 v n) (\<lambda>q'. endAt D q' a2 v n) = Inr r"
  shows "queryParams' r =
           queryParamsEndAt (queryParamsStartAt (queryParams' q) (defaultNull v) n)
             (defaultNull v) n
         \<and> database r = database q \<and> path r = path q \<and> orderByCalled' r = orderByCalled' q"
proof (cases "startAt D q a1 v n")
  case (Inl e)
  then show ?thesis using assms by simp
next
  case (Inr mid)
  then have mid: "mid = new_Query (database q) (path q)
           (queryParamsStartAt (queryParams' q) (defaultNull v) n) (orderByCalled' q)"
    by (simp add: startAt_Inr)
  have "endAt D mid a2 v n = Inr r" using assms Inr by simp
  then have "r = new_Query (database mid) (path mid)
           (queryParamsEndAt (queryParams' mid) (defaultNull v) n) (orderByCalled' mid)"
    by (simp add: endAt_Inr)
  then show ?thesis using mid by (simp add: new_Query_def)
qed

text \<open>
  C8. On a query with no start bound and no end bound, whatever \<^verbatim>\<open>equalTo\<close> returns is
  what \<^verbatim>\<open>startAt\<close> followed by \<^verbatim>\<open>endAt\<close>, with the same value and name, returns: the
  receiver with the inclusive start bound and the inclusive end bound set to the value and
  name. When the arguments pass the argument checks of \<^verbatim>\<open>equalTo\<close>, the outcome of
  \<^verbatim>\<open>equalTo\<close> is the outcome of that composition, also when the composition throws. On a
  query that has a start bound or an end bound, \<^verbatim>\<open>equalTo\<close> throws.
\<close>

theorem equalTo_is_startAt_endAt:
  "(\<not> hasStart (queryParams' q) \<and> \<not> hasEnd (queryParams' q) \<and> equalTo D q argc v n = Inr r
      \<longrightarrow> bindQ (startAt D q 2 v n) (\<lambda>q'. endAt D q' 2 v n) = Inr r \<and>
          queryParams' r =
            queryParamsEndAt (queryParamsStartAt (queryParams' q) (defaultNull v) n)
              (defaultNull v) n)
   \<and> (\<not> hasStart (queryParams' q) \<and> \<not> hasEnd (queryParams' q) \<and>
       validateArgCount D ''Query.equalTo'' 1 2 argc = None \<and>
       validateFirebaseDataArg D ''Query.equalTo'' 1 v (path q) False = None \<and>
       validateKey D ''Query.equalTo'' 2 n True = None
      \<longrightarrow> equalTo D q argc v n = bindQ (startAt D q 2 v n) (\<lambda>q'. endAt D q' 2 v n))
   \<and> (hasStart (queryParams' q) \<or> hasEnd (queryParams' q) \<longrightarrow> isl (equalTo D q argc v n))"
proof (intro conjI impI)
  assume a: "\<not> hasStart (queryParams' q) \<and> \<not> hasEnd (queryParams' q) \<and>
    equalTo D q argc v n = Inr r"
  then have eq: "equalTo D q argc v n = Inr r" by simp
  show "bindQ (startAt D q 2 v n) (\<lambda>q'. endAt D q' 2 v n) = Inr r"
    by (rule equalTo_returns [OF eq])
  show "queryParams' r =
            queryParamsEndAt (queryParamsStartAt (queryParams' q) (defaultNull v) n)
              (defaultNull v) n"
    using startAt_endAt_params [OF equalTo_returns [OF eq]] by simp
next
  assume "\<not> hasStart (queryParams' q) \<and> \<not> hasEnd (queryParams' q) \<and>
       validateArgCount D ''Query.equalTo'' 1 2 argc = None \<and>
       validateFirebaseDataArg D ''Query.equalTo'' 1 v (path q) False = None \<and>
       validateKey D ''Query.equalTo'' 2 n True = None"
  then have "equalToChecks D q argc v n = None" by (simp add: equalToChecks_None)
  then show "equalTo D q argc v n = bindQ (startAt D q 2 v n) (\<lambda>q'. endAt D q' 2 v n)"
    by (simp add: equalTo_def)
next
  assume "hasStart (queryParams' q) \<or> hasEnd (queryParams' q)"
  then have "equalToChecks D q argc v n \<noteq> None" by (auto simp: equalToChecks_None)
  then show "isl (equalTo D q argc v n)" by (simp add: equalTo_def isl_thenDo)
qed

theorem equalTo_is_startAt_endAt_witness:
  "equalTo acceptingHelpers priorityQuery 1 (JNum (Finite 5)) None =
     Inr (new_Query exampleDatabase [''messages'']
            \<lparr>qpIndex = PRIORITY_INDEX,
             qpStart = Some (Bound (JNum (Finite 5)) None True),
             qpEnd = Some (Bound (JNum (Finite 5)) None True),
             qpLimit = None\<rparr> False)
   \<and> bindQ (startAt acceptingHelpers priorityQuery 2 (JNum (Finite 5)) None)
       (\<lambda>q'. endAt acceptingHelpers q' 2 (JNum (Finite 5)) None) =
     Inr (new_Query exampleDatabase [''messages'']
            \<lparr>qpIndex = PRIORITY_INDEX,
             qpStart = Some (Bound (JNum (Finite 5)) None True),
             qpEnd = Some (Bound (JNum (Finite 5)) None True),
             qpLimit = None\<rparr> False)
   \<and> isl (equalTo acceptingHelpers startAtFiveQuery 1 (JNum (Finite 5)) None)"
proof -
  have s: "startAt acceptingHelpers priorityQuery 2 (JNum (Finite 5)) None = Inr startAtFiveQuery"
    by (simp add: startAt_Inr acceptingHelpers_def priorityQuery_fields defaultNull_def
        startAtFiveQuery_def validateLimit'_def validateQueryEndpoints'_def
        queryParamsStartAt_def priorityParams_def hasStart_def hasEnd_def hasLimit_def
        getIndex_def getIndexStartValue_def notLooseNull_def)
  have e: "endAt acceptingHelpers startAtFiveQuery 2 (JNum (Finite 5)) None =
     Inr (new_Query exampleDatabase [''messages'']
            \<lparr>qpIndex = PRIORITY_INDEX,
             qpStart = Some (Bound (JNum (Finite 5)) None True),
             qpEnd = Some (Bound (JNum (Finite 5)) None True),
             qpLimit = None\<rparr> False)"
    by (simp add: endAt_Inr acceptingHelpers_def startAtFiveQuery_fields defaultNull_def
        validateLimit'_def validateQueryEndpoints'_def queryParamsEndAt_def
        queryParamsStartAt_def priorityParams_def hasStart_def hasEnd_def hasLimit_def
        getIndex_def getIndexStartValue_def getIndexEndValue_def notLooseNull_def)
  have args: "validateArgCount acceptingHelpers ''Query.equalTo'' 1 2 1 = None"
    "validateFirebaseDataArg acceptingHelpers ''Query.equalTo'' 1 (JNum (Finite 5))
       (path priorityQuery) False = None"
    "validateKey acceptingHelpers ''Query.equalTo'' 2 None True = None"
    by (simp_all add: acceptingHelpers_def)
  have bounds: "\<not> hasStart (queryParams' priorityQuery)" "\<not> hasEnd (queryParams' priorityQuery)"
    "hasStart (queryParams' startAtFiveQuery)"
    by (simp_all add: priorityQuery_fields startAtFiveQuery_fields hasStart_def hasEnd_def
        priorityParams_def queryParamsStartAt_def)
  have comp: "bindQ (startAt acceptingHelpers priorityQuery 2 (JNum (Finite 5)) None)
       (\<lambda>q'. endAt acceptingHelpers q' 2 (JNum (Finite 5)) None) =
     Inr (new_Query exampleDatabase [''messages'']
            \<lparr>qpIndex = PRIORITY_INDEX,
             qpStart = Some (Bound (JNum (Finite 5)) None True),
             qpEnd = Some (Bound (JNum (Finite 5)) None True),
             qpLimit = None\<rparr> False)"
    by (simp only: s e bindQ_simps)
  have eq: "equalTo acceptingHelpers priorityQuery 1 (JNum (Finite 5)) None =
      bindQ (startAt acceptingHelpers priorityQuery 2 (JNum (Finite 5)) None)
       (\<lambda>q'. endAt acceptingHelpers q' 2 (JNum (Finite 5)) None)"
    using equalTo_is_startAt_endAt [where D = acceptingHelpers and q = priorityQuery
        and argc = 1 and v = "JNum (Finite 5)" and n = None] args bounds
    by blast
  have thr: "isl (equalTo acceptingHelpers startAtFiveQuery 1 (JNum (Finite 5)) None)"
    using equalTo_is_startAt_endAt [where D = acceptingHelpers and q = startAtFiveQuery
        and argc = 1 and v = "JNum (Finite 5)" and n = None] bounds
    by blast
  show ?thesis using comp eq thr by (simp only: simp_thms)
qed

section \<open>toString\<close>

text \<open>
  C9 (as amended). \<^verbatim>\<open>toString\<close>, called with no argument, returns the string of the repo
  followed by the URL-encoded path of the query, and nothing else: two queries with the
  same repo and path have the same string, whatever their parameters.
\<close>

theorem toString_is_location:
  "(validateArgCount D ''Query.toString'' 0 0 argc = None
      \<longrightarrow> toString D q argc =
            Inr (repoToString D (repo q) @ pathToUrlEncodedString D (path q)))
   \<and> (repo q = repo q' \<and> path q = path q' \<longrightarrow> toString D q argc = toString D q' argc)
   \<and> toString D (q\<lparr>queryParams' := p\<rparr>) argc = toString D q argc"
  by (simp add: toString_def)

theorem toString_is_location_witness:
  "toString acceptingHelpers firstThreeQuery 0 = Inr ''https://repo.example/messages''
   \<and> toString acceptingHelpers firstThreeQuery 0 = toString acceptingHelpers startAtFiveQuery 0"
proof -
  have args: "validateArgCount acceptingHelpers ''Query.toString'' 0 0 0 = None"
    by (simp add: acceptingHelpers_def)
  have f: "repo firstThreeQuery = 0" "path firstThreeQuery = [''messages'']"
    "repo startAtFiveQuery = 0" "path startAtFiveQuery = [''messages'']"
    by (simp_all add: firstThreeQuery_def startAtFiveQuery_def new_Query_def
        exampleDatabase_def)
  have s: "repoToString acceptingHelpers 0 @
      pathToUrlEncodedString acceptingHelpers [''messages''] = ''https://repo.example/messages''"
    by (simp add: acceptingHelpers_def)
  note loc = toString_is_location [where D = acceptingHelpers and q = firstThreeQuery
        and q' = startAtFiveQuery and argc = 0 and p = priorityParams]
  have a: "toString acceptingHelpers firstThreeQuery 0 = Inr ''https://repo.example/messages''"
    using loc [THEN conjunct1] args f s by simp
  have b: "toString acceptingHelpers firstThreeQuery 0 = toString acceptingHelpers startAtFiveQuery 0"
    using loc [THEN conjunct2, THEN conjunct1] f by simp
  show ?thesis using a b by (rule conjI)
qed

theorem toString_without_params_counterexample:
  "toString acceptingHelpers keyQuery 0 = Inr ''https://repo.example/messages''
   \<and> toString acceptingHelpers firstThreeQuery 0 = Inr ''https://repo.example/messages''
   \<and> queryParams' keyQuery \<noteq> queryParams' firstThreeQuery
   \<and> isEqual acceptingHelpers keyQuery 1 (Inr firstThreeQuery) = Inr False"
  by (simp add: toString_def isEqual_def queryIdentifier_def queryObject_def
      queryParamsGetQueryObject_def emptyObject_def acceptingHelpers_def keyQuery_def
      keyParams_def firstThreeQuery_def priorityParams_def queryParamsLimitToFirst_def
      new_Query_def exampleDatabase_def encObject_def)

section \<open>Cancel callback or context\<close>

lemma truthy_not_null: "truthy c \<Longrightarrow> c \<noteq> JNull"
  by (cases c) simp_all

lemma getCancelAndContextArgs'_both:
  "truthy c \<and> truthy ctx \<and> validateCallback D fnName 3 c True = None \<and>
     validateContextObject D fnName 4 ctx True = None
   \<longrightarrow> getCancelAndContextArgs' D fnName c ctx = Inr \<lparr>retCancel = c, retContext = ctx\<rparr>"
  by (simp add: getCancelAndContextArgs'_def)

lemma getCancelAndContextArgs'_context:
  "truthy c \<and> \<not> truthy ctx \<and> typeof c = ''object''
   \<longrightarrow> getCancelAndContextArgs' D fnName c ctx = Inr \<lparr>retCancel = JNull, retContext = c\<rparr>"
  by (auto simp: getCancelAndContextArgs'_def truthy_not_null)

lemma getCancelAndContextArgs'_cancel:
  "truthy c \<and> \<not> truthy ctx \<and> typeof c = ''function''
   \<longrightarrow> getCancelAndContextArgs' D fnName c ctx = Inr \<lparr>retCancel = c, retContext = JNull\<rparr>"
  by (auto simp: getCancelAndContextArgs'_def)

lemma getCancelAndContextArgs'_other:
  "truthy c \<and> \<not> truthy ctx \<and> typeof c \<noteq> ''object'' \<and> typeof c \<noteq> ''function''
   \<longrightarrow> getCancelAndContextArgs' D fnName c ctx =
       Inl (Error (errorPrefix D fnName 3 True @
                   '' must either be a cancel callback or a context object.''))"
  by (auto simp: getCancelAndContextArgs'_def)

lemma getCancelAndContextArgs'_none:
  "\<not> truthy c \<and> \<not> truthy ctx
   \<longrightarrow> getCancelAndContextArgs' D fnName c ctx = Inr \<lparr>retCancel = JNull, retContext = JNull\<rparr>"
  by (auto simp: getCancelAndContextArgs'_def)

lemma on_uses_getCancelAndContextArgs':
  "validateArgCount D ''Query.on'' 2 4 argc = None \<and>
     validateEventType D ''Query.on'' 1 eventType False = None \<and>
     validateCallback D ''Query.on'' 2 callback False = None
   \<longrightarrow> on D q argc eventType callback c ctx =
       bindQ (getCancelAndContextArgs' D ''Query.on'' c ctx)
         (\<lambda>ret. Inr (if eventType = ''value''
                      then onValueEvent callback (retCancel ret) (retContext ret)
                      else onChildEvent [(eventType, callback)] (retCancel ret) (retContext ret),
                      callback))"
  by (cases "getCancelAndContextArgs' D ''Query.on'' c ctx") (simp_all add: on_def)

lemma onceRet_uses_getCancelAndContextArgs':
  "validateArgCount D ''Query.once'' 1 4 argc = None \<and>
     validateEventType D ''Query.once'' 1 eventType False = None \<and>
     validateCallback D ''Query.once'' 2 callback True = None
   \<longrightarrow> onceRet D q argc eventType callback c ctx = getCancelAndContextArgs' D ''Query.once'' c ctx"
  by (simp add: onceRet_def)

text \<open>
  C10 (as amended). The third and fourth arguments of \<^verbatim>\<open>on\<close> and \<^verbatim>\<open>once\<close> are read by
  their truth value. When both are truthy, the third is the cancel callback and the fourth
  the context, once the two pass the callback and context checks. When the third is
  truthy and the fourth is not, a third argument that is an object is the context, with
  no cancel callback; one that is a function is the cancel callback, with no context; any
  other truthy third argument makes the call throw. When neither is truthy there is no
  cancel callback, no context and no error from this step: so a third argument that is
  \<^verbatim>\<open>false\<close>, \<^verbatim>\<open>0\<close>, \<^verbatim>\<open>NaN\<close> or the empty string is read as absent. \<^verbatim>\<open>on\<close> and \<^verbatim>\<open>once\<close>,
  called with arguments that pass their first checks, read the two arguments in this way.
\<close>

theorem cancel_or_context:
  "(truthy c \<and> truthy ctx \<and> validateCallback D fnName 3 c True = None \<and>
      validateContextObject D fnName 4 ctx True = None
      \<longrightarrow> getCancelAndContextArgs' D fnName c ctx =
            Inr \<lparr>retCancel = c, retContext = ctx\<rparr>)
   \<and> (truthy c \<and> \<not> truthy ctx \<and> typeof c = ''object''
      \<longrightarrow> getCancelAndContextArgs' D fnName c ctx =
            Inr \<lparr>retCancel = JNull, retContext = c\<rparr>)
   \<and> (truthy c \<and> \<not> truthy ctx \<and> typeof c = ''function''
      \<longrightarrow> getCancelAndContextArgs' D fnName c ctx =
            Inr \<lparr>retCancel = c, retContext = JNull\<rparr>)
   \<and> (truthy c \<and> \<not> truthy ctx \<and> typeof c \<noteq> ''object'' \<and> typeof c \<noteq> ''function''
      \<longrightarrow> getCancelAndContextArgs' D fnName c ctx =
            Inl (Error (errorPrefix D fnName 3 True @
                        '' must either be a cancel callback or a context object.'')))
   \<and> (\<not> truthy c \<and> \<not> truthy ctx
      \<longrightarrow> getCancelAndContextArgs' D fnName c ctx =
            Inr \<lparr>retCancel = JNull, retContext = JNull\<rparr>)
   \<and> (validateArgCount D ''Query.on'' 2 4 argc = None \<and>
       validateEventType D ''Query.on'' 1 eventType False = None \<and>
       validateCallback D ''Query.on'' 2 callback False = None
      \<longrightarrow> on D q argc eventType callback c ctx =
            bindQ (getCancelAndContextArgs' D ''Query.on'' c ctx)
              (\<lambda>ret. Inr (if eventType = ''value''
                      then onValueEvent callback (retCancel ret) (retContext ret)
                      else onChildEvent [(eventType, callback)] (retCancel ret) (retContext ret),
                      callback)))
   \<and> (validateArgCount D ''Query.once'' 1 4 argc = None \<and>
       validateEventType D ''Query.once'' 1 eventType False = None \<and>
       validateCallback D ''Query.once'' 2 callback True = None
      \<longrightarrow> onceRet D q argc eventType callback c ctx =
            getCancelAndContextArgs' D ''Query.once'' c ctx)"
  by (intro conjI)
     (rule getCancelAndContextArgs'_both getCancelAndContextArgs'_context
        getCancelAndContextArgs'_cancel getCancelAndContextArgs'_other
        getCancelAndContextArgs'_none on_uses_getCancelAndContextArgs'
        onceRet_uses_getCancelAndContextArgs')+

theorem cancel_or_context_witness:
  "getCancelAndContextArgs' acceptingHelpers ''Query.on'' (JFunction 1) (JObject 2) =
     Inr \<lparr>retCancel = JFunction 1, retContext = JObject 2\<rparr>
   \<and> getCancelAndContextArgs' acceptingHelpers ''Query.on'' (JObject 2) JUndefined =
     Inr \<lparr>retCancel = JNull, retContext = JObject 2\<rparr>
   \<and> getCancelAndContextArgs' acceptingHelpers ''Query.on'' (JFunction 1) JUndefined =
     Inr \<lparr>retCancel = JFunction 1, retContext = JNull\<rparr>
   \<and> getCancelAndContextArgs' acceptingHelpers ''Query.on'' (JStr ''x'') JUndefined =
     Inl (Error ''Query.on failed: argument must either be a cancel callback or a context object.'')
   \<and> getCancelAndContextArgs' acceptingHelpers ''Query.on'' JNull JUndefined =
     Inr \<lparr>retCancel = JNull, retContext = JNull\<rparr>
   \<and> on acceptingHelpers priorityQuery 3 ''value'' (JFunction 0) (JObject 2) JUndefined =
     Inr (ValueEventRegistration (JFunction 0) JNull (JObject 2), JFunction 0)
   \<and> onceRet acceptingHelpers priorityQuery 3 ''value'' JUndefined (JFunction 1) JUndefined =
     Inr \<lparr>retCancel = JFunction 1, retContext = JNull\<rparr>"
proof -
  have a: "getCancelAndContextArgs' acceptingHelpers ''Query.on'' (JFunction 1) (JObject 2) =
     Inr \<lparr>retCancel = JFunction 1, retContext = JObject 2\<rparr>"
    using cancel_or_context [where D = acceptingHelpers and fnName = "''Query.on''"
        and c = "JFunction 1" and ctx = "JObject 2", THEN conjunct1]
    by (simp add: acceptingHelpers_def)
  have b: "getCancelAndContextArgs' acceptingHelpers ''Query.on'' (JObject 2) JUndefined =
     Inr \<lparr>retCancel = JNull, retContext = JObject 2\<rparr>"
    using cancel_or_context [where D = acceptingHelpers and fnName = "''Query.on''"
        and c = "JObject 2" and ctx = JUndefined, THEN conjunct2, THEN conjunct1]
    by simp
  have c: "getCancelAndContextArgs' acceptingHelpers ''Query.on'' (JFunction 1) JUndefined =
     Inr \<lparr>retCancel = JFunction 1, retContext = JNull\<rparr>"
    using cancel_or_context [where D = acceptingHelpers and fnName = "''Query.on''"
        and c = "JFunction 1" and ctx = JUndefined,
        THEN conjunct2, THEN conjunct2, THEN conjunct1]
    by simp
  have d: "getCancelAndContextArgs' acceptingHelpers ''Query.on'' (JStr ''x'') JUndefined =
     Inl (Error ''Query.on failed: argument must either be a cancel callback or a context object.'')"
    using cancel_or_context [where D = acceptingHelpers and fnName = "''Query.on''"
        and c = "JStr ''x''" and ctx = JUndefined,
        THEN conjunct2, THEN conjunct2, THEN conjunct2, THEN conjunct1]
    by (simp add: acceptingHelpers_def)
  have e: "getCancelAndContextArgs' acceptingHelpers ''Query.on'' JNull JUndefined =
     Inr \<lparr>retCancel = JNull, retContext = JNull\<rparr>"
    using cancel_or_context [where D = acceptingHelpers and fnName = "''Query.on''"
        and c = JNull and ctx = JUndefined,
        THEN conjunct2, THEN conjunct2, THEN conjunct2, THEN conjunct2, THEN conjunct1]
    by simp
  have f: "on acceptingHelpers priorityQuery 3 ''value'' (JFunction 0) (JObject 2) JUndefined =
     Inr (ValueEventRegistration (JFunction 0) JNull (JObject 2), JFunction 0)"
    using cancel_or_context [where D = acceptingHelpers and q = priorityQuery and argc = 3
        and eventType = "''value''" and callback = "JFunction 0"
        and c = "JObject 2" and ctx = JUndefined,
        THEN conjunct2, THEN conjunct2, THEN conjunct2, THEN conjunct2, THEN conjunct2,
        THEN conjunct1] b
    by (simp add: acceptingHelpers_def onValueEvent_def orNull_def)
  have g: "onceRet acceptingHelpers priorityQuery 3 ''value'' JUndefined (JFunction 1) JUndefined =
     Inr \<lparr>retCancel = JFunction 1, retContext = JNull\<rparr>"
    using cancel_or_context [where D = acceptingHelpers and q = priorityQuery and argc = 3
        and eventType = "''value''" and callback = JUndefined
        and c = "JFunction 1" and ctx = JUndefined and fnName = "''Query.once''",
        THEN conjunct2, THEN conjunct2, THEN conjunct2, THEN conjunct2, THEN conjunct2,
        THEN conjunct2]
      cancel_or_context [where D = acceptingHelpers and fnName = "''Query.once''"
        and c = "JFunction 1" and ctx = JUndefined,
        THEN conjunct2, THEN conjunct2, THEN conjunct1]
    by (simp add: acceptingHelpers_def)
  show ?thesis using a b c d e f g by (simp only: simp_thms)
qed

theorem falsy_third_argument_counterexample:
  "JBool False \<noteq> JNull
   \<and> typeof (JBool False) \<noteq> ''object'' \<and> typeof (JBool False) \<noteq> ''function''
   \<and> getCancelAndContextArgs' acceptingHelpers ''Query.on'' (JBool False) JUndefined =
       Inr \<lparr>retCancel = JNull, retContext = JNull\<rparr>
   \<and> on acceptingHelpers priorityQuery 3 ''value'' (JFunction 0) (JBool False) JUndefined =
       Inr (ValueEventRegistration (JFunction 0) JNull JNull, JFunction 0)
   \<and> on acceptingHelpers priorityQuery 3 ''value'' (JFunction 0) (JNum (Finite 0)) JUndefined =
       Inr (ValueEventRegistration (JFunction 0) JNull JNull, JFunction 0)"
  by (simp add: on_def getCancelAndContextArgs'_def acceptingHelpers_def onValueEvent_def
      orNull_def)

end
